theory Spec2Isabelle
  imports Complex_Main "HOL-Library.Word"
begin

section \<open>Data model and operations\<close>

text \<open>
  JavaScript numbers are modelled as \<^typ>\<open>real\<close>: the arithmetic of the source is
  read as exact arithmetic, so rounding error is outside the model. Strings are
  \<^typ>\<open>string\<close>, arrays are lists, a \<open>Map\<close> is a partial function, and a \<open>Set\<close>
  (which iterates in insertion order) is a list without duplicates.
\<close>

subsection \<open>AutoTuner.calculateSettings (AutoTuner.ts)\<close>

text \<open>
  The object returned by \<open>calculateSettings\<close>: \<open>mix\<close> carries the four noise colours
  \<open>w, p, b, d\<close>, the rumble settings \<open>r, rf, rs\<close> (volume, frequency, speed) and the
  sub-bass volume \<open>s\<close>; \<open>eq\<close> is the ten-entry array of band gains.
\<close>

record mix_settings =
  mix_w :: real
  mix_p :: real
  mix_b :: real
  mix_d :: real
  mix_r :: real
  mix_rf :: real
  mix_rs :: real
  mix_s :: real

record tuner_settings =
  mix :: mix_settings
  eq :: "real list"

text \<open>
  The locals of the source before the \<open>switch\<close>: \<open>mix = {w:0,p:0,b:0,d:0}\<close>,
  \<open>rumble = {vol:0, freq:55, speed:1.0}\<close>, \<open>sub = {vol:0, freq:55}\<close> and ten zeros in
  \<open>eq\<close>. The returned \<open>mix\<close> spreads the colours and adds \<open>r = rumble.vol\<close>,
  \<open>rf = rumble.freq\<close>, \<open>rs = rumble.speed\<close>, \<open>s = sub.vol\<close>.
\<close>

definition default_mix :: mix_settings where
  "default_mix = \<lparr>mix_w = 0, mix_p = 0, mix_b = 0, mix_d = 0,
                  mix_r = 0, mix_rf = 55, mix_rs = 1.0, mix_s = 0\<rparr>"

definition default_eq :: "real list" where
  "default_eq = [0, 0, 0, 0, 0, 0, 0, 0, 0, 0]"

definition calculateSettings :: "string \<Rightarrow> real \<Rightarrow> real \<Rightarrow> real \<Rightarrow> tuner_settings" where
  "calculateSettings targetType pitch sharpness resonance =
     (let p = pitch / 100; s = sharpness / 100; r = resonance / 100 in
      if targetType = ''footsteps'' then
        (let m = default_mix\<lparr>mix_b := 0.6 + (r * 0.4),
                             mix_d := 0.2 + (1.0 - p) * 0.3,
                             mix_r := 0.5 + (r * 0.5),
                             mix_rf := 40 + (p * 40),
                             mix_rs := 0.5 + (s * 2.0)\<rparr>;
             e = default_eq[0 := 5 + (r * 5), 1 := 3 + (r * 3)]
         in if s > 0.6
            then \<lparr>mix = m\<lparr>mix_p := s - 0.6\<rparr>, eq = e[5 := 2]\<rparr>
            else \<lparr>mix = m, eq = e\<rparr>)
      else if targetType = ''voices'' then
        \<lparr>mix = default_mix\<lparr>mix_p := 0.5 + (s * 0.3),
                            mix_b := 0.3 + (1.0 - p) * 0.2,
                            mix_w := (if s > 0.8 then (s - 0.8) * 0.5 else 0),
                            mix_r := 0.2,
                            mix_rf := 80,
                            mix_rs := 0.2\<rparr>,
         eq = default_eq[2 := 2, 3 := 4 - (p * 2), 4 := 4 + (s * 2), 5 := 2 + (s * 4)]\<rparr>
      else if targetType = ''traffic'' then
        \<lparr>mix = default_mix\<lparr>mix_d := 0.6 + (1.0 - s) * 0.4,
                            mix_b := 0.4 + (p * 0.3),
                            mix_r := 0.4,
                            mix_rf := 50 + (p * 50),
                            mix_rs := 0.1\<rparr>,
         eq = default_eq[0 := 4, 1 := 3, 9 := -5]\<rparr>
      else if targetType = ''tinnitus'' then
        \<lparr>mix = default_mix\<lparr>mix_w := 0.3 + (p * 0.7),
                            mix_p := 0.4 + (1.0 - p) * 0.6,
                            mix_r := 0\<rparr>,
         eq = default_eq[6 := 2, 7 := 2, 8 := 2]\<rparr>
      else \<lparr>mix = default_mix, eq = default_eq\<rparr>)"

text \<open>The ranges of a noise mix: gains in \<open>[0,1]\<close>, rumble frequency in \<open>[20,300]\<close> Hz,
  rumble modulation speed in \<open>[0.1,10]\<close> Hz (the \<open>minValue\<close>/\<open>maxValue\<close> of the
  processor's parameter descriptors).\<close>

definition unit_gain :: "real \<Rightarrow> bool" where
  "unit_gain g = (0 \<le> g \<and> g \<le> 1)"

definition mix_in_range :: "mix_settings \<Rightarrow> bool" where
  "mix_in_range m =
     (unit_gain (mix_w m) \<and> unit_gain (mix_p m) \<and> unit_gain (mix_b m) \<and>
      unit_gain (mix_d m) \<and> unit_gain (mix_r m) \<and>
      20 \<le> mix_rf m \<and> mix_rf m \<le> 300 \<and> 0.1 \<le> mix_rs m \<and> mix_rs m \<le> 10)"

subsection \<open>ImpactDetector (ImpactDetector.ts)\<close>

text \<open>
  A detection band: its id and its frequency range. The display names and the description
  of the source's \<open>DetectionBand\<close> play no part in any computation and are left out.
\<close>

record detection_band =
  band_id :: string
  minFreq :: real
  maxFreq :: real

definition DETECTION_BANDS :: "detection_band list" where
  "DETECTION_BANDS =
     [\<lparr>band_id = ''ultra_low'', minFreq = 20, maxFreq = 50\<rparr>,
      \<lparr>band_id = ''footsteps'', minFreq = 50, maxFreq = 100\<rparr>,
      \<lparr>band_id = ''light_impact'', minFreq = 100, maxFreq = 300\<rparr>,
      \<lparr>band_id = ''hard_impact'', minFreq = 300, maxFreq = 1000\<rparr>,
      \<lparr>band_id = ''low_freq'', minFreq = 50, maxFreq = 250\<rparr>,
      \<lparr>band_id = ''voice_male'', minFreq = 100, maxFreq = 500\<rparr>,
      \<lparr>band_id = ''voice_female'', minFreq = 300, maxFreq = 3000\<rparr>,
      \<lparr>band_id = ''high_freq'', minFreq = 2000, maxFreq = 8000\<rparr>]"

text \<open>The simple modes: mode id and the band ids it stands for.\<close>

definition SIMPLE_MODES :: "(string \<times> string list) list" where
  "SIMPLE_MODES =
     [(''footsteps_all'', [''ultra_low'', ''footsteps'', ''light_impact'']),
      (''impact_all'', [''ultra_low'', ''footsteps'', ''light_impact'', ''hard_impact'']),
      (''voice_all'', [''voice_male'', ''voice_female'']),
      (''all'', [])]"

text \<open>
  The calls the detector makes on its callbacks, in the order it makes them:
  \<open>onNoiseScoreUpdate(score)\<close> and \<open>onImpact(intensity, bandId)\<close>, where
  \<open>bandId\<close> may be \<open>undefined\<close>.
\<close>

datatype detector_event = NoiseScoreUpdate real | Impact real "string option"

text \<open>
  The fields of the class. \<open>onImpact\<close> and \<open>onNoiseScoreUpdate\<close> say whether the
  optional callback was supplied. \<open>frequencyBinCount\<close> is the analyser's bin count;
  the byte array \<open>frequencyData\<close> is refilled by the analyser on every tick and is
  therefore an argument of \<open>loop\<close>. The animation-frame handle is a platform handle
  and is not modelled. \<open>enabledBandIds\<close> is a \<open>Set\<close>: a list in insertion order.
\<close>

record impact_detector =
  frequencyBinCount :: nat
  onImpact :: bool
  onNoiseScoreUpdate :: bool
  isRunning :: bool
  sensitivity :: real
  enabledBandIds :: "string list"
  isSimpleMode :: bool
  baselineEnergies :: "string \<rightharpoonup> real"
  impactCooldownFrames :: nat
  noiseScore :: real
  reactiveEnabled :: bool
  adaptiveSpeed :: real
  currentNoiseGain :: real
  sampleRate :: real

definition BASELINE_SMOOTHING :: real where
  "BASELINE_SMOOTHING = 0.98"

definition MAX_IMPACT_COOLDOWN :: nat where
  "MAX_IMPACT_COOLDOWN = 20"

text \<open>\<open>Set.add\<close> and \<open>Set.delete\<close> on the insertion-ordered list.\<close>

definition set_add :: "'a \<Rightarrow> 'a list \<Rightarrow> 'a list" where
  "set_add x xs = (if x \<in> set xs then xs else xs @ [x])"

definition set_delete :: "'a \<Rightarrow> 'a list \<Rightarrow> 'a list" where
  "set_delete x xs = removeAll x xs"

text \<open>
  \<open>m.get(k) || d\<close>: the stored number unless it is missing or falsy; the only falsy
  real number is \<open>0\<close>.
\<close>

definition or_default :: "real option \<Rightarrow> real \<Rightarrow> real" where
  "or_default v d = (case v of None \<Rightarrow> d | Some x \<Rightarrow> if x = 0 then d else x)"

definition updateNoiseGain :: "impact_detector \<Rightarrow> real \<Rightarrow> impact_detector" where
  "updateNoiseGain det gain = det\<lparr>currentNoiseGain := gain\<rparr>"

definition getNoiseScore :: "impact_detector \<Rightarrow> real" where
  "getNoiseScore det = noiseScore det"

definition setSimpleMode :: "impact_detector \<Rightarrow> string \<Rightarrow> impact_detector" where
  "setSimpleMode det modeId =
     (let det1 = det\<lparr>isSimpleMode := True, enabledBandIds := [],
                      baselineEnergies := Map.empty\<rparr>
      in case find (\<lambda>m. fst m = modeId) SIMPLE_MODES of
           None \<Rightarrow> det1
         | Some mode \<Rightarrow> det1\<lparr>enabledBandIds := fold set_add (snd mode) (enabledBandIds det1)\<rparr>)"

definition setDetailedMode :: "impact_detector \<Rightarrow> string list \<Rightarrow> impact_detector" where
  "setDetailedMode det bandIds =
     (let det1 = det\<lparr>isSimpleMode := False, enabledBandIds := [],
                      baselineEnergies := Map.empty\<rparr>
      in det1\<lparr>enabledBandIds := fold set_add bandIds (enabledBandIds det1)\<rparr>)"

definition toggleBand :: "impact_detector \<Rightarrow> string \<Rightarrow> bool \<Rightarrow> impact_detector" where
  "toggleBand det bandId enabled =
     (if enabled then det\<lparr>enabledBandIds := set_add bandId (enabledBandIds det)\<rparr>
      else det\<lparr>enabledBandIds := set_delete bandId (enabledBandIds det)\<rparr>)"

text \<open>
  The constructor: the field initialisers, \<open>fftSize = 2048\<close> (hence 1024 bins), and
  \<open>setSimpleMode('all')\<close>. Its arguments are the two callbacks (whether each is
  supplied) and the sample rate.
\<close>

definition new_detector :: "bool \<Rightarrow> bool \<Rightarrow> real \<Rightarrow> impact_detector" where
  "new_detector cbImpact cbScore rate =
     setSimpleMode
       \<lparr>frequencyBinCount = 1024, onImpact = cbImpact, onNoiseScoreUpdate = cbScore,
        isRunning = False, sensitivity = 0.5, enabledBandIds = [], isSimpleMode = True,
        baselineEnergies = Map.empty, impactCooldownFrames = 0, noiseScore = 0,
        reactiveEnabled = True, adaptiveSpeed = 0.5, currentNoiseGain = 0,
        sampleRate = rate\<rparr> ''all''"

text \<open>\<open>Math.round\<close> rounds to the nearest integer, halves upwards.\<close>

definition Math_round :: "real \<Rightarrow> int" where
  "Math_round x = \<lfloor>x + 1 / 2\<rfloor>"

text \<open>
  \<open>freqToBin\<close>. The sample rate is that of the audio context and is positive; the model
  says nothing useful for a rate of \<open>0\<close>, where JavaScript divides by zero.
\<close>

definition freqToBin :: "impact_detector \<Rightarrow> real \<Rightarrow> int" where
  "freqToBin det freq =
     (let nyquist = sampleRate det / 2; binCount = real (frequencyBinCount det)
      in Math_round ((freq / nyquist) * binCount))"

text \<open>
  \<open>getBandEnergy\<close> on the byte array \<open>frequencyData\<close>. Past the early return,
  \<open>0 \<le> minBin < maxBin \<le> length - 1\<close>, so every read of the loop is in range.
\<close>

definition getBandEnergy :: "impact_detector \<Rightarrow> 8 word list \<Rightarrow> real \<Rightarrow> real \<Rightarrow> real" where
  "getBandEnergy det frequencyData lo hi =
     (let minBin = max 0 (freqToBin det lo);
          maxBin = min (int (length frequencyData) - 1) (freqToBin det hi)
      in if minBin \<ge> maxBin then 0
         else (\<Sum>i\<leftarrow>[nat minBin..<nat maxBin + 1]. real (unat (frequencyData ! i)))
                / real_of_int (maxBin - minBin + 1) / 255)"

definition updateBaseline :: "impact_detector \<Rightarrow> string \<Rightarrow> real \<Rightarrow> impact_detector" where
  "updateBaseline det bandId currentEnergy =
     (let prevBaseline = or_default (baselineEnergies det bandId) currentEnergy;
          noiseContribution = currentNoiseGain det * 0.3;
          newBaseline =
            (if currentEnergy < prevBaseline
             then prevBaseline * BASELINE_SMOOTHING + currentEnergy * (1 - BASELINE_SMOOTHING)
             else prevBaseline * 0.95 + currentEnergy * 0.05);
          minBaseline = noiseContribution
      in det\<lparr>baselineEnergies := (baselineEnergies det)(bandId \<mapsto> max newBaseline minBaseline)\<rparr>)"

text \<open>
  The \<open>for (const bandId of this.enabledBandIds)\<close> loop of \<open>loop\<close>. The accumulator is
  the detector (its baselines are updated band by band) with the locals
  \<open>totalDeviation\<close>, \<open>maxDeviation\<close> and \<open>maxDeviationBandId\<close>. A band id that is not
  in \<open>DETECTION_BANDS\<close> is skipped (\<open>continue\<close>).
\<close>

fun band_loop ::
  "8 word list \<Rightarrow> string list \<Rightarrow> impact_detector \<times> real \<times> real \<times> string option \<Rightarrow>
   impact_detector \<times> real \<times> real \<times> string option" where
  "band_loop frequencyData [] acc = acc"
| "band_loop frequencyData (bandId # rest) (det, totalDeviation, maxDeviation, maxId) =
     (case find (\<lambda>b. band_id b = bandId) DETECTION_BANDS of
        None \<Rightarrow> band_loop frequencyData rest (det, totalDeviation, maxDeviation, maxId)
      | Some band \<Rightarrow>
          (let energy = getBandEnergy det frequencyData (minFreq band) (maxFreq band);
               baseline = or_default (baselineEnergies det bandId) energy;
               deviation = max 0 (energy - baseline)
           in band_loop frequencyData rest
                (updateBaseline det bandId energy,
                 totalDeviation + deviation,
                 (if deviation > maxDeviation then deviation else maxDeviation),
                 (if deviation > maxDeviation then Some bandId else maxId))))"

text \<open>
  The middle part of \<open>loop\<close>: the deviations of this tick. The result is the detector
  with its baselines updated, and the final values of \<open>totalDeviation\<close>,
  \<open>maxDeviation\<close> and \<open>maxDeviationBandId\<close>.
\<close>

definition deviations ::
  "impact_detector \<Rightarrow> 8 word list \<Rightarrow> impact_detector \<times> real \<times> real \<times> string option" where
  "deviations det frequencyData =
     (if length (enabledBandIds det) = 0 then
        (let energy = getBandEnergy det frequencyData 20 20000;
             baseline = or_default (baselineEnergies det ''all'') energy;
             deviation = max 0 (energy - baseline)
         in (updateBaseline det ''all'' energy, deviation, deviation, None))
      else
        (case band_loop frequencyData (enabledBandIds det) (det, 0, 0, None) of
           (det', totalDeviation, maxDeviation, maxId) \<Rightarrow>
             (det', totalDeviation / real (length (enabledBandIds det)), maxDeviation, maxId)))"

text \<open>
  One tick of \<open>loop\<close> on the frequency data the analyser delivers. The result is the new
  detector and the callback calls made, in order.
\<close>

definition cooldown_step :: "impact_detector \<Rightarrow> impact_detector" where
  "cooldown_step det =
     (if impactCooldownFrames det > 0
      then det\<lparr>impactCooldownFrames := impactCooldownFrames det - 1\<rparr> else det)"

definition impactThreshold :: "impact_detector \<Rightarrow> real" where
  "impactThreshold det = 0.3 * (1.0 - sensitivity det) + 0.05"

definition loop :: "impact_detector \<Rightarrow> 8 word list \<Rightarrow> impact_detector \<times> detector_event list" where
  "loop det frequencyData =
     (if \<not> isRunning det then (det, [])
      else
        (case deviations (cooldown_step det) frequencyData of
           (det1, totalDeviation, maxDeviation, maxDeviationBandId) \<Rightarrow>
             (let smoothing = 0.92;
                  det2 = det1\<lparr>noiseScore :=
                           noiseScore det1 * smoothing + totalDeviation * (1 - smoothing)\<rparr>;
                  scoreCall = (if onNoiseScoreUpdate det2
                               then [NoiseScoreUpdate (noiseScore det2)] else [])
              in if reactiveEnabled det2 \<and> impactCooldownFrames det2 = 0 then
                   (if maxDeviation > impactThreshold det2 then
                      (let intensity = min (maxDeviation * 3) 1.0
                       in (det2\<lparr>impactCooldownFrames := MAX_IMPACT_COOLDOWN\<rparr>,
                           scoreCall @
                           (if onImpact det2 then [Impact intensity maxDeviationBandId] else [])))
                    else (det2, scoreCall))
                 else (det2, scoreCall))))"

definition start :: "impact_detector \<Rightarrow> 8 word list \<Rightarrow> impact_detector \<times> detector_event list" where
  "start det frequencyData =
     (if isRunning det then (det, [])
      else loop (det\<lparr>isRunning := True, baselineEnergies := Map.empty, noiseScore := 0\<rparr>)
             frequencyData)"

definition stop :: "impact_detector \<Rightarrow> impact_detector" where
  "stop det = det\<lparr>isRunning := False\<rparr>"

text \<open>
  A run of the detector: \<open>requestAnimationFrame\<close> calls \<open>loop\<close> again on every frame.
  Each frame brings the frequency data of that frame and the noise gain that the owner
  of the detector has reported through \<open>updateNoiseGain\<close> since the previous frame
  (the engine does so from inside \<open>onNoiseScoreUpdate\<close>). The result lists, frame by
  frame, the callback calls made.
\<close>

fun run :: "impact_detector \<Rightarrow> (8 word list \<times> real) list \<Rightarrow> detector_event list list" where
  "run det [] = []"
| "run det ((frequencyData, gain) # frames) =
     (case loop (updateNoiseGain det gain) frequencyData of
        (det', calls) \<Rightarrow> calls # run det' frames)"

text \<open>The state in which frame \<open>i\<close> of a run starts (after the gain report of that frame).\<close>

fun state_at :: "impact_detector \<Rightarrow> (8 word list \<times> real) list \<Rightarrow> nat \<Rightarrow> impact_detector" where
  "state_at det [] i = det"
| "state_at det ((frequencyData, gain) # frames) 0 = updateNoiseGain det gain"
| "state_at det ((frequencyData, gain) # frames) (Suc i) =
     state_at (fst (loop (updateNoiseGain det gain) frequencyData)) frames i"

definition is_impact :: "detector_event \<Rightarrow> bool" where
  "is_impact ev = (case ev of Impact _ _ \<Rightarrow> True | NoiseScoreUpdate _ \<Rightarrow> False)"

text \<open>The value of the local \<open>maxDeviation\<close> in a tick that starts in \<open>det\<close>.\<close>

definition maxDeviation_of :: "impact_detector \<Rightarrow> 8 word list \<Rightarrow> real" where
  "maxDeviation_of det frequencyData =
     (case deviations (cooldown_step det) frequencyData of (_, _, m, _) \<Rightarrow> m)"

text \<open>
  The deviation of one band in a tick that starts in \<open>det\<close>: its energy over its stored
  baseline, as the loop computes it for that band.
\<close>

definition band_deviation :: "impact_detector \<Rightarrow> 8 word list \<Rightarrow> detection_band \<Rightarrow> real" where
  "band_deviation det frequencyData band =
     (let energy = getBandEnergy det frequencyData (minFreq band) (maxFreq band)
      in max 0 (energy - or_default (baselineEnergies det (band_id band)) energy))"

text \<open>The value of the local \<open>maxDeviationBandId\<close> in a tick that starts in \<open>det\<close>.\<close>

definition maxDeviationBandId_of :: "impact_detector \<Rightarrow> 8 word list \<Rightarrow> string option" where
  "maxDeviationBandId_of det frequencyData =
     (case deviations (cooldown_step det) frequencyData of (_, _, _, i) \<Rightarrow> i)"

text \<open>
  The bands the loop visits: the enabled ids that \<open>DETECTION_BANDS.find\<close> resolves, in
  order. In full-spectrum mode the single pseudo-band is \<open>'all'\<close> over 20 Hz to 20 kHz.
\<close>

definition known_bands :: "string list \<Rightarrow> detection_band list" where
  "known_bands ids = List.map_filter (\<lambda>bandId. find (\<lambda>b. band_id b = bandId) DETECTION_BANDS) ids"

definition full_spectrum :: detection_band where
  "full_spectrum = \<lparr>band_id = ''all'', minFreq = 20, maxFreq = 20000\<rparr>"

text \<open>The \<open>onImpact\<close> calls among the callback calls of a tick.\<close>

definition impacts :: "detector_event list \<Rightarrow> detector_event list" where
  "impacts calls = filter is_impact calls"

text \<open>
  The cooldown counter on its own, when every tick exceeds the threshold: the number of
  impacts in each of \<open>n\<close> ticks that start with the counter at \<open>c\<close>.
\<close>

fun impact_counts :: "nat \<Rightarrow> nat \<Rightarrow> nat list" where
  "impact_counts c 0 = []"
| "impact_counts c (Suc n) =
     (if c \<le> 1 then 1 # impact_counts MAX_IMPACT_COOLDOWN n else 0 # impact_counts (c - 1) n)"

text \<open>
  Holding one band at a constant energy for \<open>n\<close> ticks: \<open>updateBaseline\<close> applied
  \<open>n\<close> times. \<open>stored_baseline\<close> reads the map, with \<open>0\<close> for a missing entry (the
  source treats a missing entry and a stored \<open>0\<close> alike); \<open>with_baseline\<close> is the
  detector with one entry of the map set.
\<close>

definition hold_energy :: "impact_detector \<Rightarrow> string \<Rightarrow> real \<Rightarrow> nat \<Rightarrow> impact_detector" where
  "hold_energy det bandId e n = ((\<lambda>d. updateBaseline d bandId e) ^^ n) det"

definition stored_baseline :: "impact_detector \<Rightarrow> string \<Rightarrow> real" where
  "stored_baseline det bandId = (case baselineEnergies det bandId of None \<Rightarrow> 0 | Some b \<Rightarrow> b)"

definition with_baseline :: "impact_detector \<Rightarrow> string \<Rightarrow> real \<Rightarrow> impact_detector" where
  "with_baseline det bandId b = det\<lparr>baselineEnergies := (baselineEnergies det)(bandId \<mapsto> b)\<rparr>"

text \<open>
  Concrete detectors and inputs used to exercise the theorems. \<open>demo_detector\<close> is a
  running detector in full-spectrum mode at 44.1 kHz with sensitivity 1 and a baseline of
  \<open>0.1\<close>; \<open>demo_frames\<close> is forty frames of a full-scale spectrum with a reported
  noise gain of \<open>0.1\<close>. \<open>two_band_detector\<close> is a running detector in detailed
  mode with two bands enabled and a baseline for each. \<open>silent_detector\<close> is a fresh
  detector after one observation of digital silence, with the noise gain then reported as
  \<open>0.1\<close>.
\<close>

definition demo_data :: "8 word list" where
  "demo_data = replicate 1024 255"

definition demo_detector :: impact_detector where
  "demo_detector = (new_detector True True 44100)
     \<lparr>isRunning := True, sensitivity := 1, baselineEnergies := [''all'' \<mapsto> 1 / 10]\<rparr>"

definition demo_frames :: "(8 word list \<times> real) list" where
  "demo_frames = replicate 40 (demo_data, 1 / 10)"

definition two_band_detector :: impact_detector where
  "two_band_detector =
     (setDetailedMode (new_detector True True 44100) [''footsteps'', ''hard_impact''])
       \<lparr>isRunning := True,
        baselineEnergies := [''footsteps'' \<mapsto> 1 / 2, ''hard_impact'' \<mapsto> 1 / 5]\<rparr>"

definition silent_detector :: impact_detector where
  "silent_detector =
     updateNoiseGain (updateBaseline (new_detector True True 44100) ''all'' 0) (1 / 10)"

subsection \<open>NoiseProcessor (the worklet embedded in AudioEngine.ts, and noise-processor.ts)\<close>

text \<open>
  The source holds three copies of the processor: the one embedded as a string in
  AudioEngine.ts, a stand-alone copy of it, and a rumble-capable variant with three more
  parameters and four phase accumulators. The state is the recursive filter state of the
  colours; the rumble-capable variant extends it.
\<close>

record noise_state =
  b0 :: real
  b1 :: real
  b2 :: real
  b3 :: real
  b4 :: real
  b5 :: real
  b6 :: real
  lastBrown :: real
  lastDark :: real

record rumble_state = noise_state +
  rumblePhase1 :: real
  rumblePhase2 :: real
  rumblePhase3 :: real
  rumbleModPhase :: real

text \<open>
  The parameters of one render call. The k-rate parameters are read at index 0 only
  (\<open>whiteGainParam[0]\<close>), so each is the number found there; \<open>masterGain\<close> is a-rate
  and is the whole array.
\<close>

record noise_params =
  whiteGain :: real
  pinkGain :: real
  brownGain :: real
  darkGain :: real
  masterGain :: "real list"

record rumble_params = noise_params +
  rumbleGain :: real
  rumbleFreq :: real
  rumbleSpeed :: real

definition initial_noise_state :: noise_state where
  "initial_noise_state =
     \<lparr>b0 = 0, b1 = 0, b2 = 0, b3 = 0, b4 = 0, b5 = 0, b6 = 0, lastBrown = 0, lastDark = 0\<rparr>"

definition initial_rumble_state :: rumble_state where
  "initial_rumble_state =
     \<lparr>b0 = 0, b1 = 0, b2 = 0, b3 = 0, b4 = 0, b5 = 0, b6 = 0, lastBrown = 0, lastDark = 0,
      rumblePhase1 = 0, rumblePhase2 = 0, rumblePhase3 = 0, rumbleModPhase = 0\<rparr>"

text \<open>
  \<open>shouldUseArray ? masterGainParam[i] : masterGainParam[0]\<close>. A read past the end of
  the array is \<open>undefined\<close> in JavaScript and makes the sample \<open>NaN\<close>; it is
  \<open>None\<close> here, and a sample is a \<^typ>\<open>real option\<close>.
\<close>

definition masterGain_at :: "real list \<Rightarrow> nat \<Rightarrow> real option" where
  "masterGain_at masterGainParam i =
     (let j = (if length masterGainParam > 1 then i else 0)
      in if j < length masterGainParam then Some (masterGainParam ! j) else None)"

text \<open>
  The part of the per-sample body that the three copies share word for word: from
  \<open>let mixedOutput = 0\<close> to the dark-brown term. \<open>white\<close> is the white-noise sample
  \<open>Math.random() * 2 - 1\<close>. The result is the new filter state and \<open>mixedOutput\<close>.
\<close>

definition colours ::
  "real \<Rightarrow> real \<Rightarrow> real \<Rightarrow> real \<Rightarrow> 'a noise_state_scheme \<Rightarrow> real \<Rightarrow>
   'a noise_state_scheme \<times> real" where
  "colours wGain pGain bGain dGain st white =
     (let mixed0 = 0;
          mixed1 = (if wGain > 0 then mixed0 + white * wGain else mixed0);
          (st1, mixed2) =
            (if pGain > 0 then
               (let s = st\<lparr>b0 := 0.99886 * b0 st + white * 0.0555179,
                           b1 := 0.99332 * b1 st + white * 0.0750759,
                           b2 := 0.96900 * b2 st + white * 0.1538520,
                           b3 := 0.86650 * b3 st + white * 0.3104856,
                           b4 := 0.55000 * b4 st + white * 0.5329522,
                           b5 := -0.7616 * b5 st - white * 0.0168980\<rparr>;
                    pink = b0 s + b1 s + b2 s + b3 s + b4 s + b5 s + b6 s + white * 0.5362
                in (s\<lparr>b6 := white * 0.115926\<rparr>, mixed1 + (pink * 0.11) * pGain))
             else (st, mixed1));
          brownUpdate = (lastBrown st1 + (0.02 * white)) / 1.02;
          st2 = st1\<lparr>lastBrown := brownUpdate\<rparr>;
          mixed3 = (if bGain > 0 then mixed2 + (brownUpdate * 3.5) * bGain else mixed2);
          darkUpdate = (lastDark st2 + (0.005 * white)) / 1.005;
          st3 = st2\<lparr>lastDark := darkUpdate\<rparr>;
          mixed4 = (if dGain > 0 then mixed3 + (darkUpdate * 4.0) * dGain else mixed3)
      in (st3, mixed4))"

text \<open>
  The per-sample loop over one channel of the processor without rumble. The channel is
  given by the values \<open>Math.random()\<close> returns for its samples, one per sample in
  order; \<open>i\<close> is the index of the next sample. The result is the filter state after
  the channel and the samples written to it.
\<close>

fun channel_loop ::
  "noise_params \<Rightarrow> nat \<Rightarrow> real list \<Rightarrow> noise_state \<Rightarrow> noise_state \<times> real option list" where
  "channel_loop p i [] st = (st, [])"
| "channel_loop p i (random # rest) st =
     (let mGain = masterGain_at (masterGain p) i;
          white = random * 2 - 1;
          (st1, mixedOutput) = colours (whiteGain p) (pinkGain p) (brownGain p) (darkGain p) st white;
          (st2, samples) = channel_loop p (Suc i) rest st1
      in (st2, map_option (\<lambda>g. mixedOutput * g) mGain # samples))"

fun channels_loop ::
  "noise_params \<Rightarrow> real list list \<Rightarrow> noise_state \<Rightarrow> noise_state \<times> real option list list" where
  "channels_loop p [] st = (st, [])"
| "channels_loop p (channel # rest) st =
     (let (st1, samples) = channel_loop p 0 channel st;
          (st2, output) = channels_loop p rest st1
      in (st2, samples # output))"

text \<open>
  \<open>process\<close> of the processor without rumble. \<open>draws\<close> gives, for each channel of
  \<open>outputs[0]\<close>, the values \<open>Math.random()\<close> returns for its samples, so its shape is
  the shape of the output; when all gains are zero no random number is drawn and only the
  shape is used. The result is the new state and the content of the channels.
\<close>

definition process ::
  "noise_params \<Rightarrow> noise_state \<Rightarrow> real list list \<Rightarrow> noise_state \<times> real option list list" where
  "process p st draws =
     (if whiteGain p = 0 \<and> pinkGain p = 0 \<and> brownGain p = 0 \<and> darkGain p = 0
      then (st, map (\<lambda>channel. replicate (length channel) (Some 0)) draws)
      else channels_loop p draws st)"

text \<open>
  The rumble of the rumble-capable variant: a phase past \<open>2\<pi>\<close> is wrapped once;
  \<open>r\<close> is the local \<open>rumble\<close> before the modulation and \<open>modulation\<close> is \<open>mod\<close>.
\<close>

definition wrap_phase :: "real \<Rightarrow> real" where
  "wrap_phase phase = (if phase > 2 * pi then phase - 2 * pi else phase)"

definition rumble ::
  "real \<Rightarrow> real \<Rightarrow> real \<Rightarrow> real \<Rightarrow> real \<Rightarrow> rumble_state \<Rightarrow> real \<Rightarrow> rumble_state \<times> real" where
  "rumble rGain inc1 inc2 inc3 modInc st mixedOutput =
     (if rGain > 0 then
        (let st1 = st\<lparr>rumblePhase1 := wrap_phase (rumblePhase1 st + inc1),
                      rumblePhase2 := wrap_phase (rumblePhase2 st + inc2),
                      rumblePhase3 := wrap_phase (rumblePhase3 st + inc3),
                      rumbleModPhase := wrap_phase (rumbleModPhase st + modInc)\<rparr>;
             r = sin (rumblePhase1 st1) * 0.5 + sin (rumblePhase2 st1) * 0.3
                   + sin (rumblePhase3 st1) * 0.2;
             modulation = 1.0 + sin (rumbleModPhase st1) * 0.3
         in (st1, mixedOutput + (r * modulation) * rGain * 0.8))
      else (st, mixedOutput))"

text \<open>
  The loops of the rumble-capable variant. \<open>rate\<close> is \<open>globalThis.sampleRate || 44100\<close>;
  the four increments are computed once per channel.
\<close>

fun rumble_channel_loop ::
  "rumble_params \<Rightarrow> real \<Rightarrow> nat \<Rightarrow> real list \<Rightarrow> rumble_state \<Rightarrow>
   rumble_state \<times> real option list" where
  "rumble_channel_loop p rate i [] st = (st, [])"
| "rumble_channel_loop p rate i (random # rest) st =
     (let inc1 = (2 * pi * rumbleFreq p) / rate;
          inc2 = (2 * pi * rumbleFreq p * 1.13) / rate;
          inc3 = (2 * pi * rumbleFreq p * 1.31) / rate;
          modInc = (2 * pi * rumbleSpeed p) / rate;
          mGain = masterGain_at (masterGain p) i;
          white = random * 2 - 1;
          (st1, mixed) = colours (whiteGain p) (pinkGain p) (brownGain p) (darkGain p) st white;
          (st2, mixedOutput) = rumble (rumbleGain p) inc1 inc2 inc3 modInc st1 mixed;
          (st3, samples) = rumble_channel_loop p rate (Suc i) rest st2
      in (st3, map_option (\<lambda>g. mixedOutput * g) mGain # samples))"

fun rumble_channels_loop ::
  "rumble_params \<Rightarrow> real \<Rightarrow> real list list \<Rightarrow> rumble_state \<Rightarrow>
   rumble_state \<times> real option list list" where
  "rumble_channels_loop p rate [] st = (st, [])"
| "rumble_channels_loop p rate (channel # rest) st =
     (let (st1, samples) = rumble_channel_loop p rate 0 channel st;
          (st2, output) = rumble_channels_loop p rate rest st1
      in (st2, samples # output))"

text \<open>
  \<open>process\<close> of the rumble-capable variant; \<open>globalSampleRate\<close> is
  \<open>globalThis.sampleRate\<close>, which may be undefined.
\<close>

definition process_rumble ::
  "real option \<Rightarrow> rumble_params \<Rightarrow> rumble_state \<Rightarrow> real list list \<Rightarrow>
   rumble_state \<times> real option list list" where
  "process_rumble globalSampleRate p st draws =
     (if whiteGain p = 0 \<and> pinkGain p = 0 \<and> brownGain p = 0 \<and> darkGain p = 0 \<and> rumbleGain p = 0
      then (st, map (\<lambda>channel. replicate (length channel) (Some 0)) draws)
      else rumble_channels_loop p (or_default globalSampleRate 44100) draws st)"

text \<open>
  Successive render calls: each call has its parameters and its draws, and the state is
  carried from call to call. The result lists the output of each call.
\<close>

fun render_calls ::
  "noise_state \<Rightarrow> (noise_params \<times> real list list) list \<Rightarrow> real option list list list" where
  "render_calls st [] = []"
| "render_calls st ((p, draws) # calls) =
     (case process p st draws of (st', output) \<Rightarrow> output # render_calls st' calls)"

fun rumble_render_calls ::
  "real option \<Rightarrow> rumble_state \<Rightarrow> (rumble_params \<times> real list list) list \<Rightarrow>
   real option list list list" where
  "rumble_render_calls rate st [] = []"
| "rumble_render_calls rate st ((p, draws) # calls) =
     (case process_rumble rate p st draws of
        (st', output) \<Rightarrow> output # rumble_render_calls rate st' calls)"

text \<open>
  What the platform guarantees of a render call: every gain lies in \<open>[0,1]\<close> (the
  \<open>minValue\<close> and \<open>maxValue\<close> of the parameter descriptors), \<open>masterGain\<close> holds one
  value or one value per sample, and \<open>Math.random()\<close> lies in \<open>[0,1)\<close>.
\<close>

definition call_ok :: "'a noise_params_scheme \<Rightarrow> real list list \<Rightarrow> bool" where
  "call_ok p draws =
     (unit_gain (whiteGain p) \<and> unit_gain (pinkGain p) \<and> unit_gain (brownGain p) \<and>
      unit_gain (darkGain p) \<and> list_all unit_gain (masterGain p) \<and>
      (length (masterGain p) = 1 \<or>
       length (masterGain p) > 1 \<and> list_all (\<lambda>channel. length channel \<le> length (masterGain p)) draws) \<and>
      list_all (list_all (\<lambda>random. 0 \<le> random \<and> random < 1)) draws)"

text \<open>A sample is finite when it is a number (not \<open>NaN\<close>) of magnitude at most \<open>18\<close>.\<close>

definition finite_sample :: "real option \<Rightarrow> bool" where
  "finite_sample s = (case s of None \<Rightarrow> False | Some v \<Rightarrow> \<bar>v\<bar> \<le> 18)"

text \<open>Bounds on the filter state that every sample preserves.\<close>

definition state_bounded :: "'a noise_state_scheme \<Rightarrow> bool" where
  "state_bounded st =
     (\<bar>b0 st\<bar> \<le> 49 \<and> \<bar>b1 st\<bar> \<le> 12 \<and> \<bar>b2 st\<bar> \<le> 5 \<and> \<bar>b3 st\<bar> \<le> 3 \<and> \<bar>b4 st\<bar> \<le> 1.2 \<and>
      \<bar>b5 st\<bar> \<le> 0.1 \<and> \<bar>b6 st\<bar> \<le> 0.2 \<and> \<bar>lastBrown st\<bar> \<le> 1 \<and> \<bar>lastDark st\<bar> \<le> 1)"

text \<open>The leaky integrator of brown (\<open>k = 0.02\<close>) and dark (\<open>k = 0.005\<close>) over a list of draws.\<close>

definition integrate :: "real \<Rightarrow> real list \<Rightarrow> real \<Rightarrow> real" where
  "integrate k randoms s = fold (\<lambda>random s. (s + k * (random * 2 - 1)) / (1 + k)) randoms s"

text \<open>
  The local \<open>pink\<close> of the pink branch as a function of the state before the sample:
  the six updated filter terms, the old \<open>b6\<close> and the white term.
\<close>

definition pink_of :: "'a noise_state_scheme \<Rightarrow> real \<Rightarrow> real" where
  "pink_of st white =
     (0.99886 * b0 st + white * 0.0555179) + (0.99332 * b1 st + white * 0.0750759)
     + (0.96900 * b2 st + white * 0.1538520) + (0.86650 * b3 st + white * 0.3104856)
     + (0.55000 * b4 st + white * 0.5329522) + (-0.7616 * b5 st - white * 0.0168980)
     + b6 st + white * 0.5362"

text \<open>The filter state of pink, and the phase accumulators of the rumble.\<close>

definition pink_state ::
  "'a noise_state_scheme \<Rightarrow> real \<times> real \<times> real \<times> real \<times> real \<times> real \<times> real" where
  "pink_state st = (b0 st, b1 st, b2 st, b3 st, b4 st, b5 st, b6 st)"

definition rumble_phases :: "rumble_state \<Rightarrow> real \<times> real \<times> real \<times> real" where
  "rumble_phases st = (rumblePhase1 st, rumblePhase2 st, rumblePhase3 st, rumbleModPhase st)"

text \<open>Concrete parameter sets used to exercise the theorems.\<close>

definition silent_params :: noise_params where
  "silent_params = \<lparr>whiteGain = 0, pinkGain = 0, brownGain = 0, darkGain = 0, masterGain = [1]\<rparr>"

definition white_only :: noise_params where
  "white_only = \<lparr>whiteGain = 1, pinkGain = 0, brownGain = 0, darkGain = 0, masterGain = [1]\<rparr>"

definition rumble_only :: rumble_params where
  "rumble_only = \<lparr>whiteGain = 0, pinkGain = 0, brownGain = 0, darkGain = 0, masterGain = [1, 1 / 2],
                   rumbleGain = 1 / 2, rumbleFreq = 55, rumbleSpeed = 1\<rparr>"

definition white_no_rumble :: rumble_params where
  "white_no_rumble = \<lparr>whiteGain = 1, pinkGain = 0, brownGain = 0, darkGain = 0, masterGain = [1],
                      rumbleGain = 0, rumbleFreq = 55, rumbleSpeed = 1\<rparr>"

definition silent_rumble_params :: rumble_params where
  "silent_rumble_params =
     \<lparr>whiteGain = 0, pinkGain = 0, brownGain = 0, darkGain = 0, masterGain = [1],
      rumbleGain = 0, rumbleFreq = 55, rumbleSpeed = 1\<rparr>"

subsection \<open>AudioEngine (AudioEngine.ts)\<close>

text \<open>
  The engine drives the gain nodes of the platform through their \<open>AudioParam\<close>s. The
  platform is not part of the repository; the model keeps of an \<open>AudioParam\<close> what
  the engine reads and writes: the number its \<open>value\<close> attribute returns, and the list
  of automation events scheduled on it, in the order of the calls. Each event carries its
  value and its time; \<open>setTargetAtTime\<close> carries target, start time and time constant.
  \<open>cancelScheduledValues(t)\<close> removes the scheduled events whose time is \<open>t\<close> or
  later.
\<close>

datatype automation =
    SetValueAtTime real real
  | LinearRampToValueAtTime real real
  | ExponentialRampToValueAtTime real real
  | SetTargetAtTime real real real

fun event_time :: "automation \<Rightarrow> real" where
  "event_time (SetValueAtTime v t) = t"
| "event_time (LinearRampToValueAtTime v t) = t"
| "event_time (ExponentialRampToValueAtTime v t) = t"
| "event_time (SetTargetAtTime v t c) = t"

fun event_value :: "automation \<Rightarrow> real" where
  "event_value (SetValueAtTime v t) = v"
| "event_value (LinearRampToValueAtTime v t) = v"
| "event_value (ExponentialRampToValueAtTime v t) = v"
| "event_value (SetTargetAtTime v t c) = v"

record audio_param =
  param_value :: real
  scheduled :: "automation list"

definition setValueAtTime :: "audio_param \<Rightarrow> real \<Rightarrow> real \<Rightarrow> audio_param" where
  "setValueAtTime p v t = p\<lparr>scheduled := scheduled p @ [SetValueAtTime v t]\<rparr>"

definition linearRampToValueAtTime :: "audio_param \<Rightarrow> real \<Rightarrow> real \<Rightarrow> audio_param" where
  "linearRampToValueAtTime p v t = p\<lparr>scheduled := scheduled p @ [LinearRampToValueAtTime v t]\<rparr>"

definition exponentialRampToValueAtTime :: "audio_param \<Rightarrow> real \<Rightarrow> real \<Rightarrow> audio_param" where
  "exponentialRampToValueAtTime p v t =
     p\<lparr>scheduled := scheduled p @ [ExponentialRampToValueAtTime v t]\<rparr>"

definition setTargetAtTime :: "audio_param \<Rightarrow> real \<Rightarrow> real \<Rightarrow> real \<Rightarrow> audio_param" where
  "setTargetAtTime p v t c = p\<lparr>scheduled := scheduled p @ [SetTargetAtTime v t c]\<rparr>"

definition cancelScheduledValues :: "audio_param \<Rightarrow> real \<Rightarrow> audio_param" where
  "cancelScheduledValues p t = p\<lparr>scheduled := filter (\<lambda>ev. event_time ev < t) (scheduled p)\<rparr>"

text \<open>The value most recently applied to a node: that of its last scheduled event.\<close>

definition applied :: "audio_param option \<Rightarrow> real option" where
  "applied node =
     (case node of None \<Rightarrow> None
      | Some p \<Rightarrow> if scheduled p = [] then None else Some (event_value (last (scheduled p))))"

text \<open>The EQ bands: frequency and filter type.\<close>

definition EQ_BANDS :: "(real \<times> string) list" where
  "EQ_BANDS = [(60, ''lowshelf''), (250, ''peaking''), (1000, ''peaking''),
               (4000, ''peaking''), (12000, ''highshelf'')]"

text \<open>
  The fields of the engine that the modelled methods read or write. \<open>ctx\<close> is the
  audio context, \<open>None\<close> while it is \<open>null\<close>, and otherwise its \<open>currentTime\<close>.
  A gain node is its \<open>gain\<close> parameter, a filter of \<open>eqFilters\<close> is its \<open>gain\<close>
  parameter; \<open>convolver\<close> says whether the convolver node exists.
\<close>

record audio_engine =
  ctx :: "real option"
  isInitialized :: bool
  eqFilters :: "audio_param list"
  adaptiveGainNode :: "audio_param option"
  reactiveGainNode :: "audio_param option"
  densityDryGain :: "audio_param option"
  densityWetGain :: "audio_param option"
  convolver :: bool
  detector :: "impact_detector option"
  baseVolume :: real
  isAutoMode :: bool
  adaptiveGain :: real
  adaptiveTargetGain :: real
  reactiveBoostStrength :: real
  reactiveBoostDuration :: real
  adaptiveSpeedValue :: real
  adaptiveDecayValue :: real

text \<open>The field initialisers of the class.\<close>

definition new_engine :: audio_engine where
  "new_engine =
     \<lparr>ctx = None, isInitialized = False, eqFilters = [], adaptiveGainNode = None,
      reactiveGainNode = None, densityDryGain = None, densityWetGain = None,
      convolver = False, detector = None, baseVolume = 0.1, isAutoMode = False,
      adaptiveGain = 0, adaptiveTargetGain = 0, reactiveBoostStrength = 0.3,
      reactiveBoostDuration = 10, adaptiveSpeedValue = 0.5, adaptiveDecayValue = 0.5\<rparr>"

text \<open>
  \<open>init\<close>, when loading the worklet succeeds: a new context (its clock at \<open>0\<close>), one
  filter per EQ band with gain \<open>0\<close>, the adaptive and reactive gains at \<open>1.0\<close>, the
  density gains at fully dry, and the convolver.
\<close>

definition init :: "audio_engine \<Rightarrow> audio_engine" where
  "init e =
     (if isInitialized e then e
      else e\<lparr>ctx := Some 0,
             adaptiveGainNode := Some \<lparr>param_value = 1.0, scheduled = []\<rparr>,
             reactiveGainNode := Some \<lparr>param_value = 1.0, scheduled = []\<rparr>,
             eqFilters := map (\<lambda>band. \<lparr>param_value = 0, scheduled = []\<rparr>) EQ_BANDS,
             convolver := True,
             densityDryGain := Some \<lparr>param_value = 1.0, scheduled = []\<rparr>,
             densityWetGain := Some \<lparr>param_value = 0.0, scheduled = []\<rparr>,
             isInitialized := True\<rparr>)"

text \<open>
  \<open>array[index]\<close> for a number \<open>index\<close>: the element when the index is a whole number
  within the array, \<open>undefined\<close> otherwise.
\<close>

definition array_get :: "'a list \<Rightarrow> real \<Rightarrow> 'a option" where
  "array_get xs index =
     (if index = of_int \<lfloor>index\<rfloor> \<and> 0 \<le> index \<and> index < real (length xs)
      then Some (xs ! nat \<lfloor>index\<rfloor>) else None)"

text \<open>
  \<open>setEQBand\<close>; \<open>eqFilter\<close> is the local \<open>filter\<close>. The method contains no
  \<open>throw\<close>; a \<open>gainDb\<close> that is not a finite number has no counterpart among the
  reals.
\<close>

definition setEQBand :: "audio_engine \<Rightarrow> real \<Rightarrow> real \<Rightarrow> audio_engine" where
  "setEQBand e bandIndex gainDb =
     (if bandIndex < 0 \<or> bandIndex \<ge> real (length (eqFilters e)) then e
      else (case (array_get (eqFilters e) bandIndex, ctx e) of
              (Some eqFilter, Some currentTime) \<Rightarrow>
                e\<lparr>eqFilters := (eqFilters e)[nat \<lfloor>bandIndex\<rfloor> :=
                                   setTargetAtTime eqFilter gainDb currentTime 0.02]\<rparr>
            | _ \<Rightarrow> e))"

definition getEQValues :: "audio_engine \<Rightarrow> real list" where
  "getEQValues e = map param_value (eqFilters e)"

definition handleAdaptiveUpdate :: "audio_engine \<Rightarrow> real \<Rightarrow> audio_engine" where
  "handleAdaptiveUpdate e score =
     (if \<not> isAutoMode e then e
      else e\<lparr>adaptiveTargetGain := min (score * 2) 0.4,
             detector := map_option
               (\<lambda>det. updateNoiseGain det (baseVolume e + adaptiveGain e)) (detector e)\<rparr>)"

text \<open>The first line of \<open>applyAdaptiveGain\<close>: the multiplier of an adaptive gain.\<close>

definition adaptive_multiplier :: "real \<Rightarrow> real" where
  "adaptive_multiplier gain = 1.0 + gain * 3"

definition applyAdaptiveGain :: "audio_engine \<Rightarrow> audio_engine" where
  "applyAdaptiveGain e =
     (case (adaptiveGainNode e, ctx e) of
        (Some node, Some currentTime) \<Rightarrow>
          (let multiplier = adaptive_multiplier (adaptiveGain e);
               multiplier = (if multiplier < 1.10 then 1.0 else multiplier)
           in e\<lparr>adaptiveGainNode := Some (setTargetAtTime node multiplier currentTime 0.1)\<rparr>)
      | _ \<Rightarrow> e)"

text \<open>One run of the follower, the closure \<open>loop\<close> of \<open>startAdaptiveLoop\<close>.\<close>

definition adaptive_loop :: "audio_engine \<Rightarrow> audio_engine" where
  "adaptive_loop e =
     (if \<not> isAutoMode e then e
      else
        (let diff = adaptiveTargetGain e - adaptiveGain e
         in if \<bar>diff\<bar> > 0.001 then
              (let decaySpeed = 0.0001 + ((1.0 - adaptiveDecayValue e) * 0.0019);
                   attackSpeed = 0.0005 + (adaptiveSpeedValue e * 0.0195);
                   speed = (if diff > 0 then attackSpeed else decaySpeed)
               in applyAdaptiveGain (e\<lparr>adaptiveGain := adaptiveGain e + diff * speed\<rparr>))
            else e))"

text \<open>
  \<open>handleReactiveImpact\<close>. \<open>this.detector?.reactiveEnabled\<close> is \<open>undefined\<close>, hence
  falsy, without a detector.
\<close>

definition handleReactiveImpact :: "audio_engine \<Rightarrow> real \<Rightarrow> string option \<Rightarrow> audio_engine" where
  "handleReactiveImpact e intensity bandId =
     (case (reactiveGainNode e, ctx e) of
        (Some gain, Some now) \<Rightarrow>
          (if \<not> isAutoMode e then e
           else if \<not> (case detector e of None \<Rightarrow> False | Some det \<Rightarrow> reactiveEnabled det) then e
           else
             (let boostMultiplier = 1.0 + (intensity * reactiveBoostStrength e * 3);
                  g1 = cancelScheduledValues gain now;
                  g2 = setValueAtTime g1 (param_value g1) now;
                  g3 = linearRampToValueAtTime g2 boostMultiplier (now + 0.1);
                  holdTime = reactiveBoostDuration e * 0.5;
                  fadeTime = reactiveBoostDuration e * 0.5;
                  g4 = setValueAtTime g3 boostMultiplier (now + 0.1 + holdTime);
                  g5 = exponentialRampToValueAtTime g4 1.0 (now + 0.1 + holdTime + fadeTime)
              in e\<lparr>reactiveGainNode := Some g5\<rparr>))
      | _ \<Rightarrow> e)"

text \<open>\<open>setDensity\<close>; the throttled debug log has no effect on the engine.\<close>

definition setDensity :: "audio_engine \<Rightarrow> real \<Rightarrow> audio_engine" where
  "setDensity e v =
     (case (densityDryGain e, densityWetGain e, ctx e) of
        (Some dryGain, Some wetGain, Some currentTime) \<Rightarrow>
          (if \<not> convolver e then e
           else
             (let dry = cos (v * 0.5 * pi);
                  wet = sin (v * 0.5 * pi)
              in e\<lparr>densityDryGain := Some (setTargetAtTime dryGain dry currentTime 0.1),
                     densityWetGain := Some (setTargetAtTime wetGain wet currentTime 0.1)\<rparr>))
      | _ \<Rightarrow> e)"

text \<open>
  Concrete engines used to exercise the theorems: an initialised engine two seconds into
  its clock, and the same in auto mode with a detector.
\<close>

definition demo_engine :: audio_engine where
  "demo_engine = (init new_engine)\<lparr>ctx := Some 2\<rparr>"

definition auto_engine :: audio_engine where
  "auto_engine = demo_engine\<lparr>isAutoMode := True, detector := Some demo_detector\<rparr>"

text \<open>
  An engine in the middle of a reactive attack: an impact of intensity 1 was handled at
  time 1.95, the clock now reads 2, and the platform has ramped the reactive gain half
  way from 1 to 1.9.
\<close>

definition mid_attack_engine :: audio_engine where
  "mid_attack_engine =
     (let e = handleReactiveImpact (auto_engine\<lparr>ctx := Some (39 / 20)\<rparr>) 1 None
      in e\<lparr>ctx := Some 2,
            reactiveGainNode :=
              map_option (\<lambda>gain. gain\<lparr>param_value := 29 / 20\<rparr>) (reactiveGainNode e)\<rparr>)"

section \<open>Verified properties\<close>

subsection \<open>AutoTuner\<close>

lemma calculateSettings_footsteps:
  "calculateSettings ''footsteps'' pitch sharpness resonance =
     (let p = pitch / 100; s = sharpness / 100; r = resonance / 100;
          m = default_mix\<lparr>mix_b := 0.6 + (r * 0.4),
                            mix_d := 0.2 + (1.0 - p) * 0.3,
                            mix_r := 0.5 + (r * 0.5),
                            mix_rf := 40 + (p * 40),
                            mix_rs := 0.5 + (s * 2.0)\<rparr>;
          e = default_eq[0 := 5 + (r * 5), 1 := 3 + (r * 3)]
      in if s > 0.6
         then \<lparr>mix = m\<lparr>mix_p := s - 0.6\<rparr>, eq = e[5 := 2]\<rparr>
         else \<lparr>mix = m, eq = e\<rparr>)"
  unfolding calculateSettings_def Let_def by simp

text \<open>
  C10. For every category string and all slider values pitch, sharpness and resonance in
  \<open>[0,100]\<close>, \<open>calculateSettings\<close> returns a configuration whose colour gains
  \<open>w, p, b, d\<close> and rumble gain are in \<open>[0,1]\<close>, whose rumble frequency is in
  \<open>[20,300]\<close> and whose rumble speed is in \<open>[0.1,10]\<close>.
\<close>

theorem calculateSettings_in_range:
  assumes "0 \<le> pitch" "pitch \<le> 100" "0 \<le> sharpness" "sharpness \<le> 100"
    and "0 \<le> resonance" "resonance \<le> 100"
  shows "mix_in_range (mix (calculateSettings targetType pitch sharpness resonance))"
proof -
  consider (f) "targetType = ''footsteps''" | (v) "targetType = ''voices''"
    | (t) "targetType = ''traffic''" | (n) "targetType = ''tinnitus''"
    | (o) "targetType \<noteq> ''footsteps''" "targetType \<noteq> ''voices''"
          "targetType \<noteq> ''traffic''" "targetType \<noteq> ''tinnitus''"
    by blast
  then show ?thesis
  proof cases
    case f
    show ?thesis using assms unfolding f calculateSettings_footsteps
      by (simp add: Let_def default_mix_def mix_in_range_def unit_gain_def field_simps)
  next
    case v
    show ?thesis using assms unfolding v calculateSettings_def
      by (simp add: Let_def default_mix_def mix_in_range_def unit_gain_def field_simps)
  next
    case t
    show ?thesis using assms unfolding t calculateSettings_def
      by (simp add: Let_def default_mix_def mix_in_range_def unit_gain_def field_simps)
  next
    case n
    show ?thesis using assms unfolding n calculateSettings_def
      by (simp add: Let_def default_mix_def mix_in_range_def unit_gain_def field_simps)
  next
    case o
    then show ?thesis unfolding calculateSettings_def
      by (simp add: Let_def default_mix_def mix_in_range_def unit_gain_def)
  qed
qed

theorem calculateSettings_in_range_witness:
  "mix_in_range (mix (calculateSettings ''footsteps'' 50 100 100)) \<and>
   mix_p (mix (calculateSettings ''footsteps'' 50 100 100)) = 0.4 \<and>
   mix_rs (mix (calculateSettings ''footsteps'' 50 100 100)) = 2.5"
  using calculateSettings_in_range [of 50 100 100 "''footsteps''"]
  by (simp add: calculateSettings_footsteps Let_def default_mix_def)


subsection \<open>ImpactDetector: baseline tracking\<close>


lemma updateBaseline_stored:
  "baselineEnergies (updateBaseline det bandId e) bandId =
     Some (max (let b = or_default (baselineEnergies det bandId) e
                in if e < b then b * 0.98 + e * 0.02 else b * 0.95 + e * 0.05)
               (0.3 * currentNoiseGain det))"
  by (simp add: updateBaseline_def Let_def BASELINE_SMOOTHING_def mult.commute)

lemma updateBaseline_gain [simp]:
  "currentNoiseGain (updateBaseline det bandId e) = currentNoiseGain det"
  by (simp add: updateBaseline_def Let_def)

lemma hold_energy_Suc:
  "hold_energy det bandId e (Suc n) = updateBaseline (hold_energy det bandId e n) bandId e"
  by (simp add: hold_energy_def)

lemma hold_energy_gain [simp]:
  "currentNoiseGain (hold_energy det bandId e n) = currentNoiseGain det"
  by (induction n) (simp_all add: hold_energy_Suc, simp add: hold_energy_def)

lemma stored_step:
  "stored_baseline (updateBaseline det bandId e) bandId =
     max (let b = (if stored_baseline det bandId = 0 then e else stored_baseline det bandId)
          in if e < b then b * 0.98 + e * 0.02 else b * 0.95 + e * 0.05)
         (0.3 * currentNoiseGain det)"
  by (simp add: stored_baseline_def updateBaseline_stored or_default_def Let_def
           split: option.split)

lemma rise_step:
  fixes g e b :: real
  assumes "0.3 * g < e" "b \<le> e"
  defines "b' \<equiv> max (let p = (if b = 0 then e else b)
                      in if e < p then p * 0.98 + e * 0.02 else p * 0.95 + e * 0.05) (0.3 * g)"
  shows "b \<le> b'" "b' \<le> e" "b < e \<Longrightarrow> b < b'" "e - b' \<le> 0.95 * (e - b)"
  using assms by (auto simp: Let_def max_def split: if_splits)

lemma fall_step:
  fixes g e b :: real
  assumes "0.3 * g < e" "e \<le> b" "0 \<le> e"
  defines "b' \<equiv> max (let p = (if b = 0 then e else b)
                      in if e < p then p * 0.98 + e * 0.02 else p * 0.95 + e * 0.05) (0.3 * g)"
  shows "e \<le> b'" "b' \<le> b" "e < b \<Longrightarrow> b' < b" "b' - e = 0.98 * (b - e)"
  using assms by (auto simp: Let_def max_def split: if_splits)

lemma stored_hold_Suc:
  "stored_baseline (hold_energy det bandId e (Suc n)) bandId =
     max (let b = (if stored_baseline (hold_energy det bandId e n) bandId = 0 then e
                   else stored_baseline (hold_energy det bandId e n) bandId)
          in if e < b then b * 0.98 + e * 0.02 else b * 0.95 + e * 0.05)
         (0.3 * currentNoiseGain det)"
  by (simp only: hold_energy_Suc stored_step hold_energy_gain)

lemma rise_seq:
  assumes "0.3 * currentNoiseGain det < e" "stored_baseline det bandId \<le> e"
  shows "stored_baseline (hold_energy det bandId e n) bandId \<le> e \<and>
         e - stored_baseline (hold_energy det bandId e n) bandId
           \<le> 0.95 ^ n * (e - stored_baseline det bandId)"
proof (induction n)
  case 0
  show ?case using assms by (simp add: hold_energy_def)
next
  case (Suc n)
  let ?b = "stored_baseline (hold_energy det bandId e n) bandId"
  have le: "?b \<le> e" and geo: "e - ?b \<le> 0.95 ^ n * (e - stored_baseline det bandId)"
    using Suc by simp_all
  have 1: "stored_baseline (hold_energy det bandId e (Suc n)) bandId \<le> e"
    unfolding stored_hold_Suc by (rule rise_step(2) [OF assms(1) le])
  have 2: "e - stored_baseline (hold_energy det bandId e (Suc n)) bandId \<le> 0.95 * (e - ?b)"
    unfolding stored_hold_Suc by (rule rise_step(4) [OF assms(1) le])
  have "0.95 * (e - ?b) \<le> 0.95 * (0.95 ^ n * (e - stored_baseline det bandId))"
    using geo by simp
  with 1 2 show ?case by simp
qed

lemma fall_seq:
  assumes "0.3 * currentNoiseGain det < e" "e \<le> stored_baseline det bandId" "0 \<le> e"
  shows "e \<le> stored_baseline (hold_energy det bandId e n) bandId \<and>
         stored_baseline (hold_energy det bandId e n) bandId - e
           = 0.98 ^ n * (stored_baseline det bandId - e)"
proof (induction n)
  case 0
  show ?case using assms by (simp add: hold_energy_def)
next
  case (Suc n)
  let ?b = "stored_baseline (hold_energy det bandId e n) bandId"
  have le: "e \<le> ?b" and geo: "?b - e = 0.98 ^ n * (stored_baseline det bandId - e)"
    using Suc by simp_all
  have 1: "e \<le> stored_baseline (hold_energy det bandId e (Suc n)) bandId"
    unfolding stored_hold_Suc by (rule fall_step(1) [OF assms(1) le assms(3)])
  have 2: "stored_baseline (hold_energy det bandId e (Suc n)) bandId - e = 0.98 * (?b - e)"
    unfolding stored_hold_Suc by (rule fall_step(4) [OF assms(1) le assms(3)])
  show ?case using 1 2 geo by simp
qed

lemma with_baseline_simps [simp]:
  "stored_baseline (with_baseline det bandId b) bandId = b"
  "currentNoiseGain (with_baseline det bandId b) = currentNoiseGain det"
  by (simp_all add: with_baseline_def stored_baseline_def)

lemma rise_beats_fall:
  assumes "0.3 * currentNoiseGain det < e" "0 \<le> e" "0 < d" "0 < n"
  shows "e - stored_baseline (hold_energy (with_baseline det bandId (e - d)) bandId e n) bandId
         < stored_baseline (hold_energy (with_baseline det bandId (e + d)) bandId e n) bandId - e"
proof -
  have r: "e - stored_baseline (hold_energy (with_baseline det bandId (e - d)) bandId e n) bandId
             \<le> 0.95 ^ n * d"
    using rise_seq [of "with_baseline det bandId (e - d)" e bandId n] assms by simp
  have f: "stored_baseline (hold_energy (with_baseline det bandId (e + d)) bandId e n) bandId - e
             = 0.98 ^ n * d"
    using fall_seq [of "with_baseline det bandId (e + d)" e bandId n] assms by simp
  have "(0.95::real) ^ n < 0.98 ^ n"
    using assms(4) by (intro power_strict_mono) simp_all
  then have "(0.95::real) ^ n * d < 0.98 ^ n * d"
    using assms(3) by simp
  with r f show ?thesis by simp
qed

text \<open>
  C4 (as amended). One baseline update stores \<open>max newBaseline (0.3 * currentNoiseGain)\<close>,
  where \<open>newBaseline\<close> is \<open>b * 0.98 + energy * 0.02\<close> if \<open>energy < b\<close> and
  \<open>b * 0.95 + energy * 0.05\<close> otherwise, and \<open>b\<close> is the stored baseline of the band
  when there is one and it is not \<open>0\<close>, and the observed energy itself otherwise.
  Consequently, under a constant energy \<open>e \<ge> 0\<close> above the floor
  \<open>0.3 * currentNoiseGain\<close>, a baseline below \<open>e\<close> never falls and never passes
  \<open>e\<close> (and rises strictly while below), a baseline above \<open>e\<close> never rises and never
  passes \<open>e\<close> (and falls strictly while above); the distance to \<open>e\<close> is at most
  \<open>0.95 ^ n\<close> times the initial one after \<open>n\<close> rising steps and exactly
  \<open>0.98 ^ n\<close> times the initial one after \<open>n\<close> falling steps, so from the same
  distance the rising baseline is strictly closer than the falling one after every
  positive number of steps.
\<close>

theorem updateBaseline_tracks:
  "baselineEnergies (updateBaseline det bandId e) bandId =
     Some (max (let b = or_default (baselineEnergies det bandId) e
                in if e < b then b * 0.98 + e * 0.02 else b * 0.95 + e * 0.05)
               (0.3 * currentNoiseGain det)) \<and>
   (0 \<le> e \<and> 0.3 * currentNoiseGain det < e \<longrightarrow>
     (\<forall>n. (stored_baseline (hold_energy det bandId e n) bandId \<le> e \<longrightarrow>
             stored_baseline (hold_energy det bandId e n) bandId
               \<le> stored_baseline (hold_energy det bandId e (Suc n)) bandId \<and>
             stored_baseline (hold_energy det bandId e (Suc n)) bandId \<le> e \<and>
             (stored_baseline (hold_energy det bandId e n) bandId < e \<longrightarrow>
                stored_baseline (hold_energy det bandId e n) bandId
                  < stored_baseline (hold_energy det bandId e (Suc n)) bandId)) \<and>
          (e \<le> stored_baseline (hold_energy det bandId e n) bandId \<longrightarrow>
             e \<le> stored_baseline (hold_energy det bandId e (Suc n)) bandId \<and>
             stored_baseline (hold_energy det bandId e (Suc n)) bandId
               \<le> stored_baseline (hold_energy det bandId e n) bandId \<and>
             (e < stored_baseline (hold_energy det bandId e n) bandId \<longrightarrow>
                stored_baseline (hold_energy det bandId e (Suc n)) bandId
                  < stored_baseline (hold_energy det bandId e n) bandId))) \<and>
     (stored_baseline det bandId \<le> e \<longrightarrow>
        (\<forall>n. e - stored_baseline (hold_energy det bandId e n) bandId
               \<le> 0.95 ^ n * (e - stored_baseline det bandId))) \<and>
     (e \<le> stored_baseline det bandId \<longrightarrow>
        (\<forall>n. stored_baseline (hold_energy det bandId e n) bandId - e
               = 0.98 ^ n * (stored_baseline det bandId - e))) \<and>
     (\<forall>d n. 0 < d \<and> 0 < n \<longrightarrow>
        e - stored_baseline (hold_energy (with_baseline det bandId (e - d)) bandId e n) bandId
        < stored_baseline (hold_energy (with_baseline det bandId (e + d)) bandId e n) bandId - e))"
proof (intro conjI impI allI)
  show "baselineEnergies (updateBaseline det bandId e) bandId =
     Some (max (let b = or_default (baselineEnergies det bandId) e
                in if e < b then b * 0.98 + e * 0.02 else b * 0.95 + e * 0.05)
               (0.3 * currentNoiseGain det))"
    by (rule updateBaseline_stored)
next
  fix n
  assume a: "0 \<le> e \<and> 0.3 * currentNoiseGain det < e"
    and le: "stored_baseline (hold_energy det bandId e n) bandId \<le> e"
  show "stored_baseline (hold_energy det bandId e n) bandId
               \<le> stored_baseline (hold_energy det bandId e (Suc n)) bandId"
    unfolding stored_hold_Suc [of det bandId e n] using a le by (intro rise_step(1)) simp_all
  show "stored_baseline (hold_energy det bandId e (Suc n)) bandId \<le> e"
    unfolding stored_hold_Suc [of det bandId e n] using a le by (intro rise_step(2)) simp_all
  assume lt: "stored_baseline (hold_energy det bandId e n) bandId < e"
  show "stored_baseline (hold_energy det bandId e n) bandId
                  < stored_baseline (hold_energy det bandId e (Suc n)) bandId"
    unfolding stored_hold_Suc [of det bandId e n] using a le lt by (intro rise_step(3)) simp_all
next
  fix n
  assume a: "0 \<le> e \<and> 0.3 * currentNoiseGain det < e"
    and le: "e \<le> stored_baseline (hold_energy det bandId e n) bandId"
  show "e \<le> stored_baseline (hold_energy det bandId e (Suc n)) bandId"
    unfolding stored_hold_Suc [of det bandId e n] using a le by (intro fall_step(1)) simp_all
  show "stored_baseline (hold_energy det bandId e (Suc n)) bandId
               \<le> stored_baseline (hold_energy det bandId e n) bandId"
    unfolding stored_hold_Suc [of det bandId e n] using a le by (intro fall_step(2)) simp_all
  assume lt: "e < stored_baseline (hold_energy det bandId e n) bandId"
  show "stored_baseline (hold_energy det bandId e (Suc n)) bandId
                  < stored_baseline (hold_energy det bandId e n) bandId"
    unfolding stored_hold_Suc [of det bandId e n] using a le lt by (intro fall_step(3)) simp_all
next
  fix n
  assume "0 \<le> e \<and> 0.3 * currentNoiseGain det < e" "stored_baseline det bandId \<le> e"
  then show "e - stored_baseline (hold_energy det bandId e n) bandId
               \<le> 0.95 ^ n * (e - stored_baseline det bandId)"
    using rise_seq [of det e bandId n] by simp
next
  fix n
  assume "0 \<le> e \<and> 0.3 * currentNoiseGain det < e" "e \<le> stored_baseline det bandId"
  then show "stored_baseline (hold_energy det bandId e n) bandId - e
               = 0.98 ^ n * (stored_baseline det bandId - e)"
    using fall_seq [of det e bandId n] by simp
next
  fix d :: real and n :: nat
  assume "0 \<le> e \<and> 0.3 * currentNoiseGain det < e" "0 < d \<and> 0 < n"
  then show "e - stored_baseline (hold_energy (with_baseline det bandId (e - d)) bandId e n) bandId
        < stored_baseline (hold_energy (with_baseline det bandId (e + d)) bandId e n) bandId - e"
    using rise_beats_fall [of det e d n bandId] by simp
qed

theorem updateBaseline_tracks_witness:
  "0 \<le> (1 / 2 :: real) \<and> 0.3 * currentNoiseGain silent_detector < 1 / 2 \<and>
   stored_baseline (with_baseline silent_detector ''all'' (1 / 10)) ''all'' \<le> 1 / 2 \<and>
   stored_baseline (hold_energy (with_baseline silent_detector ''all'' (1 / 10)) ''all'' (1 / 2) 2)
     ''all'' = 139 / 1000 \<and>
   1 / 2 - stored_baseline
       (hold_energy (with_baseline silent_detector ''all'' (1 / 10)) ''all'' (1 / 2) 2) ''all''
     \<le> 0.95 ^ 2 * (1 / 2 - 1 / 10) \<and>
   1 / 2 \<le> stored_baseline (with_baseline silent_detector ''all'' (9 / 10)) ''all'' \<and>
   stored_baseline (hold_energy (with_baseline silent_detector ''all'' (9 / 10)) ''all'' (1 / 2) 1)
     ''all'' - 1 / 2 = 0.98 ^ 1 * (9 / 10 - 1 / 2) \<and>
   1 / 2 - stored_baseline
       (hold_energy (with_baseline silent_detector ''all'' (1 / 2 - 2 / 5)) ''all'' (1 / 2) 1) ''all''
     < stored_baseline
       (hold_energy (with_baseline silent_detector ''all'' (1 / 2 + 2 / 5)) ''all'' (1 / 2) 1) ''all''
       - 1 / 2"
proof -
  let ?d = "with_baseline silent_detector ''all'' (1 / 10)"
  let ?f = "with_baseline silent_detector ''all'' (9 / 10)"
  have g: "currentNoiseGain silent_detector = 1 / 10"
    by (simp add: silent_detector_def updateNoiseGain_def)
  have h: "0 \<le> (1 / 2 :: real) \<and> 0.3 * currentNoiseGain ?d < 1 / 2"
    "0 \<le> (1 / 2 :: real) \<and> 0.3 * currentNoiseGain ?f < 1 / 2"
    "0 \<le> (1 / 2 :: real) \<and> 0.3 * currentNoiseGain silent_detector < 1 / 2"
    by (simp_all add: g)
  have b: "stored_baseline ?d ''all'' = 1 / 10" "stored_baseline ?f ''all'' = 9 / 10" by simp_all
  have v: "stored_baseline (hold_energy ?d ''all'' (1 / 2) 2) ''all'' = 139 / 1000"
    by (simp add: eval_nat_numeral stored_hold_Suc g) (simp add: hold_energy_def)
  from updateBaseline_tracks [of ?d "''all''" "1 / 2"] h(1) b(1)
  have "\<forall>n. 1 / 2 - stored_baseline (hold_energy ?d ''all'' (1 / 2) n) ''all''
            \<le> 0.95 ^ n * (1 / 2 - 1 / 10)"
    by simp
  then have rise: "1 / 2 - stored_baseline (hold_energy ?d ''all'' (1 / 2) 2) ''all''
            \<le> 0.95 ^ 2 * (1 / 2 - 1 / 10)"
    by (rule spec)
  from updateBaseline_tracks [of ?f "''all''" "1 / 2"] h(2) b(2)
  have "\<forall>n. stored_baseline (hold_energy ?f ''all'' (1 / 2) n) ''all'' - 1 / 2
            = 0.98 ^ n * (9 / 10 - 1 / 2)"
    by simp
  then have fall: "stored_baseline (hold_energy ?f ''all'' (1 / 2) 1) ''all'' - 1 / 2
            = 0.98 ^ 1 * (9 / 10 - 1 / 2)"
    by (rule spec)
  from updateBaseline_tracks [of silent_detector "''all''" "1 / 2"] h(3)
  have "\<forall>d n. 0 < d \<and> 0 < n \<longrightarrow>
        1 / 2 - stored_baseline
          (hold_energy (with_baseline silent_detector ''all'' (1 / 2 - d)) ''all'' (1 / 2) n) ''all''
        < stored_baseline
          (hold_energy (with_baseline silent_detector ''all'' (1 / 2 + d)) ''all'' (1 / 2) n) ''all''
          - 1 / 2"
    by blast
  from this [rule_format, of "2 / 5" 1]
  have cmp: "1 / 2 - stored_baseline
       (hold_energy (with_baseline silent_detector ''all'' (1 / 2 - 2 / 5)) ''all'' (1 / 2) 1) ''all''
     < stored_baseline
       (hold_energy (with_baseline silent_detector ''all'' (1 / 2 + 2 / 5)) ''all'' (1 / 2) 1) ''all''
       - 1 / 2"
    by simp
  show ?thesis
    using h(3) b v rise fall cmp by (intro conjI) simp_all
qed

text \<open>
  The claim C4 as it is worded, with the stored baseline in the formula, fails when the
  stored baseline is exactly \<open>0\<close>: after one observation of silence the stored baseline
  of \<open>silent_detector\<close> is \<open>0\<close>; an energy of \<open>0.5\<close> then stores \<open>0.5\<close>, where
  the formula applied to the stored \<open>0\<close> gives \<open>max (0.025) (0.03) = 0.03\<close>.
\<close>

theorem updateBaseline_zero_baseline_counterexample:
  "baselineEnergies silent_detector ''all'' = Some 0 \<and>
   currentNoiseGain silent_detector = 1 / 10 \<and>
   baselineEnergies (updateBaseline silent_detector ''all'' (1 / 2)) ''all'' = Some (1 / 2) \<and>
   max (if (1 / 2 :: real) < 0 then 0 * 0.98 + 1 / 2 * 0.02 else 0 * 0.95 + 1 / 2 * 0.05)
       (0.3 * (1 / 10)) = (3 / 100 :: real)"
  by (simp add: silent_detector_def updateNoiseGain_def updateBaseline_def new_detector_def
        setSimpleMode_def SIMPLE_MODES_def Let_def or_default_def BASELINE_SMOOTHING_def)

subsection \<open>ImpactDetector: mode changes\<close>

text \<open>
  C7 (as amended). \<open>setSimpleMode\<close> and \<open>setDetailedMode\<close> leave the baseline map
  empty, for every prior state and every argument; \<open>toggleBand\<close> changes the enabled
  set only and leaves the baseline map as it was.
\<close>

theorem mode_setters_clear_baselines:
  "baselineEnergies (setSimpleMode det modeId) = Map.empty \<and>
   baselineEnergies (setDetailedMode det bandIds) = Map.empty \<and>
   baselineEnergies (toggleBand det bandId enabled) = baselineEnergies det"
  by (simp add: setSimpleMode_def setDetailedMode_def toggleBand_def Let_def split: option.split)

theorem mode_setters_clear_baselines_witness:
  "baselineEnergies (setSimpleMode demo_detector ''voice_all'') = Map.empty \<and>
   enabledBandIds (setSimpleMode demo_detector ''voice_all'') = [''voice_male'', ''voice_female''] \<and>
   baselineEnergies (setDetailedMode demo_detector [''footsteps'', ''footsteps'']) = Map.empty \<and>
   enabledBandIds (setDetailedMode demo_detector [''footsteps'', ''footsteps'']) = [''footsteps''] \<and>
   baselineEnergies (toggleBand demo_detector ''footsteps'' True) = baselineEnergies demo_detector"
  using mode_setters_clear_baselines [of demo_detector "''voice_all''" "[''footsteps'', ''footsteps'']"
      "''footsteps''" True]
  by (simp add: setSimpleMode_def setDetailedMode_def SIMPLE_MODES_def set_add_def Let_def)

text \<open>
  The claim C7 as it is worded fails for \<open>toggleBand\<close>: enabling a band on a detector
  that holds a baseline for \<open>'all'\<close> changes the band selection and keeps that baseline.
\<close>

theorem toggleBand_keeps_baselines_counterexample:
  "enabledBandIds demo_detector = [] \<and>
   enabledBandIds (toggleBand demo_detector ''footsteps'' True) = [''footsteps''] \<and>
   baselineEnergies (toggleBand demo_detector ''footsteps'' True) ''all'' = Some (1 / 10)"
  by (simp add: toggleBand_def demo_detector_def new_detector_def setSimpleMode_def
        SIMPLE_MODES_def set_add_def)

subsection \<open>ImpactDetector: impact events and cooldown\<close>


lemma updateBaseline_shape:
  "updateBaseline det bandId e = det\<lparr>baselineEnergies := baselineEnergies (updateBaseline det bandId e)\<rparr>"
  by (simp add: updateBaseline_def Let_def)

lemma band_loop_shape:
  "\<exists>m. fst (band_loop data ids (det, t, mx, i)) = det\<lparr>baselineEnergies := m\<rparr>"
proof (induction ids arbitrary: det t mx i)
  case Nil
  show ?case by (intro exI [of _ "baselineEnergies det"]) simp
next
  case (Cons bandId rest)
  show ?case
  proof (cases "find (\<lambda>b. band_id b = bandId) DETECTION_BANDS")
    case None
    then show ?thesis using Cons.IH [of det t mx i] by simp
  next
    case (Some band)
    let ?e = "getBandEnergy det data (minFreq band) (maxFreq band)"
    let ?dev = "max 0 (?e - or_default (baselineEnergies det bandId) ?e)"
    let ?acc = "(updateBaseline det bandId ?e, t + ?dev,
          (if ?dev > mx then ?dev else mx), (if ?dev > mx then Some bandId else i))"
    obtain m where m: "fst (band_loop data rest ?acc)
        = (updateBaseline det bandId ?e)\<lparr>baselineEnergies := m\<rparr>"
      using Cons.IH by blast
    have "(updateBaseline det bandId ?e)\<lparr>baselineEnergies := m\<rparr> = det\<lparr>baselineEnergies := m\<rparr>"
      by (simp add: updateBaseline_def Let_def)
    with m have "fst (band_loop data rest ?acc) = det\<lparr>baselineEnergies := m\<rparr>" by simp
    moreover have "band_loop data (bandId # rest) (det, t, mx, i) = band_loop data rest ?acc"
      using Some by (simp add: Let_def)
    ultimately show ?thesis by (intro exI [of _ m]) simp
  qed
qed

lemma deviations_shape:
  "\<exists>m. fst (deviations det data) = det\<lparr>baselineEnergies := m\<rparr>"
proof (cases "length (enabledBandIds det) = 0")
  case True
  let ?e = "getBandEnergy det data 20 20000"
  have "fst (deviations det data) = updateBaseline det ''all'' ?e"
    using True by (simp add: deviations_def Let_def)
  also have "\<dots> = det\<lparr>baselineEnergies := baselineEnergies (updateBaseline det ''all'' ?e)\<rparr>"
    by (rule updateBaseline_shape)
  finally show ?thesis by (intro exI)
next
  case False
  obtain m where "fst (band_loop data (enabledBandIds det) (det, 0, 0, None)) = det\<lparr>baselineEnergies := m\<rparr>"
    using band_loop_shape by blast
  moreover have "fst (deviations det data) = fst (band_loop data (enabledBandIds det) (det, 0, 0, None))"
    using False by (simp add: deviations_def split: prod.split)
  ultimately show ?thesis by (intro exI [of _ m]) simp
qed

lemma loop_result:
  assumes "isRunning det"
  shows "\<exists>m t. loop det data =
       (if reactiveEnabled det \<and> impactCooldownFrames det \<le> 1
           \<and> maxDeviation_of det data > impactThreshold det
        then (det\<lparr>impactCooldownFrames := MAX_IMPACT_COOLDOWN, baselineEnergies := m, noiseScore := t\<rparr>,
              (if onNoiseScoreUpdate det then [NoiseScoreUpdate t] else []) @
              (if onImpact det
               then [Impact (min (maxDeviation_of det data * 3) 1) (maxDeviationBandId_of det data)]
               else []))
        else (det\<lparr>impactCooldownFrames := impactCooldownFrames det - 1, baselineEnergies := m, noiseScore := t\<rparr>,
              (if onNoiseScoreUpdate det then [NoiseScoreUpdate t] else [])))"
proof -
  obtain d1 t mx i where d: "deviations (cooldown_step det) data = (d1, t, mx, i)"
    by (cases "deviations (cooldown_step det) data") auto
  obtain m where m: "d1 = (cooldown_step det)\<lparr>baselineEnergies := m\<rparr>"
    using deviations_shape [of "cooldown_step det" data] d by auto
  have md: "maxDeviation_of det data = mx" and mi: "maxDeviationBandId_of det data = i"
    using d by (simp_all add: maxDeviation_of_def maxDeviationBandId_of_def)
  have c: "cooldown_step det = det\<lparr>impactCooldownFrames := impactCooldownFrames det - 1\<rparr>"
    by (simp add: cooldown_step_def)
  have z: "(impactCooldownFrames det - 1 = 0) = (impactCooldownFrames det \<le> 1)" by auto
  have f: "reactiveEnabled d1 = reactiveEnabled det" "onImpact d1 = onImpact det"
    "onNoiseScoreUpdate d1 = onNoiseScoreUpdate det" "sensitivity d1 = sensitivity det"
    "impactCooldownFrames d1 = impactCooldownFrames det - 1" "noiseScore d1 = noiseScore det"
    by (simp_all add: m c)
  have l: "loop det data =
     (let det2 = d1\<lparr>noiseScore := noiseScore det * 0.92 + t * (1 - 0.92)\<rparr>;
          scoreCall = (if onNoiseScoreUpdate det
                       then [NoiseScoreUpdate (noiseScore det * 0.92 + t * (1 - 0.92))] else [])
      in if reactiveEnabled det \<and> impactCooldownFrames det \<le> 1 then
           (if maxDeviation_of det data > impactThreshold det then
              (det2\<lparr>impactCooldownFrames := MAX_IMPACT_COOLDOWN\<rparr>,
               scoreCall @
               (if onImpact det
                then [Impact (min (maxDeviation_of det data * 3) 1) (maxDeviationBandId_of det data)]
                else []))
            else (det2, scoreCall))
         else (det2, scoreCall))"
    using assms by (simp add: loop_def d Let_def f z md mi impactThreshold_def)
  show ?thesis
    apply (rule exI [of _ m])
    apply (rule exI [of _ "noiseScore det * 0.92 + t * (1 - 0.92)"])
    apply (simp add: l Let_def m c)
    done
qed


lemma loop_impacts:
  assumes "isRunning det"
  shows "impacts (snd (loop det data)) =
     (if reactiveEnabled det \<and> impactCooldownFrames det \<le> 1
          \<and> maxDeviation_of det data > impactThreshold det \<and> onImpact det
      then [Impact (min (maxDeviation_of det data * 3) 1) (maxDeviationBandId_of det data)]
      else [])"
proof -
  obtain m t where "loop det data =
       (if reactiveEnabled det \<and> impactCooldownFrames det \<le> 1
           \<and> maxDeviation_of det data > impactThreshold det
        then (det\<lparr>impactCooldownFrames := MAX_IMPACT_COOLDOWN, baselineEnergies := m, noiseScore := t\<rparr>,
              (if onNoiseScoreUpdate det then [NoiseScoreUpdate t] else []) @
              (if onImpact det
               then [Impact (min (maxDeviation_of det data * 3) 1) (maxDeviationBandId_of det data)]
               else []))
        else (det\<lparr>impactCooldownFrames := impactCooldownFrames det - 1, baselineEnergies := m, noiseScore := t\<rparr>,
              (if onNoiseScoreUpdate det then [NoiseScoreUpdate t] else [])))"
    using loop_result [OF assms] by blast
  then show ?thesis by (simp add: impacts_def is_impact_def)
qed

lemma loop_state:
  assumes "isRunning det"
  shows "impactCooldownFrames (fst (loop det data)) =
           (if reactiveEnabled det \<and> impactCooldownFrames det \<le> 1
               \<and> maxDeviation_of det data > impactThreshold det
            then MAX_IMPACT_COOLDOWN else impactCooldownFrames det - 1)"
    and "isRunning (fst (loop det data))"
    and "reactiveEnabled (fst (loop det data)) = reactiveEnabled det"
    and "onImpact (fst (loop det data)) = onImpact det"
    and "sensitivity (fst (loop det data)) = sensitivity det"
proof -
  obtain m t where l: "loop det data =
       (if reactiveEnabled det \<and> impactCooldownFrames det \<le> 1
           \<and> maxDeviation_of det data > impactThreshold det
        then (det\<lparr>impactCooldownFrames := MAX_IMPACT_COOLDOWN, baselineEnergies := m, noiseScore := t\<rparr>,
              (if onNoiseScoreUpdate det then [NoiseScoreUpdate t] else []) @
              (if onImpact det
               then [Impact (min (maxDeviation_of det data * 3) 1) (maxDeviationBandId_of det data)]
               else []))
        else (det\<lparr>impactCooldownFrames := impactCooldownFrames det - 1, baselineEnergies := m, noiseScore := t\<rparr>,
              (if onNoiseScoreUpdate det then [NoiseScoreUpdate t] else [])))"
    using loop_result [OF assms] by blast
  show "impactCooldownFrames (fst (loop det data)) =
           (if reactiveEnabled det \<and> impactCooldownFrames det \<le> 1
               \<and> maxDeviation_of det data > impactThreshold det
            then MAX_IMPACT_COOLDOWN else impactCooldownFrames det - 1)"
    by (simp add: l)
  show "isRunning (fst (loop det data))" using assms by (simp add: l)
  show "reactiveEnabled (fst (loop det data)) = reactiveEnabled det" by (simp add: l)
  show "onImpact (fst (loop det data)) = onImpact det" by (simp add: l)
  show "sensitivity (fst (loop det data)) = sensitivity det" by (simp add: l)
qed

lemma updateNoiseGain_fields [simp]:
  "isRunning (updateNoiseGain det g) = isRunning det"
  "reactiveEnabled (updateNoiseGain det g) = reactiveEnabled det"
  "onImpact (updateNoiseGain det g) = onImpact det"
  "sensitivity (updateNoiseGain det g) = sensitivity det"
  "impactCooldownFrames (updateNoiseGain det g) = impactCooldownFrames det"
  "impactThreshold (updateNoiseGain det g) = impactThreshold det"
  by (simp_all add: updateNoiseGain_def impactThreshold_def)

lemma run_Cons:
  "run det ((data, g) # frames) =
     snd (loop (updateNoiseGain det g) data) # run (fst (loop (updateNoiseGain det g) data)) frames"
  by (simp split: prod.split)

lemma run_counts:
  assumes "isRunning det" "reactiveEnabled det" "onImpact det"
    and "\<forall>i < length frames.
           maxDeviation_of (state_at det frames i) (fst (frames ! i)) > impactThreshold det"
  shows "map (\<lambda>calls. length (impacts calls)) (run det frames)
           = impact_counts (impactCooldownFrames det) (length frames)"
  using assms
proof (induction frames arbitrary: det)
  case Nil
  show ?case by simp
next
  case (Cons frame frames)
  obtain data g where frame: "frame = (data, g)" by (cases frame)
  let ?d = "updateNoiseGain det g"
  let ?d' = "fst (loop ?d data)"
  have run: "isRunning ?d" using Cons.prems(1) by simp
  have ex0: "maxDeviation_of ?d data > impactThreshold det"
    using Cons.prems(4) [rule_format, of 0] by (simp add: frame)
  have here: "length (impacts (snd (loop ?d data))) = (if impactCooldownFrames det \<le> 1 then 1 else 0)"
    using loop_impacts [OF run, of data] ex0 Cons.prems(2,3) by simp
  have cd: "impactCooldownFrames ?d' =
              (if impactCooldownFrames det \<le> 1 then MAX_IMPACT_COOLDOWN else impactCooldownFrames det - 1)"
    using loop_state(1) [OF run, of data] ex0 Cons.prems(2) by simp
  have thr: "impactThreshold ?d' = impactThreshold det"
    using loop_state(5) [OF run, of data] by (simp add: impactThreshold_def)
  have rest: "\<forall>i < length frames.
           maxDeviation_of (state_at ?d' frames i) (fst (frames ! i)) > impactThreshold ?d'"
  proof (intro allI impI)
    fix i assume "i < length frames"
    then show "maxDeviation_of (state_at ?d' frames i) (fst (frames ! i)) > impactThreshold ?d'"
      using Cons.prems(4) [rule_format, of "Suc i"] by (simp add: frame thr)
  qed
  have ih: "map (\<lambda>calls. length (impacts calls)) (run ?d' frames)
           = impact_counts (impactCooldownFrames ?d') (length frames)"
    using Cons.IH [of ?d'] loop_state(2-4) [OF run, of data] Cons.prems(2,3) rest by simp
  show ?case
    unfolding frame run_Cons using here ih cd by simp
qed


lemma getBandEnergy_cong:
  "sampleRate d = sampleRate d0 \<Longrightarrow> frequencyBinCount d = frequencyBinCount d0 \<Longrightarrow>
   getBandEnergy d data lo hi = getBandEnergy d0 data lo hi"
  by (simp add: getBandEnergy_def freqToBin_def)

lemma updateBaseline_fields [simp]:
  "sampleRate (updateBaseline d k e) = sampleRate d"
  "frequencyBinCount (updateBaseline d k e) = frequencyBinCount d"
  "k' \<noteq> k \<Longrightarrow> baselineEnergies (updateBaseline d k e) k' = baselineEnergies d k'"
  by (simp_all add: updateBaseline_def Let_def)

lemma known_bands_Cons:
  "known_bands (bandId # ids) =
     (case find (\<lambda>b. band_id b = bandId) DETECTION_BANDS of
        None \<Rightarrow> known_bands ids | Some band \<Rightarrow> band # known_bands ids)"
  by (simp add: known_bands_def map_filter_simps split: option.split)

lemma band_loop_max:
  assumes "distinct ids"
    and "\<forall>k \<in> set ids. baselineEnergies d k = baselineEnergies d0 k"
    and "sampleRate d = sampleRate d0" "frequencyBinCount d = frequencyBinCount d0"
  shows "fst (snd (snd (band_loop data ids (d, t, mx, i))))
           = fold max (map (band_deviation d0 data) (known_bands ids)) mx"
  using assms
proof (induction ids arbitrary: d t mx i)
  case Nil
  show ?case by (simp add: known_bands_def map_filter_simps)
next
  case (Cons bandId rest)
  show ?case
  proof (cases "find (\<lambda>b. band_id b = bandId) DETECTION_BANDS")
    case None
    have "fst (snd (snd (band_loop data rest (d, t, mx, i))))
            = fold max (map (band_deviation d0 data) (known_bands rest)) mx"
      using Cons.prems by (intro Cons.IH) simp_all
    then show ?thesis using None by (simp add: known_bands_Cons)
  next
    case (Some band)
    then have id: "band_id band = bandId" by (auto simp: find_Some_iff)
    let ?e = "getBandEnergy d data (minFreq band) (maxFreq band)"
    let ?dev = "max 0 (?e - or_default (baselineEnergies d bandId) ?e)"
    have e: "?e = getBandEnergy d0 data (minFreq band) (maxFreq band)"
      using Cons.prems(3,4) by (rule getBandEnergy_cong)
    have dev: "?dev = band_deviation d0 data band"
      using Cons.prems(2) by (simp add: band_deviation_def Let_def e id)
    have "fst (snd (snd (band_loop data rest (updateBaseline d bandId ?e, t + ?dev,
             (if ?dev > mx then ?dev else mx), (if ?dev > mx then Some bandId else i)))))
          = fold max (map (band_deviation d0 data) (known_bands rest)) (if ?dev > mx then ?dev else mx)"
    proof (intro Cons.IH)
      show "distinct rest" using Cons.prems(1) by simp
      show "\<forall>k\<in>set rest. baselineEnergies (updateBaseline d bandId ?e) k = baselineEnergies d0 k"
      proof
        fix k assume k: "k \<in> set rest"
        then have "k \<noteq> bandId" using Cons.prems(1) by auto
        then show "baselineEnergies (updateBaseline d bandId ?e) k = baselineEnergies d0 k"
          using Cons.prems(2) k by simp
      qed
      show "sampleRate (updateBaseline d bandId ?e) = sampleRate d0" using Cons.prems(3) by simp
      show "frequencyBinCount (updateBaseline d bandId ?e) = frequencyBinCount d0"
        using Cons.prems(4) by simp
    qed
    moreover have "(if ?dev > mx then ?dev else mx) = max ?dev mx" by (simp add: max_def)
    ultimately show ?thesis using Some dev by (simp add: known_bands_Cons Let_def)
  qed
qed

lemma cooldown_step_fields [simp]:
  "sampleRate (cooldown_step d) = sampleRate d"
  "frequencyBinCount (cooldown_step d) = frequencyBinCount d"
  "baselineEnergies (cooldown_step d) = baselineEnergies d"
  "enabledBandIds (cooldown_step d) = enabledBandIds d"
  "currentNoiseGain (cooldown_step d) = currentNoiseGain d"
  by (simp_all add: cooldown_step_def)

lemma band_deviation_cooldown_step [simp]:
  "band_deviation (cooldown_step d) data = band_deviation d data"
  by (rule ext) (simp add: band_deviation_def getBandEnergy_def freqToBin_def)

lemma maxDeviation_is_max:
  assumes "distinct (enabledBandIds det)"
  shows "maxDeviation_of det data =
     (if enabledBandIds det = [] then band_deviation det data full_spectrum
      else Max (insert 0 (band_deviation det data ` set (known_bands (enabledBandIds det)))))"
proof (cases "enabledBandIds det = []")
  case True
  have e: "getBandEnergy (cooldown_step det) data 20 20000 = getBandEnergy det data 20 20000"
    by (rule getBandEnergy_cong) simp_all
  show ?thesis using True
    by (simp add: maxDeviation_of_def deviations_def Let_def band_deviation_def
          full_spectrum_def e)
next
  case False
  let ?d = "cooldown_step det"
  have "fst (snd (snd (band_loop data (enabledBandIds det) (?d, 0, 0, None))))
          = fold max (map (band_deviation ?d data) (known_bands (enabledBandIds det))) 0"
    using assms by (intro band_loop_max) simp_all
  also have "\<dots> = fold max (map (band_deviation det data) (known_bands (enabledBandIds det))) 0"
    by simp
  also have "\<dots> = Max (set (0 # map (band_deviation det data) (known_bands (enabledBandIds det))))"
    by (rule Max.set_eq_fold [symmetric])
  finally have "fst (snd (snd (band_loop data (enabledBandIds det) (?d, 0, 0, None))))
          = Max (insert 0 (band_deviation det data ` set (known_bands (enabledBandIds det))))"
    by simp
  moreover obtain d1 t mx i where
    "band_loop data (enabledBandIds det) (?d, 0, 0, None) = (d1, t, mx, i)"
    by (cases "band_loop data (enabledBandIds det) (?d, 0, 0, None)") auto
  ultimately show ?thesis using False
    by (simp add: maxDeviation_of_def deviations_def)
qed

lemma quiet_run:
  assumes "isRunning det" "length frames < impactCooldownFrames det"
  shows "\<forall>calls \<in> set (run det frames). impacts calls = []"
  using assms
proof (induction frames arbitrary: det)
  case Nil
  show ?case by simp
next
  case (Cons frame frames)
  obtain data g where frame: "frame = (data, g)" by (cases frame)
  let ?d = "updateNoiseGain det g"
  have run: "isRunning ?d" using Cons.prems(1) by simp
  have c: "\<not> impactCooldownFrames ?d \<le> 1" using Cons.prems(2) by simp
  have 1: "impacts (snd (loop ?d data)) = []"
    using loop_impacts [OF run, of data] c by simp
  have 2: "impactCooldownFrames (fst (loop ?d data)) = impactCooldownFrames det - 1"
    using loop_state(1) [OF run, of data] c by simp
  have "\<forall>calls \<in> set (run (fst (loop ?d data)) frames). impacts calls = []"
    using Cons.prems(2) 2 loop_state(2) [OF run, of data] by (intro Cons.IH) simp_all
  then show ?case unfolding frame run_Cons using 1 by simp
qed

lemma getBandEnergy_replicate:
  "getBandEnergy det (replicate n v) lo hi =
     (if max 0 (freqToBin det lo) \<ge> min (int n - 1) (freqToBin det hi) then 0
      else real (unat v) / 255)"
proof (cases "max 0 (freqToBin det lo) \<ge> min (int n - 1) (freqToBin det hi)")
  case True
  then show ?thesis by (simp add: getBandEnergy_def Let_def)
next
  case False
  define a where "a = max 0 (freqToBin det lo)"
  define b where "b = min (int n - 1) (freqToBin det hi)"
  have ab: "0 \<le> a" "a < b" "b < int n" using False by (auto simp: a_def b_def)
  have eq: "map (\<lambda>i. real (unat (replicate n v ! i))) [nat a..<nat b + 1]
          = map (\<lambda>i. real (unat v)) [nat a..<nat b + 1]"
    using ab by (intro map_cong) auto
  have "(\<Sum>i\<leftarrow>[nat a..<nat b + 1]. real (unat (replicate n v ! i)))
          = (\<Sum>i\<leftarrow>[nat a..<nat b + 1]. real (unat v))"
    by (simp only: eq)
  also have "\<dots> = real (length [nat a..<nat b + 1]) * real (unat v)"
    by (simp only: sum_list_triv)
  also have "length [nat a..<nat b + 1] = nat b + 1 - nat a"
    by (simp only: length_upt)
  also have "real (nat b + 1 - nat a) = real_of_int (b - a + 1)"
    using ab by (simp add: of_nat_diff)
  finally have "(\<Sum>i\<leftarrow>[nat a..<nat b + 1]. real (unat (replicate n v ! i)))
          / real_of_int (b - a + 1) = real (unat v)"
    using ab by simp
  then show ?thesis using False
    by (simp add: getBandEnergy_def Let_def a_def [symmetric] b_def [symmetric])
qed


lemma demo_energy:
  assumes "sampleRate d = 44100" "frequencyBinCount d = 1024"
  shows "getBandEnergy d demo_data 20 20000 = 1"
  using assms
  by (simp add: demo_data_def getBandEnergy_replicate freqToBin_def Math_round_def)

lemma loop_fields:
  assumes "isRunning det"
  shows "sampleRate (fst (loop det data)) = sampleRate det"
    and "frequencyBinCount (fst (loop det data)) = frequencyBinCount det"
    and "enabledBandIds (fst (loop det data)) = enabledBandIds det"
    and "currentNoiseGain (fst (loop det data)) = currentNoiseGain det"
proof -
  obtain m t where l: "loop det data =
       (if reactiveEnabled det \<and> impactCooldownFrames det \<le> 1
           \<and> maxDeviation_of det data > impactThreshold det
        then (det\<lparr>impactCooldownFrames := MAX_IMPACT_COOLDOWN, baselineEnergies := m, noiseScore := t\<rparr>,
              (if onNoiseScoreUpdate det then [NoiseScoreUpdate t] else []) @
              (if onImpact det
               then [Impact (min (maxDeviation_of det data * 3) 1) (maxDeviationBandId_of det data)]
               else []))
        else (det\<lparr>impactCooldownFrames := impactCooldownFrames det - 1, baselineEnergies := m, noiseScore := t\<rparr>,
              (if onNoiseScoreUpdate det then [NoiseScoreUpdate t] else [])))"
    using loop_result [OF assms] by blast
  show "sampleRate (fst (loop det data)) = sampleRate det" by (simp add: l)
  show "frequencyBinCount (fst (loop det data)) = frequencyBinCount det" by (simp add: l)
  show "enabledBandIds (fst (loop det data)) = enabledBandIds det" by (simp add: l)
  show "currentNoiseGain (fst (loop det data)) = currentNoiseGain det" by (simp add: l)
qed

lemma loop_baselines:
  assumes "isRunning det"
  shows "baselineEnergies (fst (loop det data))
           = baselineEnergies (fst (deviations (cooldown_step det) data))"
proof -
  obtain d1 t mx i where d: "deviations (cooldown_step det) data = (d1, t, mx, i)"
    by (cases "deviations (cooldown_step det) data") auto
  show ?thesis using assms by (simp add: loop_def d Let_def)
qed

lemma demo_tick:
  assumes "isRunning d" "enabledBandIds d = []" "sampleRate d = 44100"
    and "frequencyBinCount d = 1024" "currentNoiseGain d = 1 / 10"
    and "baselineEnergies d ''all'' = Some (1 - 9 / 10 * (19 / 20) ^ k)"
  shows "maxDeviation_of d demo_data = 9 / 10 * (19 / 20) ^ k"
    and "baselineEnergies (fst (loop d demo_data)) ''all'' = Some (1 - 9 / 10 * (19 / 20) ^ Suc k)"
proof -
  have e: "getBandEnergy (cooldown_step d) demo_data 20 20000 = 1"
    using assms(3,4) by (intro demo_energy) simp_all
  have p: "(19 / 20 :: real) ^ k \<le> 1" "0 \<le> (19 / 20 :: real) ^ k"
    by (simp_all add: power_le_one)
  then have nz: "1 - 9 / 10 * (19 / 20 :: real) ^ k \<noteq> 0" by linarith
  show "maxDeviation_of d demo_data = 9 / 10 * (19 / 20) ^ k"
    using assms(2,6) p nz
    by (simp add: maxDeviation_of_def deviations_def Let_def e or_default_def)
  define x where "x = (19 / 20 :: real) ^ k"
  have xb: "0 \<le> x" "x \<le> 1" using p by (simp_all add: x_def)
  have xs: "(19 / 20 :: real) ^ Suc k = 19 / 20 * x" by (simp add: x_def)
  have "fst (deviations (cooldown_step d) demo_data) = updateBaseline (cooldown_step d) ''all'' 1"
    using assms(2) by (simp add: deviations_def Let_def e)
  then have "baselineEnergies (fst (deviations (cooldown_step d) demo_data)) ''all''
          = Some (max ((1 - 9 / 10 * (19 / 20) ^ k) * 0.95 + 1 * 0.05) (0.3 * (1 / 10)))"
    using assms(5,6) nz by (simp only: updateBaseline_stored cooldown_step_fields or_default_def
          option.case Let_def if_False refl not_less order_refl) simp
  then have v: "baselineEnergies (fst (deviations (cooldown_step d) demo_data)) ''all''
          = Some (max ((1 - 9 / 10 * x) * 0.95 + 1 * 0.05) (0.3 * (1 / 10)))"
    by (simp only: x_def)
  have A: "(1 - 9 / 10 * x) * 0.95 + 1 * 0.05 = 1 - 9 / 10 * (19 / 20 * x)"
    by (simp add: algebra_simps)
  have B: "0.3 * (1 / 10) \<le> 1 - 9 / 10 * (19 / 20 * x)"
    using xb by simp
  have "max ((1 - 9 / 10 * x) * 0.95 + 1 * 0.05) (0.3 * (1 / 10)) = 1 - 9 / 10 * (19 / 20 * x)"
    unfolding A using B by (rule max_absorb1)
  with v show "baselineEnergies (fst (loop d demo_data)) ''all'' = Some (1 - 9 / 10 * (19 / 20) ^ Suc k)"
    by (simp only: loop_baselines [OF assms(1)] xs)
qed

lemma demo_states:
  assumes "i < n" "isRunning d" "enabledBandIds d = []" "sampleRate d = 44100"
    and "frequencyBinCount d = 1024"
    and "baselineEnergies d ''all'' = Some (1 - 9 / 10 * (19 / 20) ^ k)"
  shows "maxDeviation_of (state_at d (replicate n (demo_data, 1 / 10)) i) demo_data
           = 9 / 10 * (19 / 20) ^ (k + i)"
  using assms
proof (induction i arbitrary: d n k)
  case 0
  then obtain n' where n: "n = Suc n'" by (cases n) auto
  show ?case unfolding n using 0
    by (simp add: updateNoiseGain_def demo_tick(1))
next
  case (Suc i)
  then obtain n' where n: "n = Suc n'" by (cases n) auto
  let ?d = "updateNoiseGain d (1 / 10)"
  have g: "isRunning ?d" "enabledBandIds ?d = []" "sampleRate ?d = 44100"
    "frequencyBinCount ?d = 1024" "currentNoiseGain ?d = 1 / 10"
    "baselineEnergies ?d ''all'' = Some (1 - 9 / 10 * (19 / 20) ^ k)"
    using Suc.prems by (simp_all add: updateNoiseGain_def)
  have "maxDeviation_of (state_at (fst (loop ?d demo_data)) (replicate n' (demo_data, 1 / 10)) i) demo_data
           = 9 / 10 * (19 / 20) ^ (Suc k + i)"
  proof (rule Suc.IH)
    show "i < n'" using Suc.prems(1) n by simp
    show "isRunning (fst (loop ?d demo_data))" using loop_state(2) [OF g(1)] .
    show "enabledBandIds (fst (loop ?d demo_data)) = []" using loop_fields(3) [OF g(1)] g(2) by simp
    show "sampleRate (fst (loop ?d demo_data)) = 44100" using loop_fields(1) [OF g(1)] g(3) by simp
    show "frequencyBinCount (fst (loop ?d demo_data)) = 1024"
      using loop_fields(2) [OF g(1)] g(4) by simp
    show "baselineEnergies (fst (loop ?d demo_data)) ''all'' = Some (1 - 9 / 10 * (19 / 20) ^ Suc k)"
      using g by (rule demo_tick(2))
  qed
  then show ?case unfolding n by simp
qed

lemma demo_exceeds:
  "\<forall>i < 40. maxDeviation_of (state_at demo_detector demo_frames i) (fst (demo_frames ! i)) > 0.05"
proof (intro allI impI)
  fix i :: nat assume i: "i < 40"
  have d: "isRunning demo_detector" "enabledBandIds demo_detector = []"
    "sampleRate demo_detector = 44100" "frequencyBinCount demo_detector = 1024"
    "baselineEnergies demo_detector ''all'' = Some (1 - 9 / 10 * (19 / 20) ^ 0)"
    by (simp_all add: demo_detector_def new_detector_def setSimpleMode_def SIMPLE_MODES_def)
  have "maxDeviation_of (state_at demo_detector demo_frames i) demo_data = 9 / 10 * (19 / 20) ^ (0 + i)"
    unfolding demo_frames_def using i d by (rule demo_states)
  then have m: "maxDeviation_of (state_at demo_detector demo_frames i) demo_data = 9 / 10 * (19 / 20) ^ i"
    by simp
  have le: "(19 / 20 :: real) ^ 39 \<le> (19 / 20) ^ i"
    using i by (intro power_decreasing) simp_all
  have gt: "(9 / 10 * (19 / 20) ^ 39 :: real) > 1 / 20"
    by (simp add: power_divide)
  have "maxDeviation_of (state_at demo_detector demo_frames i) demo_data > 1 / 20"
    unfolding m using le gt by linarith
  moreover have "fst (demo_frames ! i) = demo_data"
    using i by (simp add: demo_frames_def)
  ultimately show "maxDeviation_of (state_at demo_detector demo_frames i) (fst (demo_frames ! i)) > 0.05"
    by simp
qed

lemma impact_counts_40:
  "c \<le> 1 \<Longrightarrow> impact_counts c 40 = (replicate 40 0)[0 := 1, 20 := 1]"
  by (simp add: eval_nat_numeral MAX_IMPACT_COOLDOWN_def)

text \<open>
  C2. On a tick of a running detector whose \<open>onImpact\<close> callback is set:
  \<^item> an impact is emitted if and only if reactive detection is enabled, no cooldown is
    active and the tick's maximum deviation exceeds \<open>0.3 * (1 - sensitivity) + 0.05\<close>.
    The counter is decremented at the start of the tick and then compared with \<open>0\<close>,
    so no cooldown is active exactly when the tick starts with the counter at most 1;
  \<^item> the emitted intensity is \<open>min (maxDeviation * 3) 1\<close>, the counter is then \<open>20\<close>, and
    none of the next 19 ticks emits an impact, whatever they observe;
  \<^item> the maximum deviation is the largest of the deviations of the bands visited (that
    of the whole spectrum when no band is enabled);
  \<^item> with sensitivity 1, forty ticks that all exceed \<open>0.05\<close> emit exactly one impact
    at tick 0, one at tick 20, and none at any other tick.
\<close>

theorem impact_detection:
  assumes "isRunning det" and "onImpact det"
  shows
    "(impacts (snd (loop det data)) \<noteq> [] \<longleftrightarrow>
        reactiveEnabled det \<and> impactCooldownFrames det \<le> 1 \<and>
        maxDeviation_of det data > 0.3 * (1 - sensitivity det) + 0.05) \<and>
     (impacts (snd (loop det data)) \<noteq> [] \<longrightarrow>
        impacts (snd (loop det data)) =
          [Impact (min (maxDeviation_of det data * 3) 1.0) (maxDeviationBandId_of det data)] \<and>
        impactCooldownFrames (fst (loop det data)) = 20 \<and>
        (\<forall>later. length later < 20 \<longrightarrow>
           (\<forall>calls \<in> set (run (fst (loop det data)) later). impacts calls = []))) \<and>
     (distinct (enabledBandIds det) \<longrightarrow>
        maxDeviation_of det data =
          (if enabledBandIds det = [] then band_deviation det data full_spectrum
           else Max (insert 0 (band_deviation det data ` set (known_bands (enabledBandIds det)))))) \<and>
     (reactiveEnabled det \<and> sensitivity det = 1.0 \<and> impactCooldownFrames det \<le> 1 \<and>
      length frames = 40 \<and>
      (\<forall>i < 40. maxDeviation_of (state_at det frames i) (fst (frames ! i)) > 0.05) \<longrightarrow>
        map (\<lambda>calls. length (impacts calls)) (run det frames) = (replicate 40 0)[0 := 1, 20 := 1])"
proof (intro conjI impI)
  have thr: "impactThreshold det = 0.3 * (1 - sensitivity det) + 0.05"
    by (simp add: impactThreshold_def)
  show iff: "impacts (snd (loop det data)) \<noteq> [] \<longleftrightarrow>
        reactiveEnabled det \<and> impactCooldownFrames det \<le> 1 \<and>
        maxDeviation_of det data > 0.3 * (1 - sensitivity det) + 0.05"
    using loop_impacts [OF assms(1), of data] assms(2) by (simp add: thr)
  assume fired: "impacts (snd (loop det data)) \<noteq> []"
  show "impacts (snd (loop det data)) =
          [Impact (min (maxDeviation_of det data * 3) 1.0) (maxDeviationBandId_of det data)]"
    using loop_impacts [OF assms(1), of data] fired by (simp split: if_splits)
  show cd: "impactCooldownFrames (fst (loop det data)) = 20"
    using loop_state(1) [OF assms(1), of data] fired iff
    by (simp add: thr MAX_IMPACT_COOLDOWN_def)
  show "\<forall>later. length later < 20 \<longrightarrow>
           (\<forall>calls \<in> set (run (fst (loop det data)) later). impacts calls = [])"
    using quiet_run [OF loop_state(2) [OF assms(1), of data]] cd by simp
next
  assume "distinct (enabledBandIds det)"
  then show "maxDeviation_of det data =
          (if enabledBandIds det = [] then band_deviation det data full_spectrum
           else Max (insert 0 (band_deviation det data ` set (known_bands (enabledBandIds det)))))"
    by (rule maxDeviation_is_max)
next
  assume a: "reactiveEnabled det \<and> sensitivity det = 1.0 \<and> impactCooldownFrames det \<le> 1 \<and>
      length frames = 40 \<and>
      (\<forall>i < 40. maxDeviation_of (state_at det frames i) (fst (frames ! i)) > 0.05)"
  then have thr: "impactThreshold det = 0.05" by (simp add: impactThreshold_def)
  have "map (\<lambda>calls. length (impacts calls)) (run det frames)
          = impact_counts (impactCooldownFrames det) (length frames)"
    using assms a by (intro run_counts) (simp_all add: thr)
  then show "map (\<lambda>calls. length (impacts calls)) (run det frames)
          = (replicate 40 0)[0 := 1, 20 := 1]"
    using a by (simp only: impact_counts_40)
qed

lemma two_band_fields:
  "enabledBandIds two_band_detector = [''footsteps'', ''hard_impact'']"
  "sampleRate two_band_detector = 44100" "frequencyBinCount two_band_detector = 1024"
  "isRunning two_band_detector" "onImpact two_band_detector"
  "baselineEnergies two_band_detector ''footsteps'' = Some (1 / 2)"
  "baselineEnergies two_band_detector ''hard_impact'' = Some (1 / 5)"
  "impactCooldownFrames two_band_detector = 0" "reactiveEnabled two_band_detector"
  "sensitivity two_band_detector = 1 / 2"
  by (simp_all add: two_band_detector_def setDetailedMode_def new_detector_def setSimpleMode_def
        SIMPLE_MODES_def set_add_def Let_def)

lemma two_band_known:
  "known_bands [''footsteps'', ''hard_impact''] =
     [\<lparr>band_id = ''footsteps'', minFreq = 50, maxFreq = 100\<rparr>,
      \<lparr>band_id = ''hard_impact'', minFreq = 300, maxFreq = 1000\<rparr>]"
  by (simp add: known_bands_def DETECTION_BANDS_def map_filter_simps)

lemma two_band_energy:
  "getBandEnergy two_band_detector demo_data 50 100 = 1"
  "getBandEnergy two_band_detector demo_data 300 1000 = 1"
  by (simp_all add: demo_data_def getBandEnergy_replicate freqToBin_def Math_round_def two_band_fields)

lemma two_band_dev:
  "band_deviation two_band_detector demo_data \<lparr>band_id = ''footsteps'', minFreq = 50, maxFreq = 100\<rparr> = 1 / 2"
  "band_deviation two_band_detector demo_data \<lparr>band_id = ''hard_impact'', minFreq = 300, maxFreq = 1000\<rparr> = 4 / 5"
  by (simp_all add: band_deviation_def Let_def two_band_energy two_band_fields or_default_def)

lemma two_band_id:
  "maxDeviationBandId_of two_band_detector demo_data = Some ''hard_impact''"
proof -
  have e: "getBandEnergy (cooldown_step two_band_detector) demo_data 50 100 = 1"
    "getBandEnergy (cooldown_step two_band_detector) demo_data 300 1000 = 1"
    "\<And>k x. getBandEnergy (updateBaseline (cooldown_step two_band_detector) k x) demo_data 300 1000 = 1"
    by (simp_all add: demo_data_def getBandEnergy_replicate freqToBin_def Math_round_def two_band_fields)
  show ?thesis
    by (simp add: maxDeviationBandId_of_def deviations_def two_band_fields DETECTION_BANDS_def
          Let_def e or_default_def)
qed

theorem impact_detection_witness:
  "isRunning demo_detector \<and> onImpact demo_detector \<and> reactiveEnabled demo_detector \<and>
   sensitivity demo_detector = 1 \<and> impactCooldownFrames demo_detector = 0 \<and>
   distinct (enabledBandIds demo_detector) \<and> length demo_frames = 40 \<and>
   maxDeviation_of demo_detector demo_data = 9 / 10 \<and>
   maxDeviation_of demo_detector demo_data = band_deviation demo_detector demo_data full_spectrum \<and>
   impacts (snd (loop demo_detector demo_data)) = [Impact 1 None] \<and>
   impactCooldownFrames (fst (loop demo_detector demo_data)) = 20 \<and>
   list_all (\<lambda>calls. impacts calls = [])
     (run (fst (loop demo_detector demo_data)) (replicate 19 (demo_data, 1 / 10))) \<and>
   map (\<lambda>calls. length (impacts calls)) (run demo_detector demo_frames)
     = (replicate 40 0)[0 := 1, 20 := 1] \<and>
   isRunning two_band_detector \<and> onImpact two_band_detector \<and>
   distinct (enabledBandIds two_band_detector) \<and>
   maxDeviation_of two_band_detector demo_data = 4 / 5 \<and>
   impacts (snd (loop two_band_detector demo_data)) = [Impact 1 (Some ''hard_impact'')]"
proof -
  have d: "isRunning demo_detector" "onImpact demo_detector" "reactiveEnabled demo_detector"
    "sensitivity demo_detector = 1" "impactCooldownFrames demo_detector = 0"
    "enabledBandIds demo_detector = []" "sampleRate demo_detector = 44100"
    "frequencyBinCount demo_detector = 1024"
    "baselineEnergies demo_detector ''all'' = Some (1 - 9 / 10 * (19 / 20) ^ 0)"
    by (simp_all add: demo_detector_def new_detector_def setSimpleMode_def SIMPLE_MODES_def)
  have len: "length demo_frames = 40" by (simp add: demo_frames_def)
  have e: "getBandEnergy (cooldown_step demo_detector) demo_data 20 20000 = 1"
    using d(7,8) by (intro demo_energy) simp_all
  have m: "maxDeviation_of demo_detector demo_data = 9 / 10"
    using d(6,9) by (simp add: maxDeviation_of_def deviations_def Let_def e or_default_def)
  have i: "maxDeviationBandId_of demo_detector demo_data = None"
    using d(6) by (simp add: maxDeviationBandId_of_def deviations_def Let_def)
  note t = impact_detection [OF d(1) d(2), of demo_data]
  from t d(3,4,5) m have fired: "impacts (snd (loop demo_detector demo_data)) \<noteq> []"
    by simp
  with t m i have ev: "impacts (snd (loop demo_detector demo_data)) = [Impact 1 None]"
    and cd: "impactCooldownFrames (fst (loop demo_detector demo_data)) = 20"
    by simp_all
  from t fired
  have "\<forall>later. length later < 20 \<longrightarrow>
           (\<forall>calls \<in> set (run (fst (loop demo_detector demo_data)) later). impacts calls = [])"
    by blast
  from this [rule_format, of "replicate 19 (demo_data, 1 / 10)"]
  have quiet: "list_all (\<lambda>calls. impacts calls = [])
     (run (fst (loop demo_detector demo_data)) (replicate 19 (demo_data, 1 / 10)))"
    by (simp add: list_all_iff)
  from t d(6) have mx: "maxDeviation_of demo_detector demo_data
      = band_deviation demo_detector demo_data full_spectrum"
    by simp
  from t [of demo_frames] d(3,4,5) len demo_exceeds
  have forty: "map (\<lambda>calls. length (impacts calls)) (run demo_detector demo_frames)
          = (replicate 40 0)[0 := 1, 20 := 1]"
    by simp
  note u = impact_detection [OF two_band_fields(4) two_band_fields(5), of demo_data]
  have dist: "distinct (enabledBandIds two_band_detector)"
    by (simp add: two_band_fields)
  from u dist have m2: "maxDeviation_of two_band_detector demo_data = 4 / 5"
    by (simp add: two_band_fields two_band_known two_band_dev)
  with u two_band_fields(8,9,10)
  have fired2: "impacts (snd (loop two_band_detector demo_data)) \<noteq> []"
    by simp
  with u m2 two_band_id
  have ev2: "impacts (snd (loop two_band_detector demo_data)) = [Impact 1 (Some ''hard_impact'')]"
    by simp
  show ?thesis
    using d(1-5) d(6) len m mx ev cd quiet forty two_band_fields(4,5) dist m2 ev2
    by (intro conjI) simp_all
qed


subsection \<open>NoiseProcessor: silence, finite output and gating\<close>

lemma colours_pink_state:
  "b0 (fst (colours w p b d st white)) = (if p > 0 then 0.99886 * b0 st + white * 0.0555179 else b0 st)"
  "b1 (fst (colours w p b d st white)) = (if p > 0 then 0.99332 * b1 st + white * 0.0750759 else b1 st)"
  "b2 (fst (colours w p b d st white)) = (if p > 0 then 0.96900 * b2 st + white * 0.1538520 else b2 st)"
  "b3 (fst (colours w p b d st white)) = (if p > 0 then 0.86650 * b3 st + white * 0.3104856 else b3 st)"
  "b4 (fst (colours w p b d st white)) = (if p > 0 then 0.55000 * b4 st + white * 0.5329522 else b4 st)"
  "b5 (fst (colours w p b d st white)) = (if p > 0 then -0.7616 * b5 st - white * 0.0168980 else b5 st)"
  "b6 (fst (colours w p b d st white)) = (if p > 0 then white * 0.115926 else b6 st)"
  by (simp_all add: colours_def Let_def split: prod.split)

lemma colours_integrators:
  "lastBrown (fst (colours w p b d st white)) = (lastBrown st + 0.02 * white) / 1.02"
  "lastDark (fst (colours w p b d st white)) = (lastDark st + 0.005 * white) / 1.005"
  by (simp_all add: colours_def Let_def split: prod.split)

lemma colours_more:
  "noise_state.more (fst (colours w p b d st white)) = noise_state.more st"
  by (simp add: colours_def Let_def split: prod.split)

lemma colours_mix:
  "snd (colours w p b d st white) =
     (if w > 0 then white * w else 0)
     + (if p > 0 then (pink_of st white * 0.11) * p else 0)
     + (if b > 0 then ((lastBrown st + 0.02 * white) / 1.02 * 3.5) * b else 0)
     + (if d > 0 then ((lastDark st + 0.005 * white) / 1.005 * 4.0) * d else 0)"
  by (simp add: colours_def Let_def pink_of_def split: prod.split)

lemma scaled_bound:
  fixes x g B :: real
  assumes "\<bar>x\<bar> \<le> B" "0 \<le> g" "g \<le> 1"
  shows "\<bar>x * g\<bar> \<le> B"
proof -
  have "\<bar>x * g\<bar> = \<bar>x\<bar> * g" using assms(2) by (simp add: abs_mult)
  also have "\<dots> \<le> \<bar>x\<bar> * 1" using assms(3) by (intro mult_left_mono) simp_all
  finally show ?thesis using assms(1) by simp
qed

lemma gated_bound:
  fixes x g B :: real
  assumes "\<bar>x\<bar> \<le> B" "unit_gain g"
  shows "\<bar>if g > 0 then x * g else 0\<bar> \<le> B"
proof (cases "g > 0")
  case True
  then show ?thesis using scaled_bound [OF assms(1), of g] assms(2) by (simp add: unit_gain_def)
next
  case False
  have "0 \<le> \<bar>x\<bar>" by simp
  with assms(1) have "0 \<le> B" by linarith
  with False show ?thesis by simp
qed

lemma filter_bound:
  fixes a x c w B :: real
  assumes "\<bar>x\<bar> \<le> B" "\<bar>w\<bar> \<le> 1" "\<bar>a\<bar> * B + \<bar>c\<bar> \<le> B"
  shows "\<bar>a * x + w * c\<bar> \<le> B"
proof -
  have "\<bar>a * x + w * c\<bar> \<le> \<bar>a\<bar> * \<bar>x\<bar> + \<bar>w\<bar> * \<bar>c\<bar>"
    using abs_triangle_ineq [of "a * x" "w * c"] by (simp add: abs_mult)
  also have "\<bar>a\<bar> * \<bar>x\<bar> \<le> \<bar>a\<bar> * B" using assms(1) by (intro mult_left_mono) simp_all
  also have "\<bar>w\<bar> * \<bar>c\<bar> \<le> 1 * \<bar>c\<bar>" using assms(2) by (intro mult_right_mono) simp_all
  finally show ?thesis using assms(3) by simp
qed

lemma integrator_bound:
  fixes s w k :: real
  assumes "\<bar>s\<bar> \<le> 1" "\<bar>w\<bar> \<le> 1" "0 < k"
  shows "\<bar>(s + k * w) / (1 + k)\<bar> \<le> 1"
proof -
  have "\<bar>s + k * w\<bar> \<le> \<bar>s\<bar> + k * \<bar>w\<bar>"
    using abs_triangle_ineq [of s "k * w"] assms(3) by (simp add: abs_mult)
  also have "k * \<bar>w\<bar> \<le> k * 1" using assms(2,3) by (intro mult_left_mono) simp_all
  finally have "\<bar>s + k * w\<bar> \<le> 1 + k" using assms(1) by simp
  then show ?thesis using assms(3) by (simp add: abs_divide pos_divide_le_eq)
qed

lemma colours_state_bounded:
  assumes "state_bounded st" "\<bar>white\<bar> \<le> 1"
  shows "state_bounded (fst (colours w p b d st white))"
proof -
  have s: "\<bar>b0 st\<bar> \<le> 49" "\<bar>b1 st\<bar> \<le> 12" "\<bar>b2 st\<bar> \<le> 5" "\<bar>b3 st\<bar> \<le> 3" "\<bar>b4 st\<bar> \<le> 1.2"
    "\<bar>b5 st\<bar> \<le> 0.1" "\<bar>b6 st\<bar> \<le> 0.2" "\<bar>lastBrown st\<bar> \<le> 1" "\<bar>lastDark st\<bar> \<le> 1"
    using assms(1) by (simp_all add: state_bounded_def)
  have n0: "\<bar>0.99886 * b0 st + white * 0.0555179\<bar> \<le> 49"
    using s(1) assms(2) by (rule filter_bound) simp
  have n1: "\<bar>0.99332 * b1 st + white * 0.0750759\<bar> \<le> 12"
    using s(2) assms(2) by (rule filter_bound) simp
  have n2: "\<bar>0.96900 * b2 st + white * 0.1538520\<bar> \<le> 5"
    using s(3) assms(2) by (rule filter_bound) simp
  have n3: "\<bar>0.86650 * b3 st + white * 0.3104856\<bar> \<le> 3"
    using s(4) assms(2) by (rule filter_bound) simp
  have n4: "\<bar>0.55000 * b4 st + white * 0.5329522\<bar> \<le> 1.2"
    using s(5) assms(2) by (rule filter_bound) simp
  have "\<bar>-0.7616 * b5 st + white * (- 0.0168980)\<bar> \<le> 0.1"
    using s(6) assms(2) by (rule filter_bound) simp
  then have n5: "\<bar>-0.7616 * b5 st - white * 0.0168980\<bar> \<le> 0.1"
    by (simp only: mult_minus_right diff_conv_add_uminus)
  have "\<bar>white * 0.115926\<bar> = \<bar>white\<bar> * 0.115926" by (simp add: abs_mult)
  then have n6: "\<bar>white * 0.115926\<bar> \<le> 0.2" using assms(2) by simp
  have "\<bar>(lastBrown st + 0.02 * white) / (1 + 0.02)\<bar> \<le> 1"
    using s(8) assms(2) by (rule integrator_bound) simp
  then have nb: "\<bar>(lastBrown st + 0.02 * white) / 1.02\<bar> \<le> 1" by simp
  have "\<bar>(lastDark st + 0.005 * white) / (1 + 0.005)\<bar> \<le> 1"
    using s(9) assms(2) by (rule integrator_bound) simp
  then have nd: "\<bar>(lastDark st + 0.005 * white) / 1.005\<bar> \<le> 1" by simp
  show ?thesis
  proof (cases "p > 0")
    case True
    show ?thesis
      unfolding state_bounded_def colours_pink_state colours_integrators if_P [OF True]
      by (intro conjI n0 n1 n2 n3 n4 n5 n6 nb nd)
  next
    case False
    show ?thesis
      unfolding state_bounded_def colours_pink_state colours_integrators if_not_P [OF False]
      by (intro conjI s nb nd)
  qed
qed

lemma abs_sum_bound:
  fixes x y A B :: real
  assumes "\<bar>x\<bar> \<le> A" "\<bar>y\<bar> \<le> B"
  shows "\<bar>x + y\<bar> \<le> A + B"
  using abs_triangle_ineq [of x y] assms by linarith

lemma abs_scale_bound:
  fixes x c :: real
  assumes "\<bar>x\<bar> \<le> 1" "0 \<le> c"
  shows "\<bar>x * c\<bar> \<le> c"
proof -
  have "\<bar>x * c\<bar> = \<bar>x\<bar> * c" using assms(2) by (simp add: abs_mult)
  also have "\<dots> \<le> 1 * c" using assms by (intro mult_right_mono) simp_all
  finally show ?thesis by simp
qed

lemma abs_times_const:
  fixes x c B :: real
  assumes "\<bar>x\<bar> \<le> B" "0 \<le> c"
  shows "\<bar>x * c\<bar> \<le> B * c"
proof -
  have "\<bar>x * c\<bar> = \<bar>x\<bar> * c" using assms(2) by (simp add: abs_mult)
  also have "\<dots> \<le> B * c" using assms by (intro mult_right_mono) simp_all
  finally show ?thesis .
qed

lemma pink_bound:
  assumes "state_bounded st" "\<bar>white\<bar> \<le> 1"
  shows "\<bar>pink_of st white * 0.11\<bar> \<le> 7.82"
proof -
  have s: "\<bar>b0 st\<bar> \<le> 49" "\<bar>b1 st\<bar> \<le> 12" "\<bar>b2 st\<bar> \<le> 5" "\<bar>b3 st\<bar> \<le> 3" "\<bar>b4 st\<bar> \<le> 1.2"
    "\<bar>b5 st\<bar> \<le> 0.1" "\<bar>b6 st\<bar> \<le> 0.2"
    using assms(1) by (simp_all add: state_bounded_def)
  have n0: "\<bar>0.99886 * b0 st + white * 0.0555179\<bar> \<le> 49"
    using s(1) assms(2) by (rule filter_bound) simp
  have n1: "\<bar>0.99332 * b1 st + white * 0.0750759\<bar> \<le> 12"
    using s(2) assms(2) by (rule filter_bound) simp
  have n2: "\<bar>0.96900 * b2 st + white * 0.1538520\<bar> \<le> 5"
    using s(3) assms(2) by (rule filter_bound) simp
  have n3: "\<bar>0.86650 * b3 st + white * 0.3104856\<bar> \<le> 3"
    using s(4) assms(2) by (rule filter_bound) simp
  have n4: "\<bar>0.55000 * b4 st + white * 0.5329522\<bar> \<le> 1.2"
    using s(5) assms(2) by (rule filter_bound) simp
  have "\<bar>-0.7616 * b5 st + white * (- 0.0168980)\<bar> \<le> 0.1"
    using s(6) assms(2) by (rule filter_bound) simp
  then have n5: "\<bar>-0.7616 * b5 st - white * 0.0168980\<bar> \<le> 0.1"
    by (simp only: mult_minus_right diff_conv_add_uminus)
  have "\<bar>white * 0.5362\<bar> = \<bar>white\<bar> * 0.5362" by (simp add: abs_mult)
  then have n7: "\<bar>white * 0.5362\<bar> \<le> 0.5362" using assms(2) by simp
  define t0 where "t0 = 0.99886 * b0 st + white * 0.0555179"
  define t1 where "t1 = 0.99332 * b1 st + white * 0.0750759"
  define t2 where "t2 = 0.96900 * b2 st + white * 0.1538520"
  define t3 where "t3 = 0.86650 * b3 st + white * 0.3104856"
  define t4 where "t4 = 0.55000 * b4 st + white * 0.5329522"
  define t5 where "t5 = -0.7616 * b5 st - white * 0.0168980"
  define t6 where "t6 = b6 st"
  define t7 where "t7 = white * 0.5362"
  have b: "\<bar>t0\<bar> \<le> 49" "\<bar>t1\<bar> \<le> 12" "\<bar>t2\<bar> \<le> 5" "\<bar>t3\<bar> \<le> 3" "\<bar>t4\<bar> \<le> 1.2" "\<bar>t5\<bar> \<le> 0.1"
    "\<bar>t6\<bar> \<le> 0.2" "\<bar>t7\<bar> \<le> 0.5362"
    using n0 n1 n2 n3 n4 n5 s(7) n7
    by (simp_all only: t0_def t1_def t2_def t3_def t4_def t5_def t6_def t7_def)
  have p: "pink_of st white = t0 + t1 + t2 + t3 + t4 + t5 + t6 + t7"
    by (simp only: pink_of_def t0_def t1_def t2_def t3_def t4_def t5_def t6_def t7_def)
  have "\<bar>t0 + t1 + t2 + t3 + t4 + t5 + t6 + t7\<bar> \<le> 49 + 12 + 5 + 3 + 1.2 + 0.1 + 0.2 + 0.5362"
    by (intro abs_sum_bound b)
  then have "\<bar>t0 + t1 + t2 + t3 + t4 + t5 + t6 + t7\<bar> \<le> 71.0362"
    by simp
  then have "\<bar>(t0 + t1 + t2 + t3 + t4 + t5 + t6 + t7) * 0.11\<bar> \<le> 71.0362 * 0.11"
    by (rule abs_times_const) simp
  then have "\<bar>(t0 + t1 + t2 + t3 + t4 + t5 + t6 + t7) * 0.11\<bar> \<le> 7.82"
    by simp
  then show ?thesis by (simp only: p)
qed

lemma colours_mix_bound:
  assumes "state_bounded st" "\<bar>white\<bar> \<le> 1"
    and "unit_gain w" "unit_gain p" "unit_gain b" "unit_gain d"
  shows "\<bar>snd (colours w p b d st white)\<bar> \<le> 16.32"
proof -
  define tw where "tw = (if w > 0 then white * w else 0)"
  define tp where "tp = (if p > 0 then (pink_of st white * 0.11) * p else 0)"
  define tb where "tb = (if b > 0 then ((lastBrown st + 0.02 * white) / 1.02 * 3.5) * b else 0)"
  define td where "td = (if d > 0 then ((lastDark st + 0.005 * white) / 1.005 * 4.0) * d else 0)"
  have s: "\<bar>lastBrown st\<bar> \<le> 1" "\<bar>lastDark st\<bar> \<le> 1"
    using assms(1) by (simp_all add: state_bounded_def)
  have 1: "\<bar>tw\<bar> \<le> 1" unfolding tw_def using assms(2,3) by (rule gated_bound)
  have 2: "\<bar>tp\<bar> \<le> 7.82" unfolding tp_def using pink_bound [OF assms(1,2)] assms(4)
    by (rule gated_bound)
  have "\<bar>(lastBrown st + 0.02 * white) / (1 + 0.02)\<bar> \<le> 1"
    using s(1) assms(2) by (rule integrator_bound) simp
  then have "\<bar>(lastBrown st + 0.02 * white) / 1.02\<bar> \<le> 1" by simp
  then have "\<bar>(lastBrown st + 0.02 * white) / 1.02 * 3.5\<bar> \<le> 3.5"
    by (rule abs_scale_bound) simp
  then have 3: "\<bar>tb\<bar> \<le> 3.5" unfolding tb_def using assms(5) by (rule gated_bound)
  have "\<bar>(lastDark st + 0.005 * white) / (1 + 0.005)\<bar> \<le> 1"
    using s(2) assms(2) by (rule integrator_bound) simp
  then have "\<bar>(lastDark st + 0.005 * white) / 1.005\<bar> \<le> 1" by simp
  then have "\<bar>(lastDark st + 0.005 * white) / 1.005 * 4.0\<bar> \<le> 4.0"
    by (rule abs_scale_bound) simp
  then have 4: "\<bar>td\<bar> \<le> 4.0" unfolding td_def using assms(6) by (rule gated_bound)
  have "snd (colours w p b d st white) = tw + tp + tb + td"
    by (simp only: colours_mix tw_def tp_def tb_def td_def)
  moreover have "\<bar>tw + tp + tb + td\<bar> \<le> 1 + 7.82 + 3.5 + 4.0"
    by (intro abs_sum_bound 1 2 3 4)
  then have "\<bar>tw + tp + tb + td\<bar> \<le> 16.32" by simp
  ultimately show ?thesis by simp
qed

lemma rumble_state_bounded:
  "state_bounded (fst (rumble g i1 i2 i3 im st mixed)) = state_bounded st"
  by (simp add: rumble_def state_bounded_def Let_def)

lemma rumble_bound:
  assumes "unit_gain g" "\<bar>mixed\<bar> \<le> 16.32"
  shows "\<bar>snd (rumble g i1 i2 i3 im st mixed)\<bar> \<le> 17.36"
proof (cases "g > 0")
  case False
  then show ?thesis using assms(2) by (simp add: rumble_def)
next
  case True
  define st1 where "st1 = st\<lparr>rumblePhase1 := wrap_phase (rumblePhase1 st + i1),
                      rumblePhase2 := wrap_phase (rumblePhase2 st + i2),
                      rumblePhase3 := wrap_phase (rumblePhase3 st + i3),
                      rumbleModPhase := wrap_phase (rumbleModPhase st + im)\<rparr>"
  define r where "r = sin (rumblePhase1 st1) * 0.5 + sin (rumblePhase2 st1) * 0.3
                   + sin (rumblePhase3 st1) * 0.2"
  define m where "m = 1.0 + sin (rumbleModPhase st1) * 0.3"
  have s: "\<bar>sin (rumblePhase1 st1)\<bar> \<le> 1" "\<bar>sin (rumblePhase2 st1)\<bar> \<le> 1"
    "\<bar>sin (rumblePhase3 st1)\<bar> \<le> 1" "\<bar>sin (rumbleModPhase st1)\<bar> \<le> 1"
    by simp_all
  have "\<bar>r\<bar> \<le> 0.5 + 0.3 + 0.2" unfolding r_def
    by (intro abs_sum_bound abs_scale_bound s) simp_all
  then have r: "\<bar>r\<bar> \<le> 1" by simp
  have "\<bar>1.0 :: real\<bar> \<le> 1" by simp
  then have "\<bar>m\<bar> \<le> 1 + 0.3" unfolding m_def
    by (intro abs_sum_bound abs_scale_bound s) simp_all
  then have m: "\<bar>m\<bar> \<le> 1.3" by simp
  have "\<bar>r * m\<bar> = \<bar>r\<bar> * \<bar>m\<bar>" by (simp add: abs_mult)
  also have "\<dots> \<le> 1 * 1.3" using r m by (intro mult_mono) simp_all
  finally have rm: "\<bar>r * m\<bar> \<le> 1.3" by simp
  have "\<bar>(r * m) * g\<bar> \<le> 1.3"
    using scaled_bound [OF rm, of g] assms(1) by (simp add: unit_gain_def)
  then have "\<bar>(r * m) * g * 0.8\<bar> \<le> 1.3 * 0.8" by (rule abs_times_const) simp
  then have t: "\<bar>(r * m) * g * 0.8\<bar> \<le> 1.04" by simp
  have "snd (rumble g i1 i2 i3 im st mixed) = mixed + (r * m) * g * 0.8"
    using True by (simp add: rumble_def Let_def r_def m_def st1_def)
  moreover have "\<bar>mixed + (r * m) * g * 0.8\<bar> \<le> 16.32 + 1.04"
    using assms(2) t by (rule abs_sum_bound)
  ultimately show ?thesis by simp
qed

lemma white_range:
  fixes random :: real
  assumes "0 \<le> random \<and> random < 1"
  shows "\<bar>random * 2 - 1\<bar> \<le> 1"
  using assms by (simp add: abs_le_iff)

lemma sample_finite:
  assumes "\<bar>mixed\<bar> \<le> 18" "list_all unit_gain mg"
    and "length mg = 1 \<or> i < length mg"
  shows "finite_sample (map_option (\<lambda>g. mixed * g) (masterGain_at mg i))"
proof -
  define j where "j = (if length mg > 1 then i else 0)"
  have j: "j < length mg" using assms(3) by (auto simp: j_def)
  then have "unit_gain (mg ! j)" using assms(2) by (simp add: list_all_length)
  then have "\<bar>mixed * (mg ! j)\<bar> \<le> 18"
    using scaled_bound [OF assms(1), of "mg ! j"] by (simp add: unit_gain_def)
  moreover have "masterGain_at mg i = Some (mg ! j)"
    using j by (simp add: masterGain_at_def j_def Let_def)
  ultimately show ?thesis by (simp add: finite_sample_def)
qed

lemma channel_loop_Cons:
  "channel_loop p i (random # rest) st =
     (fst (channel_loop p (Suc i) rest
            (fst (colours (whiteGain p) (pinkGain p) (brownGain p) (darkGain p) st (random * 2 - 1)))),
      map_option (\<lambda>g. snd (colours (whiteGain p) (pinkGain p) (brownGain p) (darkGain p) st
                             (random * 2 - 1)) * g) (masterGain_at (masterGain p) i)
      # snd (channel_loop p (Suc i) rest
            (fst (colours (whiteGain p) (pinkGain p) (brownGain p) (darkGain p) st (random * 2 - 1)))))"
  by (simp add: Let_def split: prod.split)

lemma channels_loop_Cons:
  "channels_loop p (channel # rest) st =
     (fst (channels_loop p rest (fst (channel_loop p 0 channel st))),
      snd (channel_loop p 0 channel st) # snd (channels_loop p rest (fst (channel_loop p 0 channel st))))"
  by (simp add: Let_def split: prod.split)

lemma channel_loop_ok:
  assumes "state_bounded st"
    and "unit_gain (whiteGain p)" "unit_gain (pinkGain p)" "unit_gain (brownGain p)"
        "unit_gain (darkGain p)"
    and "list_all unit_gain (masterGain p)"
    and "list_all (\<lambda>random. 0 \<le> random \<and> random < 1) randoms"
    and "length (masterGain p) = 1 \<or> i + length randoms \<le> length (masterGain p)"
  shows "state_bounded (fst (channel_loop p i randoms st)) \<and>
         list_all finite_sample (snd (channel_loop p i randoms st))"
  using assms(1,7,8)
proof (induction randoms arbitrary: i st)
  case Nil
  then show ?case by simp
next
  case (Cons random rest)
  let ?c = "colours (whiteGain p) (pinkGain p) (brownGain p) (darkGain p) st (random * 2 - 1)"
  have w: "\<bar>random * 2 - 1\<bar> \<le> 1" using Cons.prems(2) by (intro white_range) simp
  have sb: "state_bounded (fst ?c)" using Cons.prems(1) w by (rule colours_state_bounded)
  have "\<bar>snd ?c\<bar> \<le> 16.32" using Cons.prems(1) w assms(2-5) by (rule colours_mix_bound)
  then have mb: "\<bar>snd ?c\<bar> \<le> 18" by simp
  have "finite_sample (map_option (\<lambda>g. snd ?c * g) (masterGain_at (masterGain p) i))"
    using mb assms(6) Cons.prems(3) by (intro sample_finite) auto
  moreover have "state_bounded (fst (channel_loop p (Suc i) rest (fst ?c))) \<and>
         list_all finite_sample (snd (channel_loop p (Suc i) rest (fst ?c)))"
    using sb Cons.prems(2,3) by (intro Cons.IH) auto
  ultimately show ?case unfolding channel_loop_Cons by simp
qed

lemma channels_loop_ok:
  assumes "state_bounded st"
    and "unit_gain (whiteGain p)" "unit_gain (pinkGain p)" "unit_gain (brownGain p)"
        "unit_gain (darkGain p)"
    and "list_all unit_gain (masterGain p)"
    and "list_all (list_all (\<lambda>random. 0 \<le> random \<and> random < 1)) draws"
    and "length (masterGain p) = 1 \<or>
         list_all (\<lambda>channel. length channel \<le> length (masterGain p)) draws"
  shows "state_bounded (fst (channels_loop p draws st)) \<and>
         list_all (list_all finite_sample) (snd (channels_loop p draws st))"
  using assms(1,7,8)
proof (induction draws arbitrary: st)
  case Nil
  then show ?case by simp
next
  case (Cons channel rest)
  have c: "state_bounded (fst (channel_loop p 0 channel st)) \<and>
         list_all finite_sample (snd (channel_loop p 0 channel st))"
    using Cons.prems(1) assms(2-6) Cons.prems(2,3) by (intro channel_loop_ok) auto
  have "state_bounded (fst (channels_loop p rest (fst (channel_loop p 0 channel st)))) \<and>
         list_all (list_all finite_sample)
           (snd (channels_loop p rest (fst (channel_loop p 0 channel st))))"
    using c Cons.prems(2,3) by (intro Cons.IH) auto
  with c show ?case unfolding channels_loop_Cons by simp
qed

lemma finite_zero: "finite_sample (Some 0)"
  by (simp add: finite_sample_def)

lemma zeros_finite:
  "list_all (list_all finite_sample) (map (\<lambda>channel. replicate (length channel) (Some 0)) draws)"
  by (simp add: list_all_iff finite_zero)

lemma process_ok:
  assumes "state_bounded st" "call_ok p draws"
  shows "state_bounded (fst (process p st draws)) \<and>
         list_all (list_all finite_sample) (snd (process p st draws))"
proof (cases "whiteGain p = 0 \<and> pinkGain p = 0 \<and> brownGain p = 0 \<and> darkGain p = 0")
  case True
  show ?thesis unfolding process_def if_P [OF True] using assms(1) by (simp add: zeros_finite)
next
  case False
  have "state_bounded (fst (channels_loop p draws st)) \<and>
         list_all (list_all finite_sample) (snd (channels_loop p draws st))"
    using assms unfolding call_ok_def by (intro channels_loop_ok) auto
  then show ?thesis unfolding process_def if_not_P [OF False] .
qed

lemma render_calls_Cons:
  "render_calls st ((p, draws) # calls) =
     snd (process p st draws) # render_calls (fst (process p st draws)) calls"
  by (simp split: prod.split)

lemma render_calls_ok:
  assumes "state_bounded st" "list_all (\<lambda>(p, draws). call_ok p draws) calls"
  shows "list_all (list_all (list_all finite_sample)) (render_calls st calls)"
  using assms
proof (induction calls arbitrary: st)
  case Nil
  then show ?case by simp
next
  case (Cons call calls)
  obtain p draws where call: "call = (p, draws)" by (cases call)
  have ok: "state_bounded (fst (process p st draws)) \<and>
         list_all (list_all finite_sample) (snd (process p st draws))"
    using Cons.prems by (intro process_ok) (simp_all add: call)
  have "list_all (list_all (list_all finite_sample)) (render_calls (fst (process p st draws)) calls)"
    using ok Cons.prems(2) by (intro Cons.IH) simp_all
  with ok show ?case unfolding call render_calls_Cons by simp
qed

lemma initial_bounded: "state_bounded initial_noise_state" "state_bounded initial_rumble_state"
  by (simp_all add: state_bounded_def initial_noise_state_def initial_rumble_state_def)

lemma rumble_channel_loop_Cons:
  "rumble_channel_loop p rate i (random # rest) st =
     (let c = colours (whiteGain p) (pinkGain p) (brownGain p) (darkGain p) st (random * 2 - 1);
          r = rumble (rumbleGain p) ((2 * pi * rumbleFreq p) / rate)
                ((2 * pi * rumbleFreq p * 1.13) / rate) ((2 * pi * rumbleFreq p * 1.31) / rate)
                ((2 * pi * rumbleSpeed p) / rate) (fst c) (snd c)
      in (fst (rumble_channel_loop p rate (Suc i) rest (fst r)),
          map_option (\<lambda>g. snd r * g) (masterGain_at (masterGain p) i)
          # snd (rumble_channel_loop p rate (Suc i) rest (fst r))))"
  by (simp add: Let_def split: prod.split)

lemma rumble_channels_loop_Cons:
  "rumble_channels_loop p rate (channel # rest) st =
     (fst (rumble_channels_loop p rate rest (fst (rumble_channel_loop p rate 0 channel st))),
      snd (rumble_channel_loop p rate 0 channel st)
      # snd (rumble_channels_loop p rate rest (fst (rumble_channel_loop p rate 0 channel st))))"
  by (simp add: Let_def split: prod.split)

lemma rumble_render_calls_Cons:
  "rumble_render_calls rate st ((p, draws) # calls) =
     snd (process_rumble rate p st draws)
     # rumble_render_calls rate (fst (process_rumble rate p st draws)) calls"
  by (simp split: prod.split)

lemma rumble_channel_loop_ok:
  assumes "state_bounded st"
    and "unit_gain (whiteGain p)" "unit_gain (pinkGain p)" "unit_gain (brownGain p)"
        "unit_gain (darkGain p)" "unit_gain (rumbleGain p)"
    and "list_all unit_gain (masterGain p)"
    and "list_all (\<lambda>random. 0 \<le> random \<and> random < 1) randoms"
    and "length (masterGain p) = 1 \<or> i + length randoms \<le> length (masterGain p)"
  shows "state_bounded (fst (rumble_channel_loop p rate i randoms st)) \<and>
         list_all finite_sample (snd (rumble_channel_loop p rate i randoms st))"
  using assms(1,8,9)
proof (induction randoms arbitrary: i st)
  case Nil
  then show ?case by simp
next
  case (Cons random rest)
  let ?c = "colours (whiteGain p) (pinkGain p) (brownGain p) (darkGain p) st (random * 2 - 1)"
  let ?r = "rumble (rumbleGain p) ((2 * pi * rumbleFreq p) / rate)
                ((2 * pi * rumbleFreq p * 1.13) / rate) ((2 * pi * rumbleFreq p * 1.31) / rate)
                ((2 * pi * rumbleSpeed p) / rate) (fst ?c) (snd ?c)"
  have w: "\<bar>random * 2 - 1\<bar> \<le> 1" using Cons.prems(2) by (intro white_range) simp
  have "state_bounded (fst ?c)" using Cons.prems(1) w by (rule colours_state_bounded)
  then have sb: "state_bounded (fst ?r)" by (simp only: rumble_state_bounded)
  have "\<bar>snd ?c\<bar> \<le> 16.32" using Cons.prems(1) w assms(2-5) by (rule colours_mix_bound)
  with assms(6) have "\<bar>snd ?r\<bar> \<le> 17.36" by (rule rumble_bound)
  then have mb: "\<bar>snd ?r\<bar> \<le> 18" by simp
  have "finite_sample (map_option (\<lambda>g. snd ?r * g) (masterGain_at (masterGain p) i))"
    using mb assms(7) Cons.prems(3) by (intro sample_finite) auto
  moreover have "state_bounded (fst (rumble_channel_loop p rate (Suc i) rest (fst ?r))) \<and>
         list_all finite_sample (snd (rumble_channel_loop p rate (Suc i) rest (fst ?r)))"
    using sb Cons.prems(2,3) by (intro Cons.IH) auto
  ultimately show ?case unfolding rumble_channel_loop_Cons Let_def by simp
qed

lemma rumble_channels_loop_ok:
  assumes "state_bounded st"
    and "unit_gain (whiteGain p)" "unit_gain (pinkGain p)" "unit_gain (brownGain p)"
        "unit_gain (darkGain p)" "unit_gain (rumbleGain p)"
    and "list_all unit_gain (masterGain p)"
    and "list_all (list_all (\<lambda>random. 0 \<le> random \<and> random < 1)) draws"
    and "length (masterGain p) = 1 \<or>
         list_all (\<lambda>channel. length channel \<le> length (masterGain p)) draws"
  shows "state_bounded (fst (rumble_channels_loop p rate draws st)) \<and>
         list_all (list_all finite_sample) (snd (rumble_channels_loop p rate draws st))"
  using assms(1,8,9)
proof (induction draws arbitrary: st)
  case Nil
  then show ?case by simp
next
  case (Cons channel rest)
  have c: "state_bounded (fst (rumble_channel_loop p rate 0 channel st)) \<and>
         list_all finite_sample (snd (rumble_channel_loop p rate 0 channel st))"
    using Cons.prems(1) assms(2-7) Cons.prems(2,3) by (intro rumble_channel_loop_ok) auto
  have "state_bounded (fst (rumble_channels_loop p rate rest
            (fst (rumble_channel_loop p rate 0 channel st)))) \<and>
         list_all (list_all finite_sample)
           (snd (rumble_channels_loop p rate rest (fst (rumble_channel_loop p rate 0 channel st))))"
    using c Cons.prems(2,3) by (intro Cons.IH) auto
  with c show ?case unfolding rumble_channels_loop_Cons by simp
qed

lemma process_rumble_ok:
  assumes "state_bounded st" "call_ok p draws" "unit_gain (rumbleGain p)"
  shows "state_bounded (fst (process_rumble rate p st draws)) \<and>
         list_all (list_all finite_sample) (snd (process_rumble rate p st draws))"
proof (cases "whiteGain p = 0 \<and> pinkGain p = 0 \<and> brownGain p = 0 \<and> darkGain p = 0
                \<and> rumbleGain p = 0")
  case True
  show ?thesis unfolding process_rumble_def if_P [OF True] using assms(1)
    by (simp add: zeros_finite)
next
  case False
  have "state_bounded (fst (rumble_channels_loop p (or_default rate 44100) draws st)) \<and>
         list_all (list_all finite_sample)
           (snd (rumble_channels_loop p (or_default rate 44100) draws st))"
    using assms unfolding call_ok_def by (intro rumble_channels_loop_ok) auto
  then show ?thesis unfolding process_rumble_def if_not_P [OF False] .
qed

lemma rumble_render_calls_ok:
  assumes "state_bounded st"
    and "list_all (\<lambda>(p, draws). call_ok p draws \<and> unit_gain (rumbleGain p)) calls"
  shows "list_all (list_all (list_all finite_sample)) (rumble_render_calls rate st calls)"
  using assms
proof (induction calls arbitrary: st)
  case Nil
  then show ?case by simp
next
  case (Cons call calls)
  obtain p draws where call: "call = (p, draws)" by (cases call)
  have ok: "state_bounded (fst (process_rumble rate p st draws)) \<and>
         list_all (list_all finite_sample) (snd (process_rumble rate p st draws))"
    using Cons.prems by (intro process_rumble_ok) (simp_all add: call)
  have "list_all (list_all (list_all finite_sample))
          (rumble_render_calls rate (fst (process_rumble rate p st draws)) calls)"
    using ok Cons.prems(2) by (intro Cons.IH) simp_all
  with ok show ?case unfolding call rumble_render_calls_Cons by simp
qed

lemma colours_pink_gated:
  "\<not> p > 0 \<Longrightarrow> pink_state (fst (colours w p b d st white)) = pink_state st"
  by (simp add: pink_state_def colours_pink_state)

lemma rumble_colour_state:
  "pink_state (fst (rumble g i1 i2 i3 im st mixed)) = pink_state st"
  "lastBrown (fst (rumble g i1 i2 i3 im st mixed)) = lastBrown st"
  "lastDark (fst (rumble g i1 i2 i3 im st mixed)) = lastDark st"
  by (simp_all add: rumble_def pink_state_def Let_def)

lemma rumble_gated:
  "\<not> g > 0 \<Longrightarrow> rumble_phases (fst (rumble g i1 i2 i3 im st mixed)) = rumble_phases st"
  by (simp add: rumble_def)

lemma colours_phases:
  "rumble_phases (fst (colours w p b d st white)) = rumble_phases st"
  by (simp add: rumble_phases_def colours_def Let_def split: prod.split)

lemma integrate_Cons:
  "integrate k (random # rest) s = integrate k rest ((s + k * (random * 2 - 1)) / (1 + k))"
  by (simp add: integrate_def)

lemma integrate_append:
  "integrate k (xs @ ys) s = integrate k ys (integrate k xs s)"
  by (simp add: integrate_def)

lemma channel_loop_state:
  "(\<not> pinkGain p > 0 \<longrightarrow> pink_state (fst (channel_loop p i randoms st)) = pink_state st) \<and>
   lastBrown (fst (channel_loop p i randoms st)) = integrate 0.02 randoms (lastBrown st) \<and>
   lastDark (fst (channel_loop p i randoms st)) = integrate 0.005 randoms (lastDark st)"
proof (induction randoms arbitrary: i st)
  case Nil
  show ?case by (simp add: integrate_def)
next
  case (Cons random rest)
  let ?c = "colours (whiteGain p) (pinkGain p) (brownGain p) (darkGain p) st (random * 2 - 1)"
  have b: "lastBrown (fst ?c) = (lastBrown st + 0.02 * (random * 2 - 1)) / (1 + 0.02)"
    and d: "lastDark (fst ?c) = (lastDark st + 0.005 * (random * 2 - 1)) / (1 + 0.005)"
    by (simp_all add: colours_integrators)
  note ih = Cons.IH [of "Suc i" "fst ?c"]
  show ?case unfolding channel_loop_Cons fst_conv integrate_Cons
  proof (intro conjI impI)
    assume np: "\<not> pinkGain p > 0"
    then have "pink_state (fst (channel_loop p (Suc i) rest (fst ?c))) = pink_state (fst ?c)"
      using ih by simp
    also have "\<dots> = pink_state st" using np by (rule colours_pink_gated)
    finally show "pink_state (fst (channel_loop p (Suc i) rest (fst ?c))) = pink_state st" .
  next
    show "lastBrown (fst (channel_loop p (Suc i) rest (fst ?c)))
            = integrate 0.02 rest ((lastBrown st + 0.02 * (random * 2 - 1)) / (1 + 0.02))"
      using ih by (simp only: b)
    show "lastDark (fst (channel_loop p (Suc i) rest (fst ?c)))
            = integrate 0.005 rest ((lastDark st + 0.005 * (random * 2 - 1)) / (1 + 0.005))"
      using ih by (simp only: d)
  qed
qed

lemma channels_loop_state:
  "(\<not> pinkGain p > 0 \<longrightarrow> pink_state (fst (channels_loop p draws st)) = pink_state st) \<and>
   lastBrown (fst (channels_loop p draws st)) = integrate 0.02 (concat draws) (lastBrown st) \<and>
   lastDark (fst (channels_loop p draws st)) = integrate 0.005 (concat draws) (lastDark st)"
proof (induction draws arbitrary: st)
  case Nil
  show ?case by (simp add: integrate_def)
next
  case (Cons channel rest)
  note c = channel_loop_state [of p 0 channel st]
  note ih = Cons.IH [of "fst (channel_loop p 0 channel st)"]
  show ?case unfolding channels_loop_Cons fst_conv concat.simps integrate_append
    using c ih by simp
qed

lemma rumble_channel_loop_state:
  "(\<not> pinkGain p > 0 \<longrightarrow> pink_state (fst (rumble_channel_loop p rate i randoms st)) = pink_state st) \<and>
   (\<not> rumbleGain p > 0 \<longrightarrow>
      rumble_phases (fst (rumble_channel_loop p rate i randoms st)) = rumble_phases st) \<and>
   lastBrown (fst (rumble_channel_loop p rate i randoms st)) = integrate 0.02 randoms (lastBrown st) \<and>
   lastDark (fst (rumble_channel_loop p rate i randoms st)) = integrate 0.005 randoms (lastDark st)"
proof (induction randoms arbitrary: i st)
  case Nil
  show ?case by (simp add: integrate_def)
next
  case (Cons random rest)
  let ?c = "colours (whiteGain p) (pinkGain p) (brownGain p) (darkGain p) st (random * 2 - 1)"
  let ?r = "rumble (rumbleGain p) ((2 * pi * rumbleFreq p) / rate)
                ((2 * pi * rumbleFreq p * 1.13) / rate) ((2 * pi * rumbleFreq p * 1.31) / rate)
                ((2 * pi * rumbleSpeed p) / rate) (fst ?c) (snd ?c)"
  have b: "lastBrown (fst ?r) = (lastBrown st + 0.02 * (random * 2 - 1)) / (1 + 0.02)"
    and d: "lastDark (fst ?r) = (lastDark st + 0.005 * (random * 2 - 1)) / (1 + 0.005)"
    by (simp_all add: colours_integrators rumble_colour_state)
  note ih = Cons.IH [of "Suc i" "fst ?r"]
  show ?case unfolding rumble_channel_loop_Cons Let_def fst_conv integrate_Cons
  proof (intro conjI impI)
    assume np: "\<not> pinkGain p > 0"
    then have "pink_state (fst (rumble_channel_loop p rate (Suc i) rest (fst ?r))) = pink_state (fst ?r)"
      using ih by simp
    also have "\<dots> = pink_state (fst ?c)" by (rule rumble_colour_state)
    also have "\<dots> = pink_state st" using np by (rule colours_pink_gated)
    finally show "pink_state (fst (rumble_channel_loop p rate (Suc i) rest (fst ?r))) = pink_state st" .
  next
    assume nr: "\<not> rumbleGain p > 0"
    then have "rumble_phases (fst (rumble_channel_loop p rate (Suc i) rest (fst ?r)))
                 = rumble_phases (fst ?r)"
      using ih by simp
    also have "\<dots> = rumble_phases (fst ?c)" using nr by (rule rumble_gated)
    also have "\<dots> = rumble_phases st" by (rule colours_phases)
    finally show "rumble_phases (fst (rumble_channel_loop p rate (Suc i) rest (fst ?r)))
                 = rumble_phases st" .
  next
    show "lastBrown (fst (rumble_channel_loop p rate (Suc i) rest (fst ?r)))
            = integrate 0.02 rest ((lastBrown st + 0.02 * (random * 2 - 1)) / (1 + 0.02))"
      using ih by (simp only: b)
    show "lastDark (fst (rumble_channel_loop p rate (Suc i) rest (fst ?r)))
            = integrate 0.005 rest ((lastDark st + 0.005 * (random * 2 - 1)) / (1 + 0.005))"
      using ih by (simp only: d)
  qed
qed

lemma rumble_channels_loop_state:
  "(\<not> pinkGain p > 0 \<longrightarrow> pink_state (fst (rumble_channels_loop p rate draws st)) = pink_state st) \<and>
   (\<not> rumbleGain p > 0 \<longrightarrow>
      rumble_phases (fst (rumble_channels_loop p rate draws st)) = rumble_phases st) \<and>
   lastBrown (fst (rumble_channels_loop p rate draws st))
     = integrate 0.02 (concat draws) (lastBrown st) \<and>
   lastDark (fst (rumble_channels_loop p rate draws st))
     = integrate 0.005 (concat draws) (lastDark st)"
proof (induction draws arbitrary: st)
  case Nil
  show ?case by (simp add: integrate_def)
next
  case (Cons channel rest)
  note c = rumble_channel_loop_state [of p rate 0 channel st]
  note ih = Cons.IH [of "fst (rumble_channel_loop p rate 0 channel st)"]
  show ?case unfolding rumble_channels_loop_Cons fst_conv concat.simps integrate_append
    using c ih by simp
qed

text \<open>
  C1. In every render call in which the white, pink, brown and dark gains (and, in the
  rumble-capable variant, the rumble gain) are all exactly \<open>0\<close>, every sample of
  every output channel is exactly \<open>0\<close>. In every sequence of render calls from the
  initial state whose gains (master gain included) lie in \<open>[0,1]\<close>, every output
  sample is a number, never \<open>NaN\<close>, of magnitude at most \<open>18\<close>: exact arithmetic
  has no infinity, and the bound on the filter state is what keeps the samples finite.
\<close>

theorem silence_and_finite_output:
  "(whiteGain p = 0 \<and> pinkGain p = 0 \<and> brownGain p = 0 \<and> darkGain p = 0 \<longrightarrow>
      snd (process p st draws) = map (\<lambda>channel. replicate (length channel) (Some 0)) draws) \<and>
   (whiteGain q = 0 \<and> pinkGain q = 0 \<and> brownGain q = 0 \<and> darkGain q = 0 \<and> rumbleGain q = 0 \<longrightarrow>
      snd (process_rumble rate q rst draws)
        = map (\<lambda>channel. replicate (length channel) (Some 0)) draws) \<and>
   (list_all (\<lambda>(p, draws). call_ok p draws) calls \<longrightarrow>
      list_all (list_all (list_all finite_sample)) (render_calls initial_noise_state calls)) \<and>
   (list_all (\<lambda>(q, draws). call_ok q draws \<and> unit_gain (rumbleGain q)) rcalls \<longrightarrow>
      list_all (list_all (list_all finite_sample))
        (rumble_render_calls rate initial_rumble_state rcalls))"
proof (intro conjI impI)
  assume "whiteGain p = 0 \<and> pinkGain p = 0 \<and> brownGain p = 0 \<and> darkGain p = 0"
  then show "snd (process p st draws) = map (\<lambda>channel. replicate (length channel) (Some 0)) draws"
    by (simp add: process_def)
next
  assume "whiteGain q = 0 \<and> pinkGain q = 0 \<and> brownGain q = 0 \<and> darkGain q = 0 \<and> rumbleGain q = 0"
  then show "snd (process_rumble rate q rst draws)
        = map (\<lambda>channel. replicate (length channel) (Some 0)) draws"
    by (simp add: process_rumble_def)
next
  assume "list_all (\<lambda>(p, draws). call_ok p draws) calls"
  with initial_bounded(1)
  show "list_all (list_all (list_all finite_sample)) (render_calls initial_noise_state calls)"
    by (rule render_calls_ok)
next
  assume "list_all (\<lambda>(q, draws). call_ok q draws \<and> unit_gain (rumbleGain q)) rcalls"
  with initial_bounded(2)
  show "list_all (list_all (list_all finite_sample))
        (rumble_render_calls rate initial_rumble_state rcalls)"
    by (rule rumble_render_calls_ok)
qed

theorem silence_and_finite_output_witness:
  "snd (process silent_params initial_noise_state [[1 / 2, 1 / 4], [3 / 4]])
     = [[Some 0, Some 0], [Some 0]] \<and>
   snd (process_rumble (Some 48000) silent_rumble_params initial_rumble_state [[1 / 2], [3 / 4]])
     = [[Some 0], [Some 0]] \<and>
   list_all (\<lambda>(p, draws). call_ok p draws) [(white_only, [[3 / 4]]), (silent_params, [[1 / 2]])] \<and>
   render_calls initial_noise_state [(white_only, [[3 / 4]]), (silent_params, [[1 / 2]])]
     = [[[Some (1 / 2)]], [[Some 0]]] \<and>
   list_all (list_all (list_all finite_sample))
     (render_calls initial_noise_state [(white_only, [[3 / 4]]), (silent_params, [[1 / 2]])]) \<and>
   list_all (\<lambda>(q, draws). call_ok q draws \<and> unit_gain (rumbleGain q))
     [(rumble_only, [[1 / 2, 1 / 4]])] \<and>
   list_all (list_all (list_all finite_sample))
     (rumble_render_calls None initial_rumble_state [(rumble_only, [[1 / 2, 1 / 4]])])"
proof -
  note t = silence_and_finite_output [where p = silent_params and st = initial_noise_state
      and draws = "[[1 / 2, 1 / 4], [3 / 4]]"
      and calls = "[(white_only, [[3 / 4]]), (silent_params, [[1 / 2]])]"
      and rcalls = "[(rumble_only, [[1 / 2, 1 / 4]])]" and rate = None]
  note u = silence_and_finite_output [where q = silent_rumble_params
      and rst = initial_rumble_state and draws = "[[1 / 2], [3 / 4]]" and rate = "Some 48000"]
  have z: "whiteGain silent_params = 0 \<and> pinkGain silent_params = 0 \<and>
           brownGain silent_params = 0 \<and> darkGain silent_params = 0"
    by (simp add: silent_params_def)
  have zr: "whiteGain silent_rumble_params = 0 \<and> pinkGain silent_rumble_params = 0 \<and>
           brownGain silent_rumble_params = 0 \<and> darkGain silent_rumble_params = 0 \<and>
           rumbleGain silent_rumble_params = 0"
    by (simp add: silent_rumble_params_def)
  have ok: "list_all (\<lambda>(p, draws). call_ok p draws)
              [(white_only, [[3 / 4]]), (silent_params, [[1 / 2]])]"
    by (simp add: call_ok_def white_only_def silent_params_def unit_gain_def)
  have rok: "list_all (\<lambda>(q, draws). call_ok q draws \<and> unit_gain (rumbleGain q))
              [(rumble_only, [[1 / 2, 1 / 4]])]"
    by (simp add: call_ok_def rumble_only_def unit_gain_def)
  have v: "render_calls initial_noise_state [(white_only, [[3 / 4]]), (silent_params, [[1 / 2]])]
             = [[[Some (1 / 2)]], [[Some 0]]]"
    by (simp add: process_def white_only_def silent_params_def colours_def Let_def
          masterGain_at_def initial_noise_state_def)
  from t z have 1: "snd (process silent_params initial_noise_state [[1 / 2, 1 / 4], [3 / 4]])
     = [[Some 0, Some 0], [Some 0]]"
    by (simp add: eval_nat_numeral)
  from u zr have 2: "snd (process_rumble (Some 48000) silent_rumble_params initial_rumble_state
       [[1 / 2], [3 / 4]]) = [[Some 0], [Some 0]]"
    by simp
  from t rok have 3: "list_all (list_all (list_all finite_sample))
     (rumble_render_calls None initial_rumble_state [(rumble_only, [[1 / 2, 1 / 4]])])"
    by blast
  from t ok have 4: "list_all (list_all (list_all finite_sample))
     (render_calls initial_noise_state [(white_only, [[3 / 4]]), (silent_params, [[1 / 2]])])"
    by blast
  show ?thesis using 1 2 3 4 ok rok v by (intro conjI)
qed

text \<open>
  C8 (as amended). In every render block in which pink's gain is exactly \<open>0\<close>, pink's
  computation is skipped: its filter state \<open>b0..b6\<close> is unchanged after the block;
  likewise the rumble phases when the rumble gain is \<open>0\<close>. Brown's and dark's
  integrators are advanced on every sample of a block in which not all gains are \<open>0\<close>,
  whatever their own gains: after the block each holds the leaky integrator run over all
  the white samples of the block.
\<close>

theorem gain_gating:
  "(pinkGain p = 0 \<longrightarrow> pink_state (fst (process p st draws)) = pink_state st) \<and>
   (\<not> (whiteGain p = 0 \<and> pinkGain p = 0 \<and> brownGain p = 0 \<and> darkGain p = 0) \<longrightarrow>
      lastBrown (fst (process p st draws)) = integrate 0.02 (concat draws) (lastBrown st) \<and>
      lastDark (fst (process p st draws)) = integrate 0.005 (concat draws) (lastDark st)) \<and>
   (pinkGain q = 0 \<longrightarrow> pink_state (fst (process_rumble rate q rst draws)) = pink_state rst) \<and>
   (rumbleGain q = 0 \<longrightarrow>
      rumble_phases (fst (process_rumble rate q rst draws)) = rumble_phases rst) \<and>
   (\<not> (whiteGain q = 0 \<and> pinkGain q = 0 \<and> brownGain q = 0 \<and> darkGain q = 0 \<and> rumbleGain q = 0) \<longrightarrow>
      lastBrown (fst (process_rumble rate q rst draws))
        = integrate 0.02 (concat draws) (lastBrown rst) \<and>
      lastDark (fst (process_rumble rate q rst draws))
        = integrate 0.005 (concat draws) (lastDark rst))"
proof (intro conjI impI)
  assume "pinkGain p = 0"
  then show "pink_state (fst (process p st draws)) = pink_state st"
    using channels_loop_state [of p draws st] by (simp add: process_def)
next
  assume n: "\<not> (whiteGain p = 0 \<and> pinkGain p = 0 \<and> brownGain p = 0 \<and> darkGain p = 0)"
  show "lastBrown (fst (process p st draws)) = integrate 0.02 (concat draws) (lastBrown st)"
    unfolding process_def if_not_P [OF n] using channels_loop_state [of p draws st] by simp
  show "lastDark (fst (process p st draws)) = integrate 0.005 (concat draws) (lastDark st)"
    unfolding process_def if_not_P [OF n] using channels_loop_state [of p draws st] by simp
next
  assume "pinkGain q = 0"
  then show "pink_state (fst (process_rumble rate q rst draws)) = pink_state rst"
    using rumble_channels_loop_state [of q "or_default rate 44100" draws rst]
    by (simp add: process_rumble_def)
next
  assume "rumbleGain q = 0"
  then show "rumble_phases (fst (process_rumble rate q rst draws)) = rumble_phases rst"
    using rumble_channels_loop_state [of q "or_default rate 44100" draws rst]
    by (simp add: process_rumble_def)
next
  assume n: "\<not> (whiteGain q = 0 \<and> pinkGain q = 0 \<and> brownGain q = 0 \<and> darkGain q = 0
                  \<and> rumbleGain q = 0)"
  show "lastBrown (fst (process_rumble rate q rst draws))
          = integrate 0.02 (concat draws) (lastBrown rst)"
    unfolding process_rumble_def if_not_P [OF n]
    using rumble_channels_loop_state [of q "or_default rate 44100" draws rst] by simp
  show "lastDark (fst (process_rumble rate q rst draws))
          = integrate 0.005 (concat draws) (lastDark rst)"
    unfolding process_rumble_def if_not_P [OF n]
    using rumble_channels_loop_state [of q "or_default rate 44100" draws rst] by simp
qed

theorem gain_gating_witness:
  "pinkGain white_only = 0 \<and>
   \<not> (whiteGain white_only = 0 \<and> pinkGain white_only = 0 \<and> brownGain white_only = 0
        \<and> darkGain white_only = 0) \<and>
   pink_state (fst (process white_only initial_noise_state [[3 / 4], [1 / 4]]))
     = (0, 0, 0, 0, 0, 0, 0) \<and>
   lastBrown (fst (process white_only initial_noise_state [[3 / 4], [1 / 4]]))
     = integrate 0.02 [3 / 4, 1 / 4] 0 \<and>
   integrate 0.02 [3 / 4, 1 / 4] 0 = - 1 / 5202 \<and>
   pinkGain white_no_rumble = 0 \<and> rumbleGain white_no_rumble = 0 \<and>
   whiteGain white_no_rumble \<noteq> 0 \<and>
   pink_state (fst (process_rumble None white_no_rumble initial_rumble_state [[3 / 4]]))
     = (0, 0, 0, 0, 0, 0, 0) \<and>
   rumble_phases (fst (process_rumble None white_no_rumble initial_rumble_state [[3 / 4]]))
     = (0, 0, 0, 0) \<and>
   lastDark (fst (process_rumble None white_no_rumble initial_rumble_state [[3 / 4]])) = 1 / 402"
proof -
  have g: "pinkGain white_only = 0" "whiteGain white_only \<noteq> 0"
    by (simp_all add: white_only_def)
  have i: "pink_state initial_noise_state = (0, 0, 0, 0, 0, 0, 0)" "lastBrown initial_noise_state = 0"
    by (simp_all add: pink_state_def initial_noise_state_def)
  have v: "integrate 0.02 [3 / 4, 1 / 4] 0 = - 1 / 5202"
    by (simp add: integrate_def)
  from gain_gating [where p = white_only and st = initial_noise_state
      and draws = "[[3 / 4], [1 / 4]]"] g i
  have 1: "pink_state (fst (process white_only initial_noise_state [[3 / 4], [1 / 4]]))
          = (0, 0, 0, 0, 0, 0, 0)"
    and 2: "lastBrown (fst (process white_only initial_noise_state [[3 / 4], [1 / 4]]))
          = integrate 0.02 [3 / 4, 1 / 4] 0"
    by simp_all
  have h: "pinkGain white_no_rumble = 0" "rumbleGain white_no_rumble = 0"
    "whiteGain white_no_rumble \<noteq> 0"
    by (simp_all add: white_no_rumble_def)
  have j: "pink_state initial_rumble_state = (0, 0, 0, 0, 0, 0, 0)"
    "rumble_phases initial_rumble_state = (0, 0, 0, 0)" "lastDark initial_rumble_state = 0"
    by (simp_all add: pink_state_def rumble_phases_def initial_rumble_state_def)
  have w: "integrate 0.005 [3 / 4] 0 = 1 / 402"
    by (simp add: integrate_def)
  from gain_gating [where q = white_no_rumble and rst = initial_rumble_state
      and draws = "[[3 / 4]]" and rate = None] h j w
  have 3: "pink_state (fst (process_rumble None white_no_rumble initial_rumble_state [[3 / 4]]))
     = (0, 0, 0, 0, 0, 0, 0)"
    and 4: "rumble_phases (fst (process_rumble None white_no_rumble initial_rumble_state [[3 / 4]]))
     = (0, 0, 0, 0)"
    and 5: "lastDark (fst (process_rumble None white_no_rumble initial_rumble_state [[3 / 4]]))
     = 1 / 402"
    by simp_all
  show ?thesis using g h v 1 2 3 4 5 by (intro conjI) simp_all
qed

text \<open>
  The claim C8 as it is worded fails for brown and dark: with white at gain 1 and brown
  and dark at gain 0, one sample moves brown's integrator from \<open>0\<close> to \<open>1/102\<close>
  and dark's from \<open>0\<close> to \<open>1/402\<close>.
\<close>

theorem brown_advances_at_zero_gain_counterexample:
  "brownGain white_only = 0 \<and> darkGain white_only = 0 \<and> whiteGain white_only \<noteq> 0 \<and>
   lastBrown initial_noise_state = 0 \<and> lastDark initial_noise_state = 0 \<and>
   lastBrown (fst (process white_only initial_noise_state [[3 / 4]])) = 1 / 102 \<and>
   lastDark (fst (process white_only initial_noise_state [[3 / 4]])) = 1 / 402"
  by (simp add: process_def white_only_def colours_def Let_def initial_noise_state_def)

subsection \<open>AudioEngine: adaptive and reactive gain, density, equaliser\<close>

lemma demo_engine_fields:
  "ctx demo_engine = Some 2"
  "eqFilters demo_engine = replicate 5 \<lparr>param_value = 0, scheduled = []\<rparr>"
  "adaptiveGainNode demo_engine = Some \<lparr>param_value = 1, scheduled = []\<rparr>"
  "reactiveGainNode demo_engine = Some \<lparr>param_value = 1, scheduled = []\<rparr>"
  "densityDryGain demo_engine = Some \<lparr>param_value = 1, scheduled = []\<rparr>"
  "densityWetGain demo_engine = Some \<lparr>param_value = 0, scheduled = []\<rparr>"
  "convolver demo_engine" "\<not> isAutoMode demo_engine" "detector demo_engine = None"
  "reactiveBoostStrength demo_engine = 0.3" "reactiveBoostDuration demo_engine = 10"
  "adaptiveGain demo_engine = 0" "adaptiveTargetGain demo_engine = 0"
  "adaptiveSpeedValue demo_engine = 0.5" "adaptiveDecayValue demo_engine = 0.5"
  "baseVolume demo_engine = 0.1"
  by (simp_all add: demo_engine_def init_def new_engine_def EQ_BANDS_def eval_nat_numeral)

text \<open>
  C3. In auto-detection mode, for every noise score the adaptive stage's target
  multiplier, the multiplier of the target gain that \<open>handleAdaptiveUpdate\<close> sets, is
  \<open>1.0 + min (score * 2) 0.4 * 3\<close> and never exceeds \<open>2.2\<close>. \<open>applyAdaptiveGain\<close>
  applies the multiplier of the current adaptive gain, and exactly \<open>1.0\<close> whenever that
  multiplier is below \<open>1.10\<close>; so does every step of the follower that moves the gain.
\<close>

theorem adaptive_target_and_dead_zone:
  assumes "isAutoMode e"
  shows "adaptive_multiplier (adaptiveTargetGain (handleAdaptiveUpdate e score))
           = 1.0 + min (score * 2) 0.4 * 3 \<and>
         adaptive_multiplier (adaptiveTargetGain (handleAdaptiveUpdate e score)) \<le> 2.2 \<and>
         (\<forall>node now. adaptiveGainNode e = Some node \<and> ctx e = Some now \<longrightarrow>
            adaptiveGainNode (applyAdaptiveGain e) =
              Some (setTargetAtTime node
                      (if adaptive_multiplier (adaptiveGain e) < 1.10 then 1.0
                       else adaptive_multiplier (adaptiveGain e)) now 0.1) \<and>
            (adaptive_multiplier (adaptiveGain e) < 1.10 \<longrightarrow>
               applied (adaptiveGainNode (applyAdaptiveGain e)) = Some 1.0)) \<and>
         (\<forall>node now. adaptiveGainNode e = Some node \<and> ctx e = Some now \<and>
            \<bar>adaptiveTargetGain e - adaptiveGain e\<bar> > 0.001 \<and>
            adaptive_multiplier (adaptiveGain (adaptive_loop e)) < 1.10 \<longrightarrow>
              applied (adaptiveGainNode (adaptive_loop e)) = Some 1.0)"
proof (intro conjI allI impI)
  show "adaptive_multiplier (adaptiveTargetGain (handleAdaptiveUpdate e score))
           = 1.0 + min (score * 2) 0.4 * 3"
    using assms by (simp add: handleAdaptiveUpdate_def adaptive_multiplier_def)
  have "min (score * 2) 0.4 \<le> (0.4 :: real)" by simp
  then show "adaptive_multiplier (adaptiveTargetGain (handleAdaptiveUpdate e score)) \<le> 2.2"
    using assms by (simp add: handleAdaptiveUpdate_def adaptive_multiplier_def)
next
  fix node now
  assume a: "adaptiveGainNode e = Some node \<and> ctx e = Some now"
  then show 1: "adaptiveGainNode (applyAdaptiveGain e) =
              Some (setTargetAtTime node
                      (if adaptive_multiplier (adaptiveGain e) < 1.10 then 1.0
                       else adaptive_multiplier (adaptiveGain e)) now 0.1)"
    by (simp add: applyAdaptiveGain_def Let_def)
  assume "adaptive_multiplier (adaptiveGain e) < 1.10"
  then show "applied (adaptiveGainNode (applyAdaptiveGain e)) = Some 1.0"
    by (simp add: 1 applied_def setTargetAtTime_def)
next
  fix node now
  assume a: "adaptiveGainNode e = Some node \<and> ctx e = Some now \<and>
            \<bar>adaptiveTargetGain e - adaptiveGain e\<bar> > 0.001 \<and>
            adaptive_multiplier (adaptiveGain (adaptive_loop e)) < 1.10"
  define speed where "speed =
     (if adaptiveTargetGain e - adaptiveGain e > 0 then 0.0005 + (adaptiveSpeedValue e * 0.0195)
      else 0.0001 + ((1.0 - adaptiveDecayValue e) * 0.0019))"
  define e' where "e' = e\<lparr>adaptiveGain := adaptiveGain e
                            + (adaptiveTargetGain e - adaptiveGain e) * speed\<rparr>"
  have l: "adaptive_loop e = applyAdaptiveGain e'"
    using assms a by (simp add: adaptive_loop_def Let_def e'_def speed_def)
  have g: "adaptiveGain (applyAdaptiveGain e') = adaptiveGain e'"
    by (simp add: applyAdaptiveGain_def Let_def split: option.split)
  have n: "adaptiveGainNode e' = Some node" "ctx e' = Some now"
    using a by (simp_all add: e'_def)
  have "adaptive_multiplier (adaptiveGain e') < 1.10" using a by (simp add: l g)
  then have "adaptiveGainNode (applyAdaptiveGain e') = Some (setTargetAtTime node 1.0 now 0.1)"
    using n by (simp add: applyAdaptiveGain_def Let_def)
  then show "applied (adaptiveGainNode (adaptive_loop e)) = Some 1.0"
    by (simp add: l applied_def setTargetAtTime_def)
qed

lemma auto_engine_fields:
  "ctx auto_engine = Some 2" "isAutoMode auto_engine"
  "adaptiveGainNode auto_engine = Some \<lparr>param_value = 1, scheduled = []\<rparr>"
  "reactiveGainNode auto_engine = Some \<lparr>param_value = 1, scheduled = []\<rparr>"
  "detector auto_engine = Some demo_detector"
  "reactiveBoostStrength auto_engine = 0.3" "reactiveBoostDuration auto_engine = 10"
  "adaptiveGain auto_engine = 0" "adaptiveTargetGain auto_engine = 0"
  "adaptiveSpeedValue auto_engine = 0.5" "adaptiveDecayValue auto_engine = 0.5"
  by (simp_all add: auto_engine_def demo_engine_fields)

lemma applyAdaptiveGain_gain:
  "adaptiveGain (applyAdaptiveGain e) = adaptiveGain e"
  by (simp add: applyAdaptiveGain_def Let_def split: option.split)

theorem adaptive_target_and_dead_zone_witness:
  "isAutoMode auto_engine \<and>
   adaptive_multiplier (adaptiveTargetGain (handleAdaptiveUpdate auto_engine (1 / 2))) = 22 / 10 \<and>
   adaptive_multiplier (adaptiveTargetGain (handleAdaptiveUpdate auto_engine (1 / 100))) = 106 / 100 \<and>
   adaptiveGain (adaptive_loop (handleAdaptiveUpdate auto_engine (1 / 100))) = 41 / 200000 \<and>
   applied (adaptiveGainNode (adaptive_loop (handleAdaptiveUpdate auto_engine (1 / 100)))) = Some 1 \<and>
   applied (adaptiveGainNode (applyAdaptiveGain (auto_engine\<lparr>adaptiveGain := 1 / 50\<rparr>))) = Some 1 \<and>
   applied (adaptiveGainNode (applyAdaptiveGain (auto_engine\<lparr>adaptiveGain := 1 / 5\<rparr>)))
     = Some (8 / 5)"
proof -
  define e where "e = handleAdaptiveUpdate auto_engine (1 / 100)"
  have a: "isAutoMode auto_engine" by (rule auto_engine_fields)
  have f: "isAutoMode e" "adaptiveTargetGain e = 1 / 50" "adaptiveGain e = 0"
    "adaptiveGainNode e = Some \<lparr>param_value = 1, scheduled = []\<rparr>" "ctx e = Some 2"
    "adaptiveSpeedValue e = 1 / 2" "adaptiveDecayValue e = 1 / 2"
    by (simp_all add: e_def handleAdaptiveUpdate_def auto_engine_fields)
  have g: "adaptiveGain (adaptive_loop e) = 41 / 200000"
    by (simp add: adaptive_loop_def Let_def f applyAdaptiveGain_gain)
  have 1: "adaptive_multiplier (adaptiveTargetGain (handleAdaptiveUpdate auto_engine (1 / 2))) = 22 / 10"
    using adaptive_target_and_dead_zone [OF a, of "1 / 2"] by simp
  have 2: "adaptive_multiplier (adaptiveTargetGain e) = 106 / 100"
    unfolding e_def using adaptive_target_and_dead_zone [OF a, of "1 / 100"] by simp
  have "adaptive_multiplier (adaptiveGain (adaptive_loop e)) < 1.10"
    by (simp add: g adaptive_multiplier_def)
  with adaptive_target_and_dead_zone [OF f(1), of 0] f
  have 3: "applied (adaptiveGainNode (adaptive_loop e)) = Some 1"
    by simp
  define e1 where "e1 = auto_engine\<lparr>adaptiveGain := 1 / 50\<rparr>"
  define e2 where "e2 = auto_engine\<lparr>adaptiveGain := 1 / 5\<rparr>"
  have f1: "isAutoMode e1" "adaptiveGainNode e1 = Some \<lparr>param_value = 1, scheduled = []\<rparr>"
    "ctx e1 = Some 2" "adaptive_multiplier (adaptiveGain e1) < 1.10"
    by (simp_all add: e1_def auto_engine_fields adaptive_multiplier_def)
  have f2: "isAutoMode e2" "adaptiveGainNode e2 = Some \<lparr>param_value = 1, scheduled = []\<rparr>"
    "ctx e2 = Some 2" "\<not> adaptive_multiplier (adaptiveGain e2) < 1.10"
    "adaptive_multiplier (adaptiveGain e2) = 8 / 5"
    by (simp_all add: e2_def auto_engine_fields adaptive_multiplier_def)
  from adaptive_target_and_dead_zone [OF f1(1), of 0] f1
  have 4: "applied (adaptiveGainNode (applyAdaptiveGain e1)) = Some 1"
    by (simp add: applied_def setTargetAtTime_def)
  from adaptive_target_and_dead_zone [OF f2(1), of 0] f2
  have 5: "applied (adaptiveGainNode (applyAdaptiveGain e2)) = Some (8 / 5)"
    by (simp add: applied_def setTargetAtTime_def)
  from a 1 2 g 3 4 5 show ?thesis unfolding e_def e1_def e2_def by simp
qed

text \<open>
  C5. On an impact, in auto mode with a detector whose reactive detection is enabled,
  \<open>handleReactiveImpact\<close> removes every scheduled event at or after the current time
  and schedules, in this order: the node's current value at the current time, a linear
  ramp to \<open>1.0 + intensity * strength * 3\<close> ending \<open>0.1\<close> s later, that same value
  again \<open>duration * 0.5\<close> s after the end of the ramp (the hold), and an exponential
  ramp to \<open>1.0\<close> ending a further \<open>duration * 0.5\<close> s later. With strength
  \<open>0.3\<close>, duration \<open>10\<close> and intensity \<open>1.0\<close> the peak is \<open>1.9\<close>.
\<close>

theorem reactive_envelope:
  assumes "isAutoMode e" and "detector e = Some det" and "reactiveEnabled det"
    and "reactiveGainNode e = Some gain" and "ctx e = Some now"
  shows "\<exists>gain'. reactiveGainNode (handleReactiveImpact e intensity bandId) = Some gain' \<and>
           scheduled gain' =
             filter (\<lambda>ev. event_time ev < now) (scheduled gain) @
             [SetValueAtTime (param_value gain) now,
              LinearRampToValueAtTime (1.0 + intensity * reactiveBoostStrength e * 3) (now + 0.1),
              SetValueAtTime (1.0 + intensity * reactiveBoostStrength e * 3)
                (now + 0.1 + reactiveBoostDuration e * 0.5),
              ExponentialRampToValueAtTime 1.0
                (now + 0.1 + reactiveBoostDuration e * 0.5 + reactiveBoostDuration e * 0.5)] \<and>
           (reactiveBoostStrength e = 0.3 \<and> reactiveBoostDuration e = 10 \<and> intensity = 1.0 \<longrightarrow>
              scheduled gain' =
                filter (\<lambda>ev. event_time ev < now) (scheduled gain) @
                [SetValueAtTime (param_value gain) now,
                 LinearRampToValueAtTime 1.9 (now + 0.1),
                 SetValueAtTime 1.9 (now + 0.1 + 5),
                 ExponentialRampToValueAtTime 1.0 (now + 0.1 + 5 + 5)])"
  using assms
  by (simp add: handleReactiveImpact_def Let_def cancelScheduledValues_def setValueAtTime_def
        linearRampToValueAtTime_def exponentialRampToValueAtTime_def)

theorem reactive_envelope_witness:
  "isAutoMode mid_attack_engine \<and> detector mid_attack_engine = Some demo_detector \<and>
   reactiveEnabled demo_detector \<and> ctx mid_attack_engine = Some 2 \<and>
   map_option scheduled
     (reactiveGainNode (handleReactiveImpact (auto_engine\<lparr>ctx := Some (39 / 20)\<rparr>) 1 None))
     = Some [SetValueAtTime 1 (39 / 20), LinearRampToValueAtTime (19 / 10) (41 / 20),
             SetValueAtTime (19 / 10) (141 / 20), ExponentialRampToValueAtTime 1 (241 / 20)] \<and>
   map_option param_value (reactiveGainNode mid_attack_engine) = Some (29 / 20) \<and>
   map_option scheduled (reactiveGainNode (handleReactiveImpact mid_attack_engine 1 None))
     = Some [SetValueAtTime 1 (39 / 20), SetValueAtTime (29 / 20) 2,
             LinearRampToValueAtTime (19 / 10) (21 / 10), SetValueAtTime (19 / 10) (71 / 10),
             ExponentialRampToValueAtTime 1 (121 / 10)]"
proof -
  have r: "reactiveEnabled demo_detector"
    by (simp add: demo_detector_def new_detector_def setSimpleMode_def SIMPLE_MODES_def)
  define e0 where "e0 = auto_engine\<lparr>ctx := Some (39 / 20)\<rparr>"
  have e0: "isAutoMode e0" "detector e0 = Some demo_detector"
    "reactiveGainNode e0 = Some \<lparr>param_value = 1, scheduled = []\<rparr>" "ctx e0 = Some (39 / 20)"
    "reactiveBoostStrength e0 = 3 / 10" "reactiveBoostDuration e0 = 10"
    by (simp_all add: e0_def auto_engine_fields)
  from reactive_envelope [OF e0(1) e0(2) r e0(3) e0(4), of 1 None] e0(5,6)
  have first: "map_option scheduled (reactiveGainNode (handleReactiveImpact e0 1 None))
     = Some [SetValueAtTime 1 (39 / 20), LinearRampToValueAtTime (19 / 10) (41 / 20),
             SetValueAtTime (19 / 10) (141 / 20), ExponentialRampToValueAtTime 1 (241 / 20)]"
    by auto
  have m: "isAutoMode mid_attack_engine" "detector mid_attack_engine = Some demo_detector"
    "ctx mid_attack_engine = Some 2"
    "reactiveGainNode mid_attack_engine = Some \<lparr>param_value = 29 / 20, scheduled =
          [SetValueAtTime 1 (39 / 20), LinearRampToValueAtTime (19 / 10) (41 / 20),
           SetValueAtTime (19 / 10) (141 / 20), ExponentialRampToValueAtTime 1 (241 / 20)]\<rparr>"
    "reactiveBoostStrength mid_attack_engine = 3 / 10" "reactiveBoostDuration mid_attack_engine = 10"
    by (simp_all add: mid_attack_engine_def handleReactiveImpact_def Let_def auto_engine_fields r
          cancelScheduledValues_def setValueAtTime_def linearRampToValueAtTime_def
          exponentialRampToValueAtTime_def)
  from reactive_envelope [OF m(1) m(2) r m(4) m(3), of 1 None] m(5,6)
  have second: "map_option scheduled (reactiveGainNode (handleReactiveImpact mid_attack_engine 1 None))
     = Some [SetValueAtTime 1 (39 / 20), SetValueAtTime (29 / 20) 2,
             LinearRampToValueAtTime (19 / 10) (21 / 10), SetValueAtTime (19 / 10) (71 / 10),
             ExponentialRampToValueAtTime 1 (121 / 10)]"
    by auto
  from m r first second show ?thesis unfolding e0_def by simp
qed

text \<open>
  C6. For every density \<open>d\<close>, \<open>setDensity\<close> on an engine whose density nodes exist
  sets the dry target to \<open>cos (d * \<pi> / 2)\<close> and the wet target to
  \<open>sin (d * \<pi> / 2)\<close>; their squares sum to \<open>1\<close>; for \<open>d\<close> in \<open>[0,1]\<close> both lie
  in \<open>[0,1]\<close>; \<open>d = 0\<close> gives \<open>(1,0)\<close> and \<open>d = 1\<close> gives \<open>(0,1)\<close>.
\<close>

theorem density_crossfade:
  assumes "densityDryGain e = Some dryGain" and "densityWetGain e = Some wetGain"
    and "ctx e = Some now" and "convolver e"
  shows "\<exists>dry wet.
           densityDryGain (setDensity e d) = Some (setTargetAtTime dryGain dry now 0.1) \<and>
           densityWetGain (setDensity e d) = Some (setTargetAtTime wetGain wet now 0.1) \<and>
           applied (densityDryGain (setDensity e d)) = Some dry \<and>
           applied (densityWetGain (setDensity e d)) = Some wet \<and>
           dry = cos (d * pi / 2) \<and> wet = sin (d * pi / 2) \<and>
           dry\<^sup>2 + wet\<^sup>2 = 1 \<and>
           (0 \<le> d \<and> d \<le> 1 \<longrightarrow> 0 \<le> dry \<and> dry \<le> 1 \<and> 0 \<le> wet \<and> wet \<le> 1) \<and>
           (d = 0 \<longrightarrow> dry = 1 \<and> wet = 0) \<and>
           (d = 1 \<longrightarrow> dry = 0 \<and> wet = 1)"
proof (intro exI conjI impI)
  have h: "d * 0.5 * pi = d * pi / 2" by simp
  show "densityDryGain (setDensity e d) = Some (setTargetAtTime dryGain (cos (d * pi / 2)) now 0.1)"
    using assms by (simp add: setDensity_def Let_def h)
  show "densityWetGain (setDensity e d) = Some (setTargetAtTime wetGain (sin (d * pi / 2)) now 0.1)"
    using assms by (simp add: setDensity_def Let_def h)
  show "applied (densityDryGain (setDensity e d)) = Some (cos (d * pi / 2))"
    using assms by (simp add: setDensity_def Let_def h applied_def setTargetAtTime_def)
  show "applied (densityWetGain (setDensity e d)) = Some (sin (d * pi / 2))"
    using assms by (simp add: setDensity_def Let_def h applied_def setTargetAtTime_def)
  show "cos (d * pi / 2) = cos (d * pi / 2)" "sin (d * pi / 2) = sin (d * pi / 2)" by simp_all
  show "(cos (d * pi / 2))\<^sup>2 + (sin (d * pi / 2))\<^sup>2 = 1" by simp
  show "cos (d * pi / 2) \<le> 1" "sin (d * pi / 2) \<le> 1" by simp_all
next
  assume r: "0 \<le> d \<and> d \<le> 1"
  have a: "0 \<le> d * pi / 2" using r by simp
  have "d * pi \<le> 1 * pi" using r by (intro mult_right_mono) simp_all
  then have b: "d * pi / 2 \<le> pi / 2" by simp
  have c: "- (pi / 2) \<le> d * pi / 2" using a pi_ge_zero by linarith
  have d: "d * pi / 2 \<le> pi" using b pi_ge_zero by linarith
  show "0 \<le> cos (d * pi / 2)" using c b by (rule cos_ge_zero)
  show "0 \<le> sin (d * pi / 2)" using a d by (rule sin_ge_zero)
next
  assume "d = 0"
  then show "cos (d * pi / 2) = 1" "sin (d * pi / 2) = 0" by simp_all
next
  assume "d = 1"
  then show "cos (d * pi / 2) = 0" "sin (d * pi / 2) = 1" by simp_all
qed

theorem density_crossfade_witness:
  "densityDryGain demo_engine = Some \<lparr>param_value = 1, scheduled = []\<rparr> \<and>
   densityWetGain demo_engine = Some \<lparr>param_value = 0, scheduled = []\<rparr> \<and>
   ctx demo_engine = Some 2 \<and> convolver demo_engine \<and>
   applied (densityDryGain (setDensity demo_engine 1)) = Some 0 \<and>
   applied (densityWetGain (setDensity demo_engine 1)) = Some 1 \<and>
   applied (densityDryGain (setDensity demo_engine 0)) = Some 1 \<and>
   applied (densityWetGain (setDensity demo_engine 0)) = Some 0 \<and>
   applied (densityDryGain (setDensity demo_engine (1 / 2))) = Some (cos (pi / 4))"
proof -
  note d = demo_engine_fields(5) demo_engine_fields(6) demo_engine_fields(1) demo_engine_fields(7)
  from density_crossfade [OF d, of 1]
  have 1: "applied (densityDryGain (setDensity demo_engine 1)) = Some 0"
    "applied (densityWetGain (setDensity demo_engine 1)) = Some 1"
    by auto
  from density_crossfade [OF d, of 0]
  have 2: "applied (densityDryGain (setDensity demo_engine 0)) = Some 1"
    "applied (densityWetGain (setDensity demo_engine 0)) = Some 0"
    by auto
  from density_crossfade [OF d, of "1 / 2"]
  have 3: "applied (densityDryGain (setDensity demo_engine (1 / 2))) = Some (cos (pi / 4))"
    by auto
  from d 1 2 3 show ?thesis by simp
qed

text \<open>
  C9 (as amended). For every band index outside \<open>[0, n)\<close>, \<open>n\<close> being the number of
  EQ filters (five once the engine is initialised), \<open>setEQBand\<close> is a no-op whatever
  the gain: the engine, its filters included, is unchanged. So it is for an index that
  is not a whole number, and while there is no audio context. For a valid index every
  gain, a negative one included, is scheduled as that filter's target with time constant
  \<open>0.02\<close>. The model has no exception: the method raises none.
\<close>

theorem setEQBand_index_guard:
  "(bandIndex < 0 \<or> bandIndex \<ge> real (length (eqFilters e)) \<longrightarrow>
      setEQBand e bandIndex gainDb = e) \<and>
   (bandIndex \<noteq> of_int \<lfloor>bandIndex\<rfloor> \<longrightarrow> setEQBand e bandIndex gainDb = e) \<and>
   (ctx e = None \<longrightarrow> setEQBand e bandIndex gainDb = e) \<and>
   (\<forall>k now. k < length (eqFilters e) \<and> ctx e = Some now \<longrightarrow>
      setEQBand e (real k) gainDb =
        e\<lparr>eqFilters := (eqFilters e)[k := setTargetAtTime (eqFilters e ! k) gainDb now 0.02]\<rparr> \<and>
      applied (Some (eqFilters (setEQBand e (real k) gainDb) ! k)) = Some gainDb)"
proof (intro conjI impI allI)
  assume "bandIndex < 0 \<or> bandIndex \<ge> real (length (eqFilters e))"
  then show "setEQBand e bandIndex gainDb = e" by (auto simp: setEQBand_def)
next
  assume "bandIndex \<noteq> of_int \<lfloor>bandIndex\<rfloor>"
  then show "setEQBand e bandIndex gainDb = e" by (simp add: setEQBand_def array_get_def)
next
  assume "ctx e = None"
  then show "setEQBand e bandIndex gainDb = e"
    by (simp add: setEQBand_def split: option.split)
next
  fix k now
  assume a: "k < length (eqFilters e) \<and> ctx e = Some now"
  then have g: "array_get (eqFilters e) (real k) = Some (eqFilters e ! k)"
    by (simp add: array_get_def)
  show s: "setEQBand e (real k) gainDb =
        e\<lparr>eqFilters := (eqFilters e)[k := setTargetAtTime (eqFilters e ! k) gainDb now 0.02]\<rparr>"
    using a by (simp add: setEQBand_def g)
  show "applied (Some (eqFilters (setEQBand e (real k) gainDb) ! k)) = Some gainDb"
    using a by (simp add: s applied_def setTargetAtTime_def)
qed

theorem setEQBand_index_guard_witness:
  "length (eqFilters demo_engine) = 5 \<and> ctx demo_engine = Some 2 \<and>
   setEQBand demo_engine 5 3 = demo_engine \<and>
   setEQBand demo_engine (- 1) 3 = demo_engine \<and>
   setEQBand demo_engine (3 / 2) 3 = demo_engine \<and>
   setEQBand new_engine 0 3 = new_engine \<and>
   setEQBand (demo_engine\<lparr>ctx := None\<rparr>) 0 3 = demo_engine\<lparr>ctx := None\<rparr> \<and>
   applied (Some (eqFilters (setEQBand demo_engine 4 (- 5)) ! 4)) = Some (- 5)"
proof -
  have l: "length (eqFilters demo_engine) = 5" "ctx demo_engine = Some 2"
    "length (eqFilters new_engine) = 0"
    by (simp_all add: demo_engine_fields new_engine_def)
  note t = setEQBand_index_guard [where e = demo_engine and gainDb = 3]
  from t [where bandIndex = 5] l have 1: "setEQBand demo_engine 5 3 = demo_engine" by simp
  from t [where bandIndex = "- 1"] l have 2: "setEQBand demo_engine (- 1) 3 = demo_engine" by simp
  have "(3 / 2 :: real) \<noteq> of_int \<lfloor>3 / 2 :: real\<rfloor>" by simp
  with t [where bandIndex = "3 / 2"] have 3: "setEQBand demo_engine (3 / 2) 3 = demo_engine"
    by blast
  from setEQBand_index_guard [where e = new_engine and gainDb = 3 and bandIndex = 0] l
  have 4: "setEQBand new_engine 0 3 = new_engine" by simp
  from setEQBand_index_guard [where e = "demo_engine\<lparr>ctx := None\<rparr>" and gainDb = 3
      and bandIndex = 0]
  have 6: "setEQBand (demo_engine\<lparr>ctx := None\<rparr>) 0 3 = demo_engine\<lparr>ctx := None\<rparr>" by simp
  from setEQBand_index_guard [where e = demo_engine and gainDb = "- 5" and bandIndex = 0]
  have "\<forall>k now. k < length (eqFilters demo_engine) \<and> ctx demo_engine = Some now \<longrightarrow>
      applied (Some (eqFilters (setEQBand demo_engine (real k) (- 5)) ! k)) = Some (- 5)"
    by blast
  from this [rule_format, of 4 2] l
  have "applied (Some (eqFilters (setEQBand demo_engine (real (4::nat)) (- 5)) ! 4)) = Some (- 5)"
    by simp
  then have 5: "applied (Some (eqFilters (setEQBand demo_engine 4 (- 5)) ! 4)) = Some (- 5)"
    by simp
  from l 1 2 3 4 5 6 show ?thesis by simp
qed

text \<open>
  The claim C9 as it is worded fails for a negative gain: \<open>setEQBand(0, -5)\<close> on an
  initialised engine is not a no-op; it schedules \<open>-5\<close> dB as the target of the first
  filter.
\<close>

theorem setEQBand_negative_gain_counterexample:
  "setEQBand demo_engine 0 (- 5) \<noteq> demo_engine \<and>
   eqFilters demo_engine ! 0 = \<lparr>param_value = 0, scheduled = []\<rparr> \<and>
   eqFilters (setEQBand demo_engine 0 (- 5)) ! 0
     = \<lparr>param_value = 0, scheduled = [SetTargetAtTime (- 5) 2 (1 / 50)]\<rparr>"
proof -
  have a: "eqFilters demo_engine ! 0 = \<lparr>param_value = 0, scheduled = []\<rparr>"
    by (simp add: demo_engine_fields)
  have b: "eqFilters (setEQBand demo_engine 0 (- 5)) ! 0
     = \<lparr>param_value = 0, scheduled = [SetTargetAtTime (- 5) 2 (1 / 50)]\<rparr>"
    by (simp add: setEQBand_def array_get_def demo_engine_fields setTargetAtTime_def)
  from a b have "eqFilters (setEQBand demo_engine 0 (- 5)) \<noteq> eqFilters demo_engine"
    by (metis audio_param.ext_inject list.distinct(1))
  then have "setEQBand demo_engine 0 (- 5) \<noteq> demo_engine" by auto
  with a b show ?thesis by simp
qed

end
